theory Spec2Isabelle
  imports Main "HOL-Library.Word" "HOL-Library.Char_ord" "HOL-Library.List_Lexorder"
begin

unbundle bit_operations_syntax

section \<open>Data model of the TensorFlow backend\<close>

text \<open>
  The embedding follows \<^verbatim>\<open>src/tensorflow_utils.cc\<close> and \<^verbatim>\<open>src/tensorflow.cc\<close>.
  A \<^verbatim>\<open>TRITONTF_Shape\<close> (a \<^verbatim>\<open>rank_\<close> and an array \<^verbatim>\<open>dims_\<close> of \<^verbatim>\<open>rank_\<close>
  values of type \<^verbatim>\<open>int64_t\<close>) is the list of its dimensions, \<^verbatim>\<open>rank_\<close> being the
  length of the list. A \<^verbatim>\<open>TRITONTF_IOList\<close> (a linked list closed by \<^verbatim>\<open>nullptr\<close>)
  is a list of \<^verbatim>\<open>TRITONTF_IO\<close> records. A \<^verbatim>\<open>TRITONSERVER_Error*\<close> is an option:
  \<^verbatim>\<open>nullptr\<close>, the success value, is \<open>None\<close>.
\<close>

type_synonym int64_t = "64 word"
type_synonym TRITONTF_Shape = "int64_t list"

text \<open>
  The enumerators are the ones the source names. The headers that declare the two
  enumerations are not part of the sources read here, so each type has one more
  constructor standing for any enumerator value the source does not name (the
  \<^verbatim>\<open>default:\<close> branch of the switches).
\<close>

datatype TRITONTF_DataType =
    TRITONTF_TYPE_INVALID | TRITONTF_TYPE_BOOL
  | TRITONTF_TYPE_UINT8 | TRITONTF_TYPE_UINT16 | TRITONTF_TYPE_UINT32 | TRITONTF_TYPE_UINT64
  | TRITONTF_TYPE_INT8 | TRITONTF_TYPE_INT16 | TRITONTF_TYPE_INT32 | TRITONTF_TYPE_INT64
  | TRITONTF_TYPE_FP16 | TRITONTF_TYPE_FP32 | TRITONTF_TYPE_FP64
  | TRITONTF_TYPE_STRING
  | TRITONTF_TYPE_unnamed nat

datatype TRITONSERVER_DataType =
    TRITONSERVER_TYPE_INVALID | TRITONSERVER_TYPE_BOOL
  | TRITONSERVER_TYPE_UINT8 | TRITONSERVER_TYPE_UINT16 | TRITONSERVER_TYPE_UINT32
  | TRITONSERVER_TYPE_UINT64
  | TRITONSERVER_TYPE_INT8 | TRITONSERVER_TYPE_INT16 | TRITONSERVER_TYPE_INT32
  | TRITONSERVER_TYPE_INT64
  | TRITONSERVER_TYPE_FP16 | TRITONSERVER_TYPE_FP32 | TRITONSERVER_TYPE_FP64
  | TRITONSERVER_TYPE_BYTES
  | TRITONSERVER_TYPE_unnamed nat

datatype TRITONSERVER_Error_Code =
    TRITONSERVER_ERROR_INTERNAL | TRITONSERVER_ERROR_INVALID_ARG
  | TRITONSERVER_ERROR_NOT_FOUND | TRITONSERVER_ERROR_UNAVAILABLE

record TRITONSERVER_Error =
  err_code :: TRITONSERVER_Error_Code
  err_msg :: string

definition TRITONSERVER_ErrorNew :: "TRITONSERVER_Error_Code \<Rightarrow> string \<Rightarrow> TRITONSERVER_Error" where
  "TRITONSERVER_ErrorNew c m = \<lparr>err_code = c, err_msg = m\<rparr>"

record TRITONTF_IO =
  io_name :: string
  io_inmodel_name :: string
  io_data_type :: TRITONTF_DataType
  io_shape :: TRITONTF_Shape

type_synonym TRITONTF_IOList = "TRITONTF_IO list"

text \<open>
  Modelled from the spec: \<^verbatim>\<open>WILDCARD_DIM\<close> is declared in
  \<^verbatim>\<open>triton/backend/backend_common.h\<close>, which is not among the sources. The
  reserved wildcard dimension is \<open>-1\<close>, the literal that \<^verbatim>\<open>ModelSupportsBatch\<close>
  and \<^verbatim>\<open>FixBatchingSupport\<close> compare with.
\<close>

definition WILDCARD_DIM :: int64_t where
  "WILDCARD_DIM = - 1"

section \<open>Datatype conversions (tensorflow\_utils.cc)\<close>

text \<open>\<^verbatim>\<open>TRITONSERVER_DataType ConvertDataType(TRITONTF_DataType dtype)\<close>\<close>

fun ConvertDataType_tf :: "TRITONTF_DataType \<Rightarrow> TRITONSERVER_DataType" where
  "ConvertDataType_tf TRITONTF_TYPE_INVALID = TRITONSERVER_TYPE_INVALID"
| "ConvertDataType_tf TRITONTF_TYPE_BOOL = TRITONSERVER_TYPE_BOOL"
| "ConvertDataType_tf TRITONTF_TYPE_UINT8 = TRITONSERVER_TYPE_UINT8"
| "ConvertDataType_tf TRITONTF_TYPE_UINT16 = TRITONSERVER_TYPE_UINT16"
| "ConvertDataType_tf TRITONTF_TYPE_UINT32 = TRITONSERVER_TYPE_UINT32"
| "ConvertDataType_tf TRITONTF_TYPE_UINT64 = TRITONSERVER_TYPE_UINT64"
| "ConvertDataType_tf TRITONTF_TYPE_INT8 = TRITONSERVER_TYPE_INT8"
| "ConvertDataType_tf TRITONTF_TYPE_INT16 = TRITONSERVER_TYPE_INT16"
| "ConvertDataType_tf TRITONTF_TYPE_INT32 = TRITONSERVER_TYPE_INT32"
| "ConvertDataType_tf TRITONTF_TYPE_INT64 = TRITONSERVER_TYPE_INT64"
| "ConvertDataType_tf TRITONTF_TYPE_FP16 = TRITONSERVER_TYPE_FP16"
| "ConvertDataType_tf TRITONTF_TYPE_FP32 = TRITONSERVER_TYPE_FP32"
| "ConvertDataType_tf TRITONTF_TYPE_FP64 = TRITONSERVER_TYPE_FP64"
| "ConvertDataType_tf TRITONTF_TYPE_STRING = TRITONSERVER_TYPE_BYTES"
| "ConvertDataType_tf (TRITONTF_TYPE_unnamed n) = TRITONSERVER_TYPE_INVALID"

text \<open>\<^verbatim>\<open>TRITONTF_DataType ConvertDataType(const std::string& dtype)\<close>\<close>

definition ConvertDataType_str :: "string \<Rightarrow> TRITONTF_DataType" where
  "ConvertDataType_str dtype =
    (if dtype = ''TYPE_INVALID'' then TRITONTF_TYPE_INVALID
     else if dtype = ''TYPE_BOOL'' then TRITONTF_TYPE_BOOL
     else if dtype = ''TYPE_UINT8'' then TRITONTF_TYPE_UINT8
     else if dtype = ''TYPE_UINT16'' then TRITONTF_TYPE_UINT16
     else if dtype = ''TYPE_UINT32'' then TRITONTF_TYPE_UINT32
     else if dtype = ''TYPE_UINT64'' then TRITONTF_TYPE_UINT64
     else if dtype = ''TYPE_INT8'' then TRITONTF_TYPE_INT8
     else if dtype = ''TYPE_INT16'' then TRITONTF_TYPE_INT16
     else if dtype = ''TYPE_INT32'' then TRITONTF_TYPE_INT32
     else if dtype = ''TYPE_INT64'' then TRITONTF_TYPE_INT64
     else if dtype = ''TYPE_FP16'' then TRITONTF_TYPE_FP16
     else if dtype = ''TYPE_FP32'' then TRITONTF_TYPE_FP32
     else if dtype = ''TYPE_FP64'' then TRITONTF_TYPE_FP64
     else if dtype = ''TYPE_STRING'' then TRITONTF_TYPE_STRING
     else TRITONTF_TYPE_INVALID)"

text \<open>\<^verbatim>\<open>std::string ConvertToModelConfigString(TRITONTF_DataType dtype)\<close>\<close>

definition ConvertToModelConfigString :: "TRITONTF_DataType \<Rightarrow> string" where
  "ConvertToModelConfigString dtype =
    (if dtype = TRITONTF_TYPE_INVALID then ''TYPE_INVALID''
     else if dtype = TRITONTF_TYPE_BOOL then ''TYPE_BOOL''
     else if dtype = TRITONTF_TYPE_UINT8 then ''TYPE_UINT8''
     else if dtype = TRITONTF_TYPE_UINT16 then ''TYPE_UINT16''
     else if dtype = TRITONTF_TYPE_UINT32 then ''TYPE_UINT32''
     else if dtype = TRITONTF_TYPE_UINT64 then ''TYPE_UINT64''
     else if dtype = TRITONTF_TYPE_INT8 then ''TYPE_INT8''
     else if dtype = TRITONTF_TYPE_INT16 then ''TYPE_INT16''
     else if dtype = TRITONTF_TYPE_INT32 then ''TYPE_INT32''
     else if dtype = TRITONTF_TYPE_INT64 then ''TYPE_INT64''
     else if dtype = TRITONTF_TYPE_FP16 then ''TYPE_FP16''
     else if dtype = TRITONTF_TYPE_FP32 then ''TYPE_FP32''
     else if dtype = TRITONTF_TYPE_FP64 then ''TYPE_FP64''
     else if dtype = TRITONTF_TYPE_STRING then ''TYPE_STRING''
     else ''TYPE_INVALID'')"

text \<open>\<^verbatim>\<open>TRITONTF_DataType ConvertDataType(TRITONSERVER_DataType dtype)\<close>\<close>

fun ConvertDataType_ts :: "TRITONSERVER_DataType \<Rightarrow> TRITONTF_DataType" where
  "ConvertDataType_ts TRITONSERVER_TYPE_INVALID = TRITONTF_TYPE_INVALID"
| "ConvertDataType_ts TRITONSERVER_TYPE_BOOL = TRITONTF_TYPE_BOOL"
| "ConvertDataType_ts TRITONSERVER_TYPE_UINT8 = TRITONTF_TYPE_UINT8"
| "ConvertDataType_ts TRITONSERVER_TYPE_UINT16 = TRITONTF_TYPE_UINT16"
| "ConvertDataType_ts TRITONSERVER_TYPE_UINT32 = TRITONTF_TYPE_UINT32"
| "ConvertDataType_ts TRITONSERVER_TYPE_UINT64 = TRITONTF_TYPE_UINT64"
| "ConvertDataType_ts TRITONSERVER_TYPE_INT8 = TRITONTF_TYPE_INT8"
| "ConvertDataType_ts TRITONSERVER_TYPE_INT16 = TRITONTF_TYPE_INT16"
| "ConvertDataType_ts TRITONSERVER_TYPE_INT32 = TRITONTF_TYPE_INT32"
| "ConvertDataType_ts TRITONSERVER_TYPE_INT64 = TRITONTF_TYPE_INT64"
| "ConvertDataType_ts TRITONSERVER_TYPE_FP16 = TRITONTF_TYPE_FP16"
| "ConvertDataType_ts TRITONSERVER_TYPE_FP32 = TRITONTF_TYPE_FP32"
| "ConvertDataType_ts TRITONSERVER_TYPE_FP64 = TRITONTF_TYPE_FP64"
| "ConvertDataType_ts TRITONSERVER_TYPE_BYTES = TRITONTF_TYPE_STRING"
| "ConvertDataType_ts (TRITONSERVER_TYPE_unnamed n) = TRITONTF_TYPE_INVALID"

text \<open>\<^verbatim>\<open>bool CompareDataType(TRITONTF_DataType model_dtype, const std::string& dtype)\<close>\<close>

definition CompareDataType :: "TRITONTF_DataType \<Rightarrow> string \<Rightarrow> bool" where
  "CompareDataType model_dtype dtype =
    (let cdtype = ConvertDataType_str dtype in
     if cdtype = TRITONTF_TYPE_INVALID then False else model_dtype = cdtype)"

text \<open>
  The type names of the model configuration that \<^verbatim>\<open>ConvertDataType\<close> recognises, and
  the enumerators the conversions name.
\<close>

definition config_type_names :: "string list" where
  "config_type_names =
    [''TYPE_INVALID'', ''TYPE_BOOL'', ''TYPE_UINT8'', ''TYPE_UINT16'', ''TYPE_UINT32'',
     ''TYPE_UINT64'', ''TYPE_INT8'', ''TYPE_INT16'', ''TYPE_INT32'', ''TYPE_INT64'',
     ''TYPE_FP16'', ''TYPE_FP32'', ''TYPE_FP64'', ''TYPE_STRING'']"

fun named_tf_type :: "TRITONTF_DataType \<Rightarrow> bool" where
  "named_tf_type (TRITONTF_TYPE_unnamed n) = False"
| "named_tf_type d = True"

fun named_ts_type :: "TRITONSERVER_DataType \<Rightarrow> bool" where
  "named_ts_type (TRITONSERVER_TYPE_unnamed n) = False"
| "named_ts_type d = True"

section \<open>Shape checks (tensorflow\_utils.cc)\<close>

text \<open>
  \<^verbatim>\<open>bool ModelSupportsBatch(std::vector<const TRITONTF_IOList*> model_ios)\<close>: the
  inner loop walks one list and leaves the function with \<open>False\<close> at the first tensor
  whose rank is not 0 and whose first dimension is not \<open>-1\<close>.
\<close>

fun ModelSupportsBatch_ios :: "TRITONTF_IOList \<Rightarrow> bool" where
  "ModelSupportsBatch_ios [] = True"
| "ModelSupportsBatch_ios (io # itr) =
    (if length (io_shape io) \<noteq> 0 \<and> io_shape io ! 0 \<noteq> - 1 then False
     else ModelSupportsBatch_ios itr)"

fun ModelSupportsBatch :: "TRITONTF_IOList list \<Rightarrow> bool" where
  "ModelSupportsBatch [] = True"
| "ModelSupportsBatch (ios # model_ios) =
    (if ModelSupportsBatch_ios ios then ModelSupportsBatch model_ios else False)"

text \<open>\<^verbatim>\<open>std::to_string\<close> on unsigned and signed integers: decimal digits.\<close>

fun to_string_nat :: "nat \<Rightarrow> string" where
  "to_string_nat n =
    (if n < 10 then [char_of (48 + n)]
     else to_string_nat (n div 10) @ [char_of (48 + n mod 10)])"

declare to_string_nat.simps [simp del]

definition to_string_int :: "int \<Rightarrow> string" where
  "to_string_int i = (if i < 0 then CHR ''-'' # to_string_nat (nat (- i)) else to_string_nat (nat i))"

definition to_string_int64 :: "int64_t \<Rightarrow> string" where
  "to_string_int64 d = to_string_int (sint d)"

text \<open>
  \<^verbatim>\<open>std::string ShapeToString(const TRITONTF_Shape* shape, const size_t start_idx)\<close>,
  with the default \<^verbatim>\<open>start_idx = 0\<close> when called with one argument.
\<close>

fun join_dims :: "int64_t list \<Rightarrow> string" where
  "join_dims [] = []"
| "join_dims [d] = to_string_int64 d"
| "join_dims (d # ds) = to_string_int64 d @ '','' @ join_dims ds"

definition ShapeToString :: "TRITONTF_Shape \<Rightarrow> nat \<Rightarrow> string" where
  "ShapeToString shape start_idx = ''['' @ join_dims (drop start_idx shape) @ '']''"

text \<open>
  Modelled from the spec: \<^verbatim>\<open>backend::ShapeToString(const std::vector<int64_t>&)\<close>
  is declared in \<^verbatim>\<open>triton/backend/backend_common.h\<close>, which is not among the
  sources; it prints a vector of dimensions in the pattern \<^verbatim>\<open>[d0,d1,...,dn]\<close>.
\<close>

definition backend_ShapeToString :: "int64_t list \<Rightarrow> string" where
  "backend_ShapeToString dims = ''['' @ join_dims dims @ '']''"

text \<open>
  The comparison loop of \<^verbatim>\<open>CompareDims\<close>, the same in both branches:
  \<^verbatim>\<open>for (i = 0; i < n; ++i) { model_dim = model_shape->dims_[i];
  if (compare_exact || (model_dim != WILDCARD_DIM)) succ &= (model_dim == dims[i]); }\<close>.
  It is entered only when the two ranks are equal, so both reads are in range.
\<close>

definition CompareDims_step :: "bool \<Rightarrow> TRITONTF_Shape \<Rightarrow> int64_t list \<Rightarrow> nat \<Rightarrow> bool \<Rightarrow> bool" where
  "CompareDims_step compare_exact model_shape dims i succ =
    (let model_dim = model_shape ! i in
     if compare_exact \<or> model_dim \<noteq> WILDCARD_DIM then succ \<and> model_dim = dims ! i
     else succ)"

definition CompareDims_loop :: "bool \<Rightarrow> TRITONTF_Shape \<Rightarrow> int64_t list \<Rightarrow> bool" where
  "CompareDims_loop compare_exact model_shape dims =
    fold (CompareDims_step compare_exact model_shape dims) [0..<length dims] True"

text \<open>
  \<^verbatim>\<open>TRITONSERVER_Error* CompareDims(model_name, tensor_name, model_shape, dims,
  supports_batching, compare_exact)\<close>
\<close>

definition CompareDims ::
  "string \<Rightarrow> string \<Rightarrow> TRITONTF_Shape \<Rightarrow> int64_t list \<Rightarrow> bool \<Rightarrow> bool \<Rightarrow> TRITONSERVER_Error option" where
  "CompareDims model_name tensor_name model_shape dims supports_batching compare_exact =
    (if supports_batching then
       if length model_shape = 0 \<or> model_shape ! 0 \<noteq> WILDCARD_DIM then
         Some (TRITONSERVER_ErrorNew TRITONSERVER_ERROR_INVALID_ARG
           (''model '' @ [CHR 0x27] @ model_name @ [CHR 0x27] @ '', tensor '' @ [CHR 0x27] @
            tensor_name @ [CHR 0x27] @
            '': for the model to support batching the shape should have at '' @
            ''least 1 dimension and the first dimension must be -1; but shape '' @
            ''expected by the model is '' @ ShapeToString model_shape 0))
       else
         let full_dims = WILDCARD_DIM # dims;
             succ = (length model_shape = length full_dims);
             succ = (if succ then CompareDims_loop compare_exact model_shape full_dims else succ)
         in if \<not> succ then
              Some (TRITONSERVER_ErrorNew TRITONSERVER_ERROR_INVALID_ARG
                (''model '' @ [CHR 0x27] @ model_name @ [CHR 0x27] @ '', tensor '' @ [CHR 0x27] @
                 tensor_name @ [CHR 0x27] @
                 '': the model expects '' @ to_string_nat (length model_shape) @
                 '' dimensions (shape '' @ ShapeToString model_shape 0 @
                 '') but the model configuration specifies '' @
                 to_string_nat (length full_dims) @
                 '' dimensions (an initial batch dimension because max_batch_size '' @
                 ''> 0 followed by the explicit tensor shape, making complete '' @
                 ''shape '' @ backend_ShapeToString full_dims @ '')''))
            else None
     else
       let succ = (length model_shape = length dims);
           succ = (if succ then CompareDims_loop compare_exact model_shape dims else succ)
       in if \<not> succ then
            Some (TRITONSERVER_ErrorNew TRITONSERVER_ERROR_INVALID_ARG
              (''model '' @ [CHR 0x27] @ model_name @ [CHR 0x27] @ '', tensor '' @ [CHR 0x27] @
               tensor_name @ [CHR 0x27] @
               '': the model expects '' @ to_string_nat (length model_shape) @
               '' dimensions (shape '' @ ShapeToString model_shape 0 @
               '') but the model configuration specifies '' @
               to_string_nat (length dims) @ '' dimensions (shape '' @
               backend_ShapeToString dims @ '')''))
          else None)"

text \<open>
  \<^verbatim>\<open>const TRITONTF_IO* FindIOByName(const TRITONTF_IOList* ios, const std::string& name)\<close>:
  the first element with that name, \<^verbatim>\<open>nullptr\<close> when there is none. The index is kept
  as well, since the validator writes through the pointer it gets.
\<close>

fun FindIOByName_idx :: "TRITONTF_IOList \<Rightarrow> string \<Rightarrow> nat option" where
  "FindIOByName_idx [] name = None"
| "FindIOByName_idx (io # itr) name =
    (if io_name io = name then Some 0 else map_option Suc (FindIOByName_idx itr name))"

definition FindIOByName :: "TRITONTF_IOList \<Rightarrow> string \<Rightarrow> TRITONTF_IO option" where
  "FindIOByName ios name = map_option (\<lambda>i. ios ! i) (FindIOByName_idx ios name)"

section \<open>Batching support inferred by the auto-completer (tensorflow.cc)\<close>

text \<open>
  The first loop of \<^verbatim>\<open>AutoCompleteHelper::FixBatchingSupport\<close>, which computes
  \<^verbatim>\<open>sig_supports_batch\<close> over \<^verbatim>\<open>{TRITONTF_ModelInputs, TRITONTF_ModelOutputs}\<close>:
  the flag starts \<open>True\<close> and is cleared by every tensor of rank 0 or with a first
  dimension other than \<open>-1\<close>; the loop does not leave early.
\<close>

fun sig_supports_batch_ios :: "bool \<Rightarrow> TRITONTF_IOList \<Rightarrow> bool" where
  "sig_supports_batch_ios sig_supports_batch [] = sig_supports_batch"
| "sig_supports_batch_ios sig_supports_batch (io # itr) =
    sig_supports_batch_ios
      (if length (io_shape io) = 0 \<or> io_shape io ! 0 \<noteq> - 1 then False else sig_supports_batch)
      itr"

definition FixBatchingSupport_sig_supports_batch :: "TRITONTF_IOList \<Rightarrow> TRITONTF_IOList \<Rightarrow> bool" where
  "FixBatchingSupport_sig_supports_batch inputs outputs =
    fold (\<lambda>ios sig_supports_batch. sig_supports_batch_ios sig_supports_batch ios)
      [inputs, outputs] True"

section \<open>String tensors (tensorflow.cc)\<close>

text \<open>
  A string tensor is the list of its elements, each a byte string. A response pointer
  \<^verbatim>\<open>TRITONBACKEND_Response*\<close> is an option: \<open>None\<close> is \<^verbatim>\<open>nullptr\<close> and \<open>Some i\<close> is
  the response created for request \<open>i\<close> of the cycle. What the backend does to the
  server is recorded as a list of events, in the order of the calls.
\<close>

type_synonym byte = "8 word"
type_synonym bytes = "byte list"
type_synonym TRITONTF_Tensor = "bytes list"
type_synonym TRITONBACKEND_Response = nat

datatype event =
    ResponseSend TRITONBACKEND_Response "TRITONSERVER_Error option"
  | RequestRelease nat

text \<open>
  Modelled from the spec: the macro \<^verbatim>\<open>RESPOND_AND_SET_NULL_IF_ERROR\<close> is declared in
  \<^verbatim>\<open>triton/backend/backend_common.h\<close>, which is not among the sources. A per-request
  error completes that request's response with the error and nulls out only that
  request's response pointer; a response already nulled out is skipped.
\<close>

definition RESPOND_AND_SET_NULL_IF_ERROR ::
  "TRITONBACKEND_Response option \<Rightarrow> TRITONSERVER_Error option \<Rightarrow>
   TRITONBACKEND_Response option \<times> event list" where
  "RESPOND_AND_SET_NULL_IF_ERROR response x =
    (case x of
       None \<Rightarrow> (response, [])
     | Some err \<Rightarrow>
        (case response of
           None \<Rightarrow> (None, [])
         | Some r \<Rightarrow> (None, [ResponseSend r (Some err)])))"

text \<open>
  Modelled from the spec: \<^verbatim>\<open>TRITONTF_TensorSetString\<close> and \<^verbatim>\<open>TRITONTF_TensorString\<close>
  are defined in \<^verbatim>\<open>tensorflow_backend_tf.cc\<close>, which is not among the sources: the
  string-element setter and getter of a tensor handle. The setter stores the \<open>len\<close>
  bytes at \<open>cstr\<close> as element \<open>idx\<close> (\<^verbatim>\<open>nullptr\<close> with length 0 stores the empty
  string); the getter gives element \<open>idx\<close> and its length. The source passes indices
  without a check; in this model an index past the end writes nothing and reads the
  empty string.
\<close>

definition TRITONTF_TensorSetString :: "TRITONTF_Tensor \<Rightarrow> nat \<Rightarrow> bytes \<Rightarrow> TRITONTF_Tensor" where
  "TRITONTF_TensorSetString tensor idx str = tensor[idx := str]"

definition TRITONTF_TensorString :: "TRITONTF_Tensor \<Rightarrow> nat \<Rightarrow> bytes" where
  "TRITONTF_TensorString tensor idx = (if idx < length tensor then tensor ! idx else [])"

text \<open>
  The four bytes of a \<^verbatim>\<open>uint32_t\<close> in memory and the value read from four bytes, on a
  little-endian host (the \<^verbatim>\<open>reinterpret_cast\<close>s of the source use the host's byte
  order). \<^verbatim>\<open>read_uint32\<close> is applied only to at least four bytes.
\<close>

definition uint32_bytes :: "32 word \<Rightarrow> bytes" where
  "uint32_bytes w = [ucast w, ucast (drop_bit 8 w), ucast (drop_bit 16 w), ucast (drop_bit 24 w)]"

definition read_uint32 :: "bytes \<Rightarrow> 32 word" where
  "read_uint32 bs =
    ucast (bs ! 0) OR push_bit 8 (ucast (bs ! 1)) OR push_bit 16 (ucast (bs ! 2)) OR
    push_bit 24 (ucast (bs ! 3))"

text \<open>Subtraction of two \<^verbatim>\<open>size_t\<close> values (64 bits), which wraps around.\<close>

definition size_t_sub :: "nat \<Rightarrow> nat \<Rightarrow> nat" where
  "size_t_sub a b = (if b \<le> a then a - b else a + 2 ^ 64 - b)"

text \<open>\<^verbatim>\<open>void FillStringTensor(TRITONTF_Tensor* tensor, const size_t idx, const size_t cnt)\<close>\<close>

definition FillStringTensor :: "TRITONTF_Tensor \<Rightarrow> nat \<Rightarrow> nat \<Rightarrow> TRITONTF_Tensor" where
  "FillStringTensor tensor idx cnt =
    fold (\<lambda>c t. TRITONTF_TensorSetString t (idx + c) []) [0..<cnt] tensor"

text \<open>
  The parsing loop of \<^verbatim>\<open>SetStringInputTensor\<close>:
  \<^verbatim>\<open>while (content_byte_size >= sizeof(uint32_t))\<close>. \<open>content\<close> is the part of the
  buffer not yet read, so \<^verbatim>\<open>content_byte_size\<close> is its length. The result is \<open>Inl\<close>
  when the function returns from inside the loop (with the tensor, the response
  pointer and the events), and \<open>Inr\<close> with the tensor and \<^verbatim>\<open>element_idx\<close> when the
  loop ends.
\<close>

function SetStringInputTensor_loop ::
  "string \<Rightarrow> nat \<Rightarrow> nat \<Rightarrow> TRITONBACKEND_Response option \<Rightarrow> TRITONTF_Tensor \<Rightarrow> bytes \<Rightarrow> nat \<Rightarrow>
   (TRITONTF_Tensor \<times> TRITONBACKEND_Response option \<times> event list) + (TRITONTF_Tensor \<times> nat)" where
  "SetStringInputTensor_loop name request_element_cnt tensor_offset response tensor content
      element_idx =
    (if 4 \<le> length content then
       if request_element_cnt \<le> element_idx then
         (case RESPOND_AND_SET_NULL_IF_ERROR response
                 (Some (TRITONSERVER_ErrorNew TRITONSERVER_ERROR_INVALID_ARG
                    (''unexpected number of string elements '' @
                     to_string_nat (element_idx + 1) @ '' for inference input '' @
                     [CHR 0x27] @ name @ [CHR 0x27] @ '', expecting '' @
                     to_string_nat request_element_cnt))) of
            (response', evs) \<Rightarrow>
              Inl (FillStringTensor tensor (tensor_offset + element_idx)
                     (size_t_sub request_element_cnt element_idx), response', evs))
       else
         if length (drop 4 content) < unat (read_uint32 content) then
           (case RESPOND_AND_SET_NULL_IF_ERROR response
                   (Some (TRITONSERVER_ErrorNew TRITONSERVER_ERROR_INVALID_ARG
                      (''incomplete string data for inference input '' @ [CHR 0x27] @ name @
                       [CHR 0x27] @ '', expecting string of length '' @
                       to_string_nat (unat (read_uint32 content)) @ '' but only '' @
                       to_string_nat (length (drop 4 content)) @ '' bytes available''))) of
              (response', evs) \<Rightarrow>
                Inl (FillStringTensor tensor (tensor_offset + element_idx)
                       (size_t_sub request_element_cnt element_idx), response', evs))
         else
           SetStringInputTensor_loop name request_element_cnt tensor_offset response
             (TRITONTF_TensorSetString tensor (tensor_offset + element_idx)
                (take (unat (read_uint32 content)) (drop 4 content)))
             (drop (unat (read_uint32 content)) (drop 4 content))
             (element_idx + 1)
     else Inr (tensor, element_idx))"
  by pat_completeness auto

termination
  by (relation "measure (\<lambda>(name, cnt, off, response, tensor, content, idx). length content)") auto

declare SetStringInputTensor_loop.simps [simp del]

text \<open>
  \<^verbatim>\<open>bool SetStringInputTensor(tensor, input, name, buffer_count, request_element_cnt,
  tensor_offset, response, stream, host_policy_name)\<close>. The argument \<open>content\<close> is what
  \<^verbatim>\<open>GetContiguousInputContent\<close> gives for the input: an error, or the bytes of the
  request's buffers in one chunk. The result is the tensor, the response pointer and
  the events; the returned \<^verbatim>\<open>cuda_copy\<close> flag is not modelled.
\<close>

definition SetStringInputTensor ::
  "TRITONTF_Tensor \<Rightarrow> string \<Rightarrow> TRITONSERVER_Error + bytes \<Rightarrow> nat \<Rightarrow> nat \<Rightarrow>
   TRITONBACKEND_Response option \<Rightarrow>
   TRITONTF_Tensor \<times> TRITONBACKEND_Response option \<times> event list" where
  "SetStringInputTensor tensor name content request_element_cnt tensor_offset response =
    (case content of
       Inl err \<Rightarrow>
         (case RESPOND_AND_SET_NULL_IF_ERROR response (Some err) of
            (response', evs) \<Rightarrow>
              (FillStringTensor tensor (tensor_offset + 0) (size_t_sub request_element_cnt 0),
               response', evs))
     | Inr content_bytes \<Rightarrow>
         (case SetStringInputTensor_loop name request_element_cnt tensor_offset response tensor
                 content_bytes 0 of
            Inl returned \<Rightarrow> returned
          | Inr (tensor', element_idx) \<Rightarrow>
              if response \<noteq> None \<and> element_idx \<noteq> request_element_cnt then
                (case RESPOND_AND_SET_NULL_IF_ERROR response
                        (Some (TRITONSERVER_ErrorNew TRITONSERVER_ERROR_INTERNAL
                           (''expected '' @ to_string_nat request_element_cnt @
                            '' strings for inference input '' @ [CHR 0x27] @ name @
                            [CHR 0x27] @ '', got '' @ to_string_nat element_idx))) of
                   (response', evs) \<Rightarrow>
                     (FillStringTensor tensor' (tensor_offset + element_idx)
                        (size_t_sub request_element_cnt element_idx), response', evs))
              else (tensor', response, [])))"

text \<open>
  The serialisation loop of \<^verbatim>\<open>SetStringOutputBuffer\<close>: for each element a 4-byte
  length and then the bytes, no terminator. \<^verbatim>\<open>len\<close> is a \<^verbatim>\<open>size_t\<close> of which
  \<^verbatim>\<open>sizeof(uint32_t)\<close> bytes are appended, that is its low 32 bits on a little-endian
  host; the bytes of the string are all appended.
\<close>

definition SetStringOutputBuffer_serialize :: "TRITONTF_Tensor \<Rightarrow> nat \<Rightarrow> nat \<Rightarrow> bytes" where
  "SetStringOutputBuffer_serialize tensor tensor_element_count tensor_offset =
    fold (\<lambda>e serialized.
            let cstr = TRITONTF_TensorString tensor (tensor_offset + e);
                len = length cstr
            in serialized @ uint32_bytes (word_of_nat len) @ (if 0 < len then cstr else []))
      [0..<tensor_element_count] []"

text \<open>
  \<^verbatim>\<open>bool SetStringOutputBuffer(tensor, response, response_output, tensor_element_count,
  tensor_offset, stream, serialized)\<close>. \<open>output_buffer_err\<close> and \<open>copy_err\<close> are the
  results of \<^verbatim>\<open>TRITONBACKEND_OutputBuffer\<close> and \<^verbatim>\<open>CopyBuffer\<close>. The result is the
  string \<^verbatim>\<open>*serialized\<close>, the contents of the response's output buffer when it was
  written, the response pointer and the events.
\<close>

definition SetStringOutputBuffer ::
  "TRITONTF_Tensor \<Rightarrow> TRITONBACKEND_Response option \<Rightarrow> nat \<Rightarrow> nat \<Rightarrow>
   TRITONSERVER_Error option \<Rightarrow> TRITONSERVER_Error option \<Rightarrow>
   bytes \<times> bytes option \<times> TRITONBACKEND_Response option \<times> event list" where
  "SetStringOutputBuffer tensor response tensor_element_count tensor_offset output_buffer_err
      copy_err =
    (let serialized = SetStringOutputBuffer_serialize tensor tensor_element_count tensor_offset
     in case output_buffer_err of
          Some err \<Rightarrow>
            (case RESPOND_AND_SET_NULL_IF_ERROR response (Some err) of
               (response', evs) \<Rightarrow> (serialized, None, response', evs))
        | None \<Rightarrow>
            (case copy_err of
               Some err \<Rightarrow>
                 (case RESPOND_AND_SET_NULL_IF_ERROR response (Some err) of
                    (response', evs) \<Rightarrow> (serialized, None, response', evs))
             | None \<Rightarrow> (serialized, Some serialized, response, [])))"

text \<open>
  The loop of \<^verbatim>\<open>ProcessRequests\<close> over the requests of the cycle for one input of
  datatype \<^verbatim>\<open>TRITONSERVER_TYPE_BYTES\<close> (the ``custom handling for string/bytes
  tensor''). For each request the record below holds what the calls of the loop body
  give: the results of \<^verbatim>\<open>TRITONBACKEND_RequestInput\<close> and of
  \<^verbatim>\<open>TRITONBACKEND_InputPropertiesForHostPolicy\<close>, the element count
  \<^verbatim>\<open>GetElementCount(shape, dims_count)\<close> and the contents that
  \<^verbatim>\<open>GetContiguousInputContent\<close> gives to \<^verbatim>\<open>SetStringInputTensor\<close>.
\<close>

record string_input =
  RequestInput_err :: "TRITONSERVER_Error option"
  InputProperties_err :: "TRITONSERVER_Error option"
  batch_element_cnt :: nat
  input_content :: "TRITONSERVER_Error + bytes"

type_synonym string_input_state =
  "TRITONTF_Tensor \<times> TRITONBACKEND_Response option list \<times> nat \<times> event list"

text \<open>
  One iteration, on the state (\<open>tensor\<close>, \<open>responses\<close>, \<open>tensor_offset\<close>, events so
  far).
\<close>

definition string_input_body ::
  "string \<Rightarrow> string_input list \<Rightarrow> nat \<Rightarrow> string_input_state \<Rightarrow> string_input_state" where
  "string_input_body name requests idx st =
    (case st of (tensor, responses, tensor_offset, events) \<Rightarrow>
      (case RESPOND_AND_SET_NULL_IF_ERROR (responses ! idx) (RequestInput_err (requests ! idx)) of
         (r1, ev1) \<Rightarrow>
      (case RESPOND_AND_SET_NULL_IF_ERROR r1 (InputProperties_err (requests ! idx)) of
         (r2, ev2) \<Rightarrow>
      (case SetStringInputTensor tensor name (input_content (requests ! idx))
              (batch_element_cnt (requests ! idx)) tensor_offset r2 of
         (tensor', r3, ev3) \<Rightarrow>
           (tensor', responses[idx := r3],
            tensor_offset + batch_element_cnt (requests ! idx),
            events @ ev1 @ ev2 @ ev3)))))"

definition ProcessRequests_string_input ::
  "string \<Rightarrow> string_input list \<Rightarrow> TRITONBACKEND_Response option list \<Rightarrow> TRITONTF_Tensor \<Rightarrow>
   string_input_state" where
  "ProcessRequests_string_input name requests responses tensor =
    fold (string_input_body name requests) [0..<length requests] (tensor, responses, 0, [])"

section \<open>The start of an execution cycle (tensorflow.cc)\<close>

text \<open>
  \<^verbatim>\<open>ModelInstanceState::ProcessRequests\<close> up to the point where it is ``committed to
  running inference''. A request pointer is an option (\<open>None\<close> is \<^verbatim>\<open>nullptr\<close>). Of a
  request the record holds what this part of the function asks for: the results of
  \<^verbatim>\<open>TRITONBACKEND_RequestInputByIndex(requests[i], 0, &input)\<close> and of
  \<^verbatim>\<open>TRITONBACKEND_InputProperties\<close>, and the shape of that first input.
  \<^verbatim>\<open>total_batch_size\<close> is a \<^verbatim>\<open>size_t\<close>, a 64-bit word to which \<^verbatim>\<open>shape[0]\<close> (an
  \<^verbatim>\<open>int64_t\<close>) is added; \<^verbatim>\<open>max_batch_size\<close> is an \<^verbatim>\<open>int\<close>.
\<close>

record TRITONBACKEND_Request =
  RequestInputByIndex_err :: "TRITONSERVER_Error option"
  first_InputProperties_err :: "TRITONSERVER_Error option"
  first_input_shape :: "int64_t list"

text \<open>
  The first loop: \<open>Inl\<close> is the error with which \<^verbatim>\<open>RequestsRespondWithError\<close> is
  called before the function returns, \<open>Inr\<close> is \<^verbatim>\<open>total_batch_size\<close> after the last
  request.
\<close>

fun total_batch_size_loop ::
  "string \<Rightarrow> int \<Rightarrow> TRITONBACKEND_Request option list \<Rightarrow> 64 word \<Rightarrow> TRITONSERVER_Error + 64 word" where
  "total_batch_size_loop name max_batch_size [] total_batch_size = Inr total_batch_size"
| "total_batch_size_loop name max_batch_size (None # requests) total_batch_size =
    Inl (TRITONSERVER_ErrorNew TRITONSERVER_ERROR_INTERNAL
          (''null request given to TensorFlow backend for '' @ [CHR 0x27] @ name @ [CHR 0x27]))"
| "total_batch_size_loop name max_batch_size (Some request # requests) total_batch_size =
    (if 0 < max_batch_size then
       (case RequestInputByIndex_err request of
          Some err \<Rightarrow> Inl err
        | None \<Rightarrow>
           (case first_InputProperties_err request of
              Some err \<Rightarrow> Inl err
            | None \<Rightarrow>
               total_batch_size_loop name max_batch_size requests
                 (total_batch_size + first_input_shape request ! 0)))
     else total_batch_size_loop name max_batch_size requests (total_batch_size + 1))"

text \<open>
  Modelled from the spec: \<^verbatim>\<open>RequestsRespondWithError\<close> is declared in
  \<^verbatim>\<open>triton/backend/backend_common.h\<close>, which is not among the sources. A whole-cycle
  error is reported identically to every request of the cycle: each request gets a
  response completed with the error and is released.
\<close>

definition RequestsRespondWithError :: "nat \<Rightarrow> TRITONSERVER_Error \<Rightarrow> event list" where
  "RequestsRespondWithError request_count err =
    concat (map (\<lambda>i. [ResponseSend i (Some err), RequestRelease i]) [0..<request_count])"

text \<open>
  The function either returns here, after the events given, or goes on to create the
  responses, fill the input tensors and run the model with the total batch size given.
\<close>

datatype cycle_start = Returned "event list" | Continue "64 word"

definition ProcessRequests_start ::
  "string \<Rightarrow> int \<Rightarrow> TRITONBACKEND_Request option list \<Rightarrow> cycle_start" where
  "ProcessRequests_start name max_batch_size requests =
    (case total_batch_size_loop name max_batch_size requests 0 of
       Inl err \<Rightarrow> Returned (RequestsRespondWithError (length requests) err)
     | Inr total_batch_size \<Rightarrow>
        if total_batch_size = 0 then Returned []
        else if total_batch_size \<noteq> 1 \<and> word_of_int max_batch_size < total_batch_size then
          Returned (RequestsRespondWithError (length requests)
            (TRITONSERVER_ErrorNew TRITONSERVER_ERROR_INTERNAL
              (''batch size '' @ to_string_nat (unat total_batch_size) @ '' for '' @
               [CHR 0x27] @ name @ [CHR 0x27] @ '', max allowed is '' @
               to_string_int max_batch_size)))
        else Continue total_batch_size)"

section \<open>Validation of a model against its configuration (tensorflow.cc)\<close>

text \<open>
  The model configuration is a JSON document in the source. Here it is the record of
  the members that the validators read, already of the right type, so the errors of
  the JSON accessors (a missing member, a member of the wrong type) are not part of
  the model. \<open>cfg_reshape\<close> is the shape of the \<^verbatim>\<open>reshape\<close> member when there is one.
  \<open>cfg_sequence_batching\<close> is \<open>None\<close> when the configuration has no
  \<^verbatim>\<open>sequence_batching\<close> member; otherwise it gives, for each kind of control, what
  \<^verbatim>\<open>GetBooleanSequenceControlProperties\<close> or \<^verbatim>\<open>GetTypedSequenceControlProperties\<close>
  (of \<^verbatim>\<open>backend_common\<close>) returns: an error, or the tensor name (empty when the
  control is not configured) and its datatype. \<open>cfg_batch_output\<close> lists the names for
  which \<^verbatim>\<open>FindBatchOutput\<close> finds a batch output.
\<close>

record ModelConfigIO =
  cfg_name :: string
  cfg_data_type :: string
  cfg_dims :: "int64_t list"
  cfg_reshape :: "int64_t list option"
  cfg_allow_ragged_batch :: bool

datatype control_kind =
    CONTROL_SEQUENCE_START | CONTROL_SEQUENCE_END | CONTROL_SEQUENCE_READY
  | CONTROL_SEQUENCE_CORRID

type_synonym sequence_batching = "control_kind \<Rightarrow> TRITONSERVER_Error + string \<times> string"

record ModelConfig =
  cfg_max_batch_size :: int
  cfg_input :: "ModelConfigIO list"
  cfg_batch_input :: nat
  cfg_output :: "ModelConfigIO list"
  cfg_sequence_batching :: "sequence_batching option"
  cfg_batch_output :: "string list"

record TRITONTF_Model =
  TRITONTF_ModelInputs :: TRITONTF_IOList
  TRITONTF_ModelOutputs :: TRITONTF_IOList

type_synonym IONameMap = "string \<rightharpoonup> string"

text \<open>
  Modelled from the spec: \<^verbatim>\<open>CheckAllowedModelInput\<close> and
  \<^verbatim>\<open>CheckAllowedModelOutput\<close> are declared in \<^verbatim>\<open>triton/backend/backend_common.h\<close>,
  which is not among the sources. Every configured input or output name must appear
  in the set of names of the model; the error lists the allowed names, which a
  \<^verbatim>\<open>std::set\<close> holds in increasing order.
\<close>

fun join_names :: "string list \<Rightarrow> string" where
  "join_names [] = []"
| "join_names [a] = a"
| "join_names (a # as) = a @ '', '' @ join_names as"

definition CheckAllowedModelInput :: "ModelConfigIO \<Rightarrow> string list \<Rightarrow> TRITONSERVER_Error option" where
  "CheckAllowedModelInput io allowed =
    (if cfg_name io \<notin> set allowed then
       Some (TRITONSERVER_ErrorNew TRITONSERVER_ERROR_INVALID_ARG
         (''unexpected inference input '' @ [CHR 0x27] @ cfg_name io @ [CHR 0x27] @
          '', allowed inputs are: '' @ join_names (sort (remdups allowed))))
     else None)"

definition CheckAllowedModelOutput :: "ModelConfigIO \<Rightarrow> string list \<Rightarrow> TRITONSERVER_Error option" where
  "CheckAllowedModelOutput io allowed =
    (if cfg_name io \<notin> set allowed then
       Some (TRITONSERVER_ErrorNew TRITONSERVER_ERROR_INVALID_ARG
         (''unexpected inference output '' @ [CHR 0x27] @ cfg_name io @ [CHR 0x27] @
          '', allowed outputs are: '' @ join_names (sort (remdups allowed))))
     else None)"

text \<open>
  Modelled from the spec: \<^verbatim>\<open>TRITONSERVER_DataTypeString\<close> is declared in
  \<^verbatim>\<open>triton/core/tritonserver.h\<close>, which is not among the sources: the name of a
  datatype, used in error messages only.
\<close>

fun TRITONSERVER_DataTypeString :: "TRITONSERVER_DataType \<Rightarrow> string" where
  "TRITONSERVER_DataTypeString TRITONSERVER_TYPE_BOOL = ''BOOL''"
| "TRITONSERVER_DataTypeString TRITONSERVER_TYPE_UINT8 = ''UINT8''"
| "TRITONSERVER_DataTypeString TRITONSERVER_TYPE_UINT16 = ''UINT16''"
| "TRITONSERVER_DataTypeString TRITONSERVER_TYPE_UINT32 = ''UINT32''"
| "TRITONSERVER_DataTypeString TRITONSERVER_TYPE_UINT64 = ''UINT64''"
| "TRITONSERVER_DataTypeString TRITONSERVER_TYPE_INT8 = ''INT8''"
| "TRITONSERVER_DataTypeString TRITONSERVER_TYPE_INT16 = ''INT16''"
| "TRITONSERVER_DataTypeString TRITONSERVER_TYPE_INT32 = ''INT32''"
| "TRITONSERVER_DataTypeString TRITONSERVER_TYPE_INT64 = ''INT64''"
| "TRITONSERVER_DataTypeString TRITONSERVER_TYPE_FP16 = ''FP16''"
| "TRITONSERVER_DataTypeString TRITONSERVER_TYPE_FP32 = ''FP32''"
| "TRITONSERVER_DataTypeString TRITONSERVER_TYPE_FP64 = ''FP64''"
| "TRITONSERVER_DataTypeString TRITONSERVER_TYPE_BYTES = ''BYTES''"
| "TRITONSERVER_DataTypeString d = ''<invalid>''"

text \<open>The number of elements of a \<^verbatim>\<open>std::set<std::string>\<close> filled from a list.\<close>

definition set_size :: "string list \<Rightarrow> nat" where
  "set_size names = length (remdups names)"

subsection \<open>The graph-only format (namespace graphdef)\<close>

text \<open>\<^verbatim>\<open>graphdef::ValidateSequenceControl\<close>\<close>

definition graphdef_ValidateSequenceControl ::
  "sequence_batching \<Rightarrow> control_kind \<Rightarrow> TRITONTF_IOList \<Rightarrow> TRITONSERVER_Error option" where
  "graphdef_ValidateSequenceControl sb control_kind inputs =
    (case sb control_kind of
       Inl err \<Rightarrow> Some err
     | Inr (tensor_name, tensor_datatype) \<Rightarrow>
        if tensor_name \<noteq> [] then
          (case FindIOByName inputs tensor_name of
             None \<Rightarrow>
               Some (TRITONSERVER_ErrorNew TRITONSERVER_ERROR_INTERNAL
                 (''configuration specified sequence control '' @ [CHR 0x27] @ tensor_name @
                  [CHR 0x27] @ '', but model does not provide that input''))
           | Some input \<Rightarrow> None)
        else None)"

text \<open>
  A sequence of checks that stops at the first error (\<^verbatim>\<open>RETURN_IF_ERROR\<close> in a loop
  or in a row).
\<close>

fun first_error :: "('a \<Rightarrow> TRITONSERVER_Error option) \<Rightarrow> 'a list \<Rightarrow> TRITONSERVER_Error option" where
  "first_error check [] = None"
| "first_error check (x # xs) =
    (case check x of Some err \<Rightarrow> Some err | None \<Rightarrow> first_error check xs)"

text \<open>\<^verbatim>\<open>graphdef::ValidateTRITONTFModel\<close>\<close>

definition graphdef_ValidateTRITONTFModel ::
  "string \<Rightarrow> ModelConfig \<Rightarrow> TRITONTF_Model \<Rightarrow> TRITONSERVER_Error option" where
  "graphdef_ValidateTRITONTFModel model_name model_config model =
    (let inputs = TRITONTF_ModelInputs model;
         outputs = TRITONTF_ModelOutputs model;
         potential_inputs = map io_name inputs;
         potential_outputs = map io_name outputs;
         config_inputs = cfg_input model_config
     in
     if set_size potential_inputs < length config_inputs then
       Some (TRITONSERVER_ErrorNew TRITONSERVER_ERROR_INVALID_ARG
         (''unable to load model '' @ [CHR 0x27] @ model_name @ [CHR 0x27] @
          '', configuration expects '' @ to_string_nat (length config_inputs) @
          '' inputs, model provides at most '' @ to_string_nat (set_size potential_inputs)))
     else
       case (case cfg_sequence_batching model_config of
               None \<Rightarrow> None
             | Some sb \<Rightarrow>
                 first_error (\<lambda>kind. graphdef_ValidateSequenceControl sb kind inputs)
                   [CONTROL_SEQUENCE_START, CONTROL_SEQUENCE_END, CONTROL_SEQUENCE_READY,
                    CONTROL_SEQUENCE_CORRID]) of
         Some err \<Rightarrow> Some err
       | None \<Rightarrow>
          (case first_error (\<lambda>io. CheckAllowedModelInput io potential_inputs) config_inputs of
             Some err \<Rightarrow> Some err
           | None \<Rightarrow>
               first_error (\<lambda>io. CheckAllowedModelOutput io potential_outputs)
                 (cfg_output model_config)))"

subsection \<open>The signature-rich format (namespace savedmodel)\<close>

text \<open>
  \<^verbatim>\<open>savedmodel::ValidateSequenceControl\<close>: \<open>Inl\<close> is the error returned, \<open>Inr\<close> is
  \<^verbatim>\<open>*have_control\<close> on success.
\<close>

definition savedmodel_ValidateSequenceControl ::
  "string \<Rightarrow> sequence_batching \<Rightarrow> int \<Rightarrow> control_kind \<Rightarrow> TRITONTF_IOList \<Rightarrow>
   TRITONSERVER_Error + bool" where
  "savedmodel_ValidateSequenceControl model_name sb max_batch_size control_kind inputs =
    (case sb control_kind of
       Inl err \<Rightarrow> Inl err
     | Inr (tensor_name, tensor_datatype) \<Rightarrow>
        let have_control = (tensor_name \<noteq> []) in
        if have_control then
          (case FindIOByName inputs tensor_name of
             None \<Rightarrow>
               Inl (TRITONSERVER_ErrorNew TRITONSERVER_ERROR_INTERNAL
                 (''configuration specified sequence control '' @ [CHR 0x27] @ tensor_name @
                  [CHR 0x27] @ '', but model does not provide that input''))
           | Some input \<Rightarrow>
              (case CompareDims model_name tensor_name (io_shape input) [1]
                      (0 < max_batch_size) True of
                 Some err \<Rightarrow>
                   Inl (TRITONSERVER_ErrorNew TRITONSERVER_ERROR_INVALID_ARG
                     (''unable to load model '' @ [CHR 0x27] @ model_name @ [CHR 0x27] @
                      '', sequence control '' @ [CHR 0x27] @ tensor_name @ [CHR 0x27] @
                      '': '' @ err_msg err))
               | None \<Rightarrow>
                   if \<not> CompareDataType (io_data_type input) tensor_datatype then
                     Inl (TRITONSERVER_ErrorNew TRITONSERVER_ERROR_INVALID_ARG
                       (''unable to load model '' @ [CHR 0x27] @ model_name @ [CHR 0x27] @
                        '', sequence control '' @ [CHR 0x27] @ tensor_name @ [CHR 0x27] @
                        '': the model expects TYPE_'' @
                        TRITONSERVER_DataTypeString (ConvertDataType_tf (io_data_type input)) @
                        '' but the model configuration specifies data-type '' @
                        tensor_datatype))
                   else Inr have_control))
        else Inr have_control)"

text \<open>
  The block \<^verbatim>\<open>if (model_config.Find("sequence_batching", ...))\<close> of
  \<^verbatim>\<open>savedmodel::ValidateTRITONTFModel\<close>: the four controls are validated in order and
  \<^verbatim>\<open>expected_input_cnt\<close> is incremented for each control that is there. \<open>Inl\<close> is
  the first error, \<open>Inr\<close> is \<^verbatim>\<open>expected_input_cnt\<close> after the block.
\<close>

definition savedmodel_sequence_controls ::
  "string \<Rightarrow> sequence_batching \<Rightarrow> int \<Rightarrow> TRITONTF_IOList \<Rightarrow> nat \<Rightarrow> TRITONSERVER_Error + nat" where
  "savedmodel_sequence_controls model_name sb max_batch_size inputs expected_input_cnt =
    (case savedmodel_ValidateSequenceControl model_name sb max_batch_size
            CONTROL_SEQUENCE_START inputs of
       Inl err \<Rightarrow> Inl err
     | Inr have_start \<Rightarrow>
    (case savedmodel_ValidateSequenceControl model_name sb max_batch_size
            CONTROL_SEQUENCE_END inputs of
       Inl err \<Rightarrow> Inl err
     | Inr have_end \<Rightarrow>
    (case savedmodel_ValidateSequenceControl model_name sb max_batch_size
            CONTROL_SEQUENCE_READY inputs of
       Inl err \<Rightarrow> Inl err
     | Inr have_ready \<Rightarrow>
    (case savedmodel_ValidateSequenceControl model_name sb max_batch_size
            CONTROL_SEQUENCE_CORRID inputs of
       Inl err \<Rightarrow> Inl err
     | Inr have_corrid \<Rightarrow>
         Inr (expected_input_cnt + (if have_start then 1 else 0) + (if have_end then 1 else 0) +
              (if have_ready then 1 else 0) + (if have_corrid then 1 else 0))))))"

text \<open>
  The back-fill of a shape that the model does not give (rank 0):
  \<^verbatim>\<open>rank_ = dims.size() + (supports_batching ? 1 : 0)\<close>,
  \<^verbatim>\<open>dims_ = (int64_t*)malloc(rank_ * sizeof(int64_t))\<close>, and then
  \<^verbatim>\<open>dims_[i + (supports_batching ? 1 : 0)] = dims[i]\<close> for each \<open>i\<close>. The block that
  \<^verbatim>\<open>malloc\<close> returns has indeterminate contents: \<open>uninit\<close> gives the value found in each
  of its slots.
\<close>

definition BackfillShape :: "(nat \<Rightarrow> int64_t) \<Rightarrow> int64_t list \<Rightarrow> bool \<Rightarrow> TRITONTF_Shape" where
  "BackfillShape uninit dims supports_batching =
    (let rank = length dims + (if supports_batching then 1 else 0);
         block = map uninit [0..<rank]
     in fold (\<lambda>i shape_dims. shape_dims[i + (if supports_batching then 1 else 0) := dims ! i])
          [0..<length dims] block)"

text \<open>
  The loop of \<^verbatim>\<open>savedmodel::ValidateTRITONTFModel\<close> over the configured inputs. It
  writes the back-filled shapes into the list of model inputs, through the pointer
  that \<^verbatim>\<open>FindIOByName\<close> returns, so the list is returned with the error.
\<close>

fun savedmodel_validate_inputs ::
  "string \<Rightarrow> int \<Rightarrow> (nat \<Rightarrow> int64_t) \<Rightarrow> string list \<Rightarrow> ModelConfigIO list \<Rightarrow> TRITONTF_IOList \<Rightarrow>
   TRITONSERVER_Error option \<times> TRITONTF_IOList" where
  "savedmodel_validate_inputs model_name max_batch_size uninit expected_inputs [] inputs =
    (None, inputs)"
| "savedmodel_validate_inputs model_name max_batch_size uninit expected_inputs (io # ios) inputs =
    (case CheckAllowedModelInput io expected_inputs of
       Some err \<Rightarrow> (Some err, inputs)
     | None \<Rightarrow>
    (case FindIOByName_idx inputs (cfg_name io) of
       None \<Rightarrow>
         (Some (TRITONSERVER_ErrorNew TRITONSERVER_ERROR_INTERNAL
            (''unexpected inference input '' @ [CHR 0x27] @ cfg_name io @ [CHR 0x27])), inputs)
     | Some k \<Rightarrow>
        let input = inputs ! k;
            dims = (case cfg_reshape io of Some shape \<Rightarrow> shape | None \<Rightarrow> cfg_dims io)
        in
        (case (if length (io_shape input) \<noteq> 0 then
                 if cfg_allow_ragged_batch io then
                   if length (io_shape input) \<noteq> 1 \<or> io_shape input ! 0 \<noteq> WILDCARD_DIM then
                     (Some (TRITONSERVER_ErrorNew TRITONSERVER_ERROR_INVALID_ARG
                        (''unable to load model '' @ [CHR 0x27] @ model_name @ [CHR 0x27] @
                         '', configuration expects model provides input with shape [-1]  '' @
                         ''for ragged input '' @ [CHR 0x27] @ cfg_name io @ [CHR 0x27] @
                         '', model provides '' @ ShapeToString (io_shape input) 0)), inputs)
                   else (None, inputs)
                 else
                   (CompareDims model_name (cfg_name io) (io_shape input) dims
                      (0 < max_batch_size) False, inputs)
               else
                 (None,
                  inputs[k := input\<lparr>io_shape := BackfillShape uninit dims (0 < max_batch_size)\<rparr>])) of
           (Some err, inputs') \<Rightarrow> (Some err, inputs')
         | (None, inputs') \<Rightarrow>
             if \<not> CompareDataType (io_data_type input) (cfg_data_type io) then
               (Some (TRITONSERVER_ErrorNew TRITONSERVER_ERROR_INVALID_ARG
                  (''unable to load model '' @ [CHR 0x27] @ model_name @ [CHR 0x27] @
                   '', configuration expects datatype '' @ cfg_data_type io @
                   '' for input '' @ [CHR 0x27] @ cfg_name io @ [CHR 0x27] @
                   '', model provides TYPE_'' @
                   TRITONSERVER_DataTypeString (ConvertDataType_tf (io_data_type input)))),
                inputs')
             else
               savedmodel_validate_inputs model_name max_batch_size uninit expected_inputs ios
                 inputs')))"

text \<open>The loop over the configured outputs.\<close>

fun savedmodel_validate_outputs ::
  "string \<Rightarrow> int \<Rightarrow> (nat \<Rightarrow> int64_t) \<Rightarrow> string list \<Rightarrow> string list \<Rightarrow> ModelConfigIO list \<Rightarrow>
   TRITONTF_IOList \<Rightarrow> TRITONSERVER_Error option \<times> TRITONTF_IOList" where
  "savedmodel_validate_outputs model_name max_batch_size uninit batch_outputs allowed_outputs []
      outputs = (None, outputs)"
| "savedmodel_validate_outputs model_name max_batch_size uninit batch_outputs allowed_outputs
      (io # ios) outputs =
    (case CheckAllowedModelOutput io allowed_outputs of
       Some err \<Rightarrow> (Some err, outputs)
     | None \<Rightarrow>
    (case FindIOByName_idx outputs (cfg_name io) of
       None \<Rightarrow>
         (Some (TRITONSERVER_ErrorNew TRITONSERVER_ERROR_INTERNAL
            (''unexpected inference output '' @ [CHR 0x27] @ cfg_name io @ [CHR 0x27])), outputs)
     | Some k \<Rightarrow>
        let output = outputs ! k;
            dims = (case cfg_reshape io of Some shape \<Rightarrow> shape | None \<Rightarrow> cfg_dims io)
        in
        (case (if length (io_shape output) \<noteq> 0 then
                 if cfg_name io \<notin> set batch_outputs then
                   (CompareDims model_name (cfg_name io) (io_shape output) dims
                      (0 < max_batch_size) True, outputs)
                 else (None, outputs)
               else
                 (None,
                  outputs[k := output\<lparr>io_shape := BackfillShape uninit dims (0 < max_batch_size)\<rparr>])) of
           (Some err, outputs') \<Rightarrow> (Some err, outputs')
         | (None, outputs') \<Rightarrow>
             if \<not> CompareDataType (io_data_type output) (cfg_data_type io) then
               (Some (TRITONSERVER_ErrorNew TRITONSERVER_ERROR_INVALID_ARG
                  (''unable to load model '' @ [CHR 0x27] @ model_name @ [CHR 0x27] @
                   '', configuration expects datatype '' @ cfg_data_type io @
                   '' for output '' @ [CHR 0x27] @ cfg_name io @ [CHR 0x27] @
                   '', model provides TYPE_'' @
                   TRITONSERVER_DataTypeString (ConvertDataType_tf (io_data_type output)))),
                outputs')
             else
               savedmodel_validate_outputs model_name max_batch_size uninit batch_outputs
                 allowed_outputs ios outputs')))"

text \<open>
  \<^verbatim>\<open>std::unordered_map::insert\<close> of each (name, in-model name) pair of a list: a name
  already there keeps its first entry.
\<close>

fun name_map_insert :: "TRITONTF_IOList \<Rightarrow> IONameMap \<Rightarrow> IONameMap" where
  "name_map_insert [] m = m"
| "name_map_insert (io # itr) m =
    name_map_insert itr
      (case m (io_name io) of None \<Rightarrow> m(io_name io \<mapsto> io_inmodel_name io) | Some n \<Rightarrow> m)"

text \<open>
  \<^verbatim>\<open>savedmodel::ValidateTRITONTFModel(model_state, model, input_name_map,
  output_name_map)\<close>. The result is the error (\<open>None\<close> on success), the model with the
  shapes that were back-filled, and the two name maps, which are taken to be empty
  when the function is called.
\<close>

definition savedmodel_ValidateTRITONTFModel ::
  "string \<Rightarrow> ModelConfig \<Rightarrow> TRITONTF_Model \<Rightarrow> (nat \<Rightarrow> int64_t) \<Rightarrow>
   TRITONSERVER_Error option \<times> TRITONTF_Model \<times> IONameMap \<times> IONameMap" where
  "savedmodel_ValidateTRITONTFModel model_name model_config model uninit =
    (let max_batch_size = cfg_max_batch_size model_config;
         inputs = TRITONTF_ModelInputs model;
         outputs = TRITONTF_ModelOutputs model;
         expected_inputs = map io_name inputs;
         allowed_outputs = map io_name outputs;
         input_name_map = name_map_insert inputs Map.empty;
         output_name_map = name_map_insert outputs Map.empty;
         config_inputs = cfg_input model_config;
         expected_input_cnt = length config_inputs + cfg_batch_input model_config
     in
     case (case cfg_sequence_batching model_config of
             None \<Rightarrow> Inr expected_input_cnt
           | Some sb \<Rightarrow>
               savedmodel_sequence_controls model_name sb max_batch_size inputs
                 expected_input_cnt) of
       Inl err \<Rightarrow> (Some err, model, input_name_map, output_name_map)
     | Inr expected_input_cnt \<Rightarrow>
        if set_size expected_inputs \<noteq> expected_input_cnt then
          (Some (TRITONSERVER_ErrorNew TRITONSERVER_ERROR_INVALID_ARG
             (''unable to load model '' @ [CHR 0x27] @ model_name @ [CHR 0x27] @
              '', configuration expects '' @ to_string_nat expected_input_cnt @
              '' inputs, model provides '' @ to_string_nat (set_size expected_inputs))),
           model, input_name_map, output_name_map)
        else
          (case savedmodel_validate_inputs model_name max_batch_size uninit expected_inputs
                  config_inputs inputs of
             (Some err, inputs') \<Rightarrow>
               (Some err, model\<lparr>TRITONTF_ModelInputs := inputs'\<rparr>, input_name_map,
                output_name_map)
           | (None, inputs') \<Rightarrow>
              (case savedmodel_validate_outputs model_name max_batch_size uninit
                      (cfg_batch_output model_config) allowed_outputs
                      (cfg_output model_config) outputs of
                 (err, outputs') \<Rightarrow>
                   (err, model\<lparr>TRITONTF_ModelInputs := inputs', TRITONTF_ModelOutputs := outputs'\<rparr>,
                    input_name_map, output_name_map))))"

section \<open>Notions used to state the properties\<close>

text \<open>The encoding of one element: its length in four bytes, then its bytes.\<close>

definition encode_element :: "bytes \<Rightarrow> bytes" where
  "encode_element s = uint32_bytes (word_of_nat (length s)) @ s"

text \<open>The list \<open>t\<close> with the elements from position \<open>k\<close> on replaced by \<open>xs\<close>.\<close>

definition overwrite :: "'a list \<Rightarrow> nat \<Rightarrow> 'a list \<Rightarrow> 'a list" where
  "overwrite t k xs = take k t @ xs @ drop (k + length xs) t"

text \<open>The request whose response an event completes, or which it releases.\<close>

fun event_request :: "event \<Rightarrow> nat" where
  "event_request (ResponseSend r err) = r"
| "event_request (RequestRelease i) = i"

text \<open>The position in the tensor where the elements of request \<open>i\<close> start.\<close>

definition span_start :: "string_input list \<Rightarrow> nat \<Rightarrow> nat" where
  "span_start requests i = sum_list (map batch_element_cnt (take i requests))"

text \<open>The tensor and the rest of what the parsing loop gives, in both of its exits.\<close>

definition loop_tensor ::
  "(TRITONTF_Tensor \<times> TRITONBACKEND_Response option \<times> event list) + (TRITONTF_Tensor \<times> nat) \<Rightarrow>
   TRITONTF_Tensor" where
  "loop_tensor res = (case res of Inl (a, r, evs) \<Rightarrow> a | Inr (a, k) \<Rightarrow> a)"

definition loop_outcome ::
  "(TRITONTF_Tensor \<times> TRITONBACKEND_Response option \<times> event list) + (TRITONTF_Tensor \<times> nat) \<Rightarrow>
   (TRITONBACKEND_Response option \<times> event list) + nat" where
  "loop_outcome res = (case res of Inl (a, r, evs) \<Rightarrow> Inl (r, evs) | Inr (a, k) \<Rightarrow> Inr k)"

text \<open>
  The count of claim C9: the configured inputs, the declared batch inputs and the
  sequence controls that resolve to a tensor name.
\<close>

definition resolved_controls :: "ModelConfig \<Rightarrow> nat" where
  "resolved_controls model_config =
    (case cfg_sequence_batching model_config of
       None \<Rightarrow> 0
     | Some sb \<Rightarrow>
         length (filter (\<lambda>kind. case sb kind of Inl err \<Rightarrow> False | Inr (n, d) \<Rightarrow> n \<noteq> [])
           [CONTROL_SEQUENCE_START, CONTROL_SEQUENCE_END, CONTROL_SEQUENCE_READY,
            CONTROL_SEQUENCE_CORRID]))"

definition expected_input_count :: "ModelConfig \<Rightarrow> nat" where
  "expected_input_count model_config =
    length (cfg_input model_config) + cfg_batch_input model_config +
    resolved_controls model_config"

section \<open>Datatype conversions are inverse on the supported domain\<close>

lemma ConvertDataType_str_roundtrip:
  "ConvertDataType_str name \<noteq> TRITONTF_TYPE_INVALID \<Longrightarrow>
   ConvertToModelConfigString (ConvertDataType_str name) = name"
  by (simp add: ConvertDataType_str_def ConvertToModelConfigString_def split: if_splits)

lemma ConvertDataType_str_supported:
  "ConvertDataType_str name \<noteq> TRITONTF_TYPE_INVALID \<longleftrightarrow>
   name \<in> set config_type_names \<and> name \<noteq> ''TYPE_INVALID''"
  by (simp add: ConvertDataType_str_def config_type_names_def)

lemma ConvertDataType_tf_roundtrip:
  "named_tf_type d \<Longrightarrow> ConvertDataType_ts (ConvertDataType_tf d) = d"
  by (cases d) simp_all

lemma ConvertDataType_ts_roundtrip:
  "named_ts_type d \<Longrightarrow> ConvertDataType_tf (ConvertDataType_ts d) = d"
  by (cases d) simp_all

text \<open>
  Claim C10. The conversions between type names and enumerators are inverse to each
  other on the supported domain: a supported configuration type name other than
  \<^verbatim>\<open>TYPE_INVALID\<close> is given back by \<^verbatim>\<open>ConvertToModelConfigString\<close> after
  \<^verbatim>\<open>ConvertDataType\<close>; a supported \<^verbatim>\<open>TRITONTF\<close> datatype is given back by the two
  enumerator conversions, \<^verbatim>\<open>TRITONTF_TYPE_STRING\<close> going to \<^verbatim>\<open>TRITONSERVER_TYPE_BYTES\<close>
  and back; every name and every enumerator outside the supported ones goes to the
  invalid datatype.
\<close>

theorem datatype_conversions_inverse:
  "(name \<in> set config_type_names \<longrightarrow> name \<noteq> ''TYPE_INVALID'' \<longrightarrow>
      ConvertDataType_str name \<noteq> TRITONTF_TYPE_INVALID \<and>
      ConvertToModelConfigString (ConvertDataType_str name) = name) \<and>
   (named_tf_type d \<longrightarrow> ConvertDataType_ts (ConvertDataType_tf d) = d) \<and>
   ConvertDataType_tf TRITONTF_TYPE_STRING = TRITONSERVER_TYPE_BYTES \<and>
   ConvertDataType_ts TRITONSERVER_TYPE_BYTES = TRITONTF_TYPE_STRING \<and>
   (name \<notin> set config_type_names \<longrightarrow> ConvertDataType_str name = TRITONTF_TYPE_INVALID) \<and>
   (\<not> named_tf_type d \<longrightarrow>
      ConvertDataType_tf d = TRITONSERVER_TYPE_INVALID \<and>
      ConvertToModelConfigString d = ''TYPE_INVALID'') \<and>
   (\<not> named_ts_type s \<longrightarrow> ConvertDataType_ts s = TRITONTF_TYPE_INVALID)"
proof -
  have a: "name \<in> set config_type_names \<longrightarrow> name \<noteq> ''TYPE_INVALID'' \<longrightarrow>
      ConvertDataType_str name \<noteq> TRITONTF_TYPE_INVALID \<and>
      ConvertToModelConfigString (ConvertDataType_str name) = name"
    using ConvertDataType_str_roundtrip [of name] ConvertDataType_str_supported [of name]
    by blast
  have b: "named_tf_type d \<longrightarrow> ConvertDataType_ts (ConvertDataType_tf d) = d"
    using ConvertDataType_tf_roundtrip by blast
  have c: "name \<notin> set config_type_names \<longrightarrow> ConvertDataType_str name = TRITONTF_TYPE_INVALID"
    using ConvertDataType_str_supported [of name] by blast
  have d: "\<not> named_tf_type d \<longrightarrow>
      ConvertDataType_tf d = TRITONSERVER_TYPE_INVALID \<and>
      ConvertToModelConfigString d = ''TYPE_INVALID''"
    by (cases d) (simp_all add: ConvertToModelConfigString_def)
  have e: "\<not> named_ts_type s \<longrightarrow> ConvertDataType_ts s = TRITONTF_TYPE_INVALID"
    by (cases s) simp_all
  from a b c d e show ?thesis by simp
qed

theorem datatype_conversions_inverse_witness:
  "''TYPE_FP32'' \<in> set config_type_names \<and> ''TYPE_FP32'' \<noteq> ''TYPE_INVALID'' \<and>
   ConvertToModelConfigString (ConvertDataType_str ''TYPE_FP32'') = ''TYPE_FP32'' \<and>
   named_tf_type TRITONTF_TYPE_STRING \<and>
   ConvertDataType_ts (ConvertDataType_tf TRITONTF_TYPE_STRING) = TRITONTF_TYPE_STRING \<and>
   ''TYPE_BF16'' \<notin> set config_type_names \<and>
   ConvertDataType_str ''TYPE_BF16'' = TRITONTF_TYPE_INVALID \<and>
   \<not> named_tf_type (TRITONTF_TYPE_unnamed 14) \<and>
   ConvertDataType_tf (TRITONTF_TYPE_unnamed 14) = TRITONSERVER_TYPE_INVALID \<and>
   \<not> named_ts_type (TRITONSERVER_TYPE_unnamed 14) \<and>
   ConvertDataType_ts (TRITONSERVER_TYPE_unnamed 14) = TRITONTF_TYPE_INVALID"
proof -
  have n1: "''TYPE_FP32'' \<in> set config_type_names" by (simp add: config_type_names_def)
  have n2: "''TYPE_BF16'' \<notin> set config_type_names" by (simp add: config_type_names_def)
  have t1: "ConvertToModelConfigString (ConvertDataType_str ''TYPE_FP32'') = ''TYPE_FP32''"
    using datatype_conversions_inverse [of "''TYPE_FP32''" TRITONTF_TYPE_STRING
        "TRITONSERVER_TYPE_unnamed 14"] n1 by simp
  have t2: "ConvertDataType_ts (ConvertDataType_tf TRITONTF_TYPE_STRING) = TRITONTF_TYPE_STRING"
    using datatype_conversions_inverse [of "''TYPE_FP32''" TRITONTF_TYPE_STRING
        "TRITONSERVER_TYPE_unnamed 14"] by simp
  have t3: "ConvertDataType_str ''TYPE_BF16'' = TRITONTF_TYPE_INVALID"
    using datatype_conversions_inverse [of "''TYPE_BF16''" "TRITONTF_TYPE_unnamed 14"
        "TRITONSERVER_TYPE_unnamed 14"] n2 by blast
  have t4: "ConvertDataType_tf (TRITONTF_TYPE_unnamed 14) = TRITONSERVER_TYPE_INVALID"
    using datatype_conversions_inverse [of "''TYPE_BF16''" "TRITONTF_TYPE_unnamed 14"
        "TRITONSERVER_TYPE_unnamed 14"] by simp
  have t5: "ConvertDataType_ts (TRITONSERVER_TYPE_unnamed 14) = TRITONTF_TYPE_INVALID"
    using datatype_conversions_inverse [of "''TYPE_BF16''" "TRITONTF_TYPE_unnamed 14"
        "TRITONSERVER_TYPE_unnamed 14"] by simp
  from n1 n2 t1 t2 t3 t4 t5 show ?thesis by simp
qed

section \<open>Shape comparison\<close>

lemma CompareDims_loop_fold:
  "fold (CompareDims_step ce ms ds) [0..<n] b \<longleftrightarrow>
    b \<and> (\<forall>i<n. (ce \<or> ms ! i \<noteq> WILDCARD_DIM) \<longrightarrow> ms ! i = ds ! i)"
proof (induction n arbitrary: b)
  case 0
  show ?case by simp
next
  case (Suc n)
  have "fold (CompareDims_step ce ms ds) [0..<Suc n] b =
        CompareDims_step ce ms ds n (fold (CompareDims_step ce ms ds) [0..<n] b)"
    by simp
  also have "\<dots> \<longleftrightarrow> (b \<and> (\<forall>i<n. (ce \<or> ms ! i \<noteq> WILDCARD_DIM) \<longrightarrow> ms ! i = ds ! i)) \<and>
      ((ce \<or> ms ! n \<noteq> WILDCARD_DIM) \<longrightarrow> ms ! n = ds ! n)"
    unfolding CompareDims_step_def [of ce ms ds n] Let_def Suc by auto
  also have "\<dots> \<longleftrightarrow> (b \<and> (\<forall>i<Suc n. (ce \<or> ms ! i \<noteq> WILDCARD_DIM) \<longrightarrow> ms ! i = ds ! i))"
    unfolding less_Suc_eq by blast
  finally show ?case .
qed

lemma CompareDims_loop_iff:
  "CompareDims_loop ce ms ds \<longleftrightarrow>
    (\<forall>i<length ds. (ce \<or> ms ! i \<noteq> WILDCARD_DIM) \<longrightarrow> ms ! i = ds ! i)"
  by (simp add: CompareDims_loop_def CompareDims_loop_fold)

lemma CompareDims_None_iff:
  "CompareDims mn tn ms ds sb ce = None \<longleftrightarrow>
    (if sb then
       1 \<le> length ms \<and> ms ! 0 = WILDCARD_DIM \<and>
       length ms = length (WILDCARD_DIM # ds) \<and>
       (\<forall>i<length (WILDCARD_DIM # ds).
          (ce \<or> ms ! i \<noteq> WILDCARD_DIM) \<longrightarrow> ms ! i = (WILDCARD_DIM # ds) ! i)
     else
       length ms = length ds \<and>
       (\<forall>i<length ds. (ce \<or> ms ! i \<noteq> WILDCARD_DIM) \<longrightarrow> ms ! i = ds ! i))"
  unfolding CompareDims_def Let_def CompareDims_loop_iff
  by (cases sb) auto

lemma CompareDims_Some:
  "CompareDims mn tn ms ds sb ce = Some e \<Longrightarrow>
    err_code e = TRITONSERVER_ERROR_INVALID_ARG \<and>
    (\<exists>rest. err_msg e =
       ''model '' @ [CHR 0x27] @ mn @ [CHR 0x27] @ '', tensor '' @ [CHR 0x27] @ tn @ [CHR 0x27] @
       '': '' @ rest)"
  unfolding CompareDims_def Let_def TRITONSERVER_ErrorNew_def
  by (auto split: if_splits)

text \<open>
  Claim C5. \<^verbatim>\<open>CompareDims\<close> with \<^verbatim>\<open>supports_batching\<close> succeeds (returns
  \<^verbatim>\<open>nullptr\<close>) exactly when the model shape has rank at least 1 with first dimension
  \<^verbatim>\<open>WILDCARD_DIM\<close> and, the wildcard being prepended to the configured dims, the ranks
  are equal and each dimension matches: exactly under \<^verbatim>\<open>compare_exact\<close>, and otherwise
  a wildcard dimension of the model accepts any configured value while a fixed one must
  be equal. Without \<^verbatim>\<open>supports_batching\<close> the same rule holds per dimension with equal
  ranks. Every failure is an invalid-argument error whose message names the model and
  the tensor.
\<close>

theorem CompareDims_correct:
  "(CompareDims mn tn ms ds True ce = None \<longleftrightarrow>
      1 \<le> length ms \<and> ms ! 0 = WILDCARD_DIM \<and>
      length ms = length (WILDCARD_DIM # ds) \<and>
      (\<forall>i<length (WILDCARD_DIM # ds).
         if ce then ms ! i = (WILDCARD_DIM # ds) ! i
         else ms ! i = WILDCARD_DIM \<or> ms ! i = (WILDCARD_DIM # ds) ! i)) \<and>
   (CompareDims mn tn ms ds False ce = None \<longleftrightarrow>
      length ms = length ds \<and>
      (\<forall>i<length ds.
         if ce then ms ! i = ds ! i else ms ! i = WILDCARD_DIM \<or> ms ! i = ds ! i)) \<and>
   (CompareDims mn tn ms ds sb ce \<noteq> None \<longrightarrow>
      (\<exists>e rest. CompareDims mn tn ms ds sb ce = Some e \<and>
         err_code e = TRITONSERVER_ERROR_INVALID_ARG \<and>
         err_msg e =
           ''model '' @ [CHR 0x27] @ mn @ [CHR 0x27] @ '', tensor '' @ [CHR 0x27] @ tn @
           [CHR 0x27] @ '': '' @ rest))"
proof -
  have a: "CompareDims mn tn ms ds True ce = None \<longleftrightarrow>
      1 \<le> length ms \<and> ms ! 0 = WILDCARD_DIM \<and>
      length ms = length (WILDCARD_DIM # ds) \<and>
      (\<forall>i<length (WILDCARD_DIM # ds).
         if ce then ms ! i = (WILDCARD_DIM # ds) ! i
         else ms ! i = WILDCARD_DIM \<or> ms ! i = (WILDCARD_DIM # ds) ! i)"
    unfolding CompareDims_None_iff [of mn tn ms ds True ce] by (cases ce) auto
  have b: "CompareDims mn tn ms ds False ce = None \<longleftrightarrow>
      length ms = length ds \<and>
      (\<forall>i<length ds.
         if ce then ms ! i = ds ! i else ms ! i = WILDCARD_DIM \<or> ms ! i = ds ! i)"
    unfolding CompareDims_None_iff [of mn tn ms ds False ce] by (cases ce) auto
  have c: "CompareDims mn tn ms ds sb ce \<noteq> None \<longrightarrow>
      (\<exists>e rest. CompareDims mn tn ms ds sb ce = Some e \<and>
         err_code e = TRITONSERVER_ERROR_INVALID_ARG \<and>
         err_msg e =
           ''model '' @ [CHR 0x27] @ mn @ [CHR 0x27] @ '', tensor '' @ [CHR 0x27] @ tn @
           [CHR 0x27] @ '': '' @ rest)"
    using CompareDims_Some [of mn tn ms ds sb ce] by (cases "CompareDims mn tn ms ds sb ce") auto
  from a b c show ?thesis by blast
qed

theorem CompareDims_correct_witness:
  "CompareDims ''m'' ''t'' [- 1, - 1, 3] [5, 3] True False = None \<and>
   CompareDims ''m'' ''t'' [- 1, - 1, 3] [5, 3] True True \<noteq> None \<and>
   CompareDims ''m'' ''t'' [- 1, 3] [7, 3] False False = None \<and>
   CompareDims ''m'' ''t'' [2, 3] [7, 3] False False \<noteq> None \<and>
   (\<exists>e rest. CompareDims ''m'' ''t'' [3] [3] True False = Some e \<and>
      err_code e = TRITONSERVER_ERROR_INVALID_ARG \<and>
      err_msg e = ''model '' @ [CHR 0x27] @ ''m'' @ [CHR 0x27] @ '', tensor '' @ [CHR 0x27] @
        ''t'' @ [CHR 0x27] @ '': '' @ rest)"
proof -
  have a: "CompareDims ''m'' ''t'' [- 1, - 1, 3] [5, 3] True False = None"
    using CompareDims_correct [of "''m''" "''t''" "[- 1, - 1, 3]" "[5, 3]" False True]
    by (simp add: WILDCARD_DIM_def All_less_Suc)
  have b: "CompareDims ''m'' ''t'' [- 1, - 1, 3] [5, 3] True True \<noteq> None"
    using CompareDims_correct [of "''m''" "''t''" "[- 1, - 1, 3]" "[5, 3]" True True]
    by (simp add: WILDCARD_DIM_def All_less_Suc)
  have c: "CompareDims ''m'' ''t'' [- 1, 3] [7, 3] False False = None"
    using CompareDims_correct [of "''m''" "''t''" "[- 1, 3]" "[7, 3]" False False]
    by (simp add: WILDCARD_DIM_def All_less_Suc)
  have d: "CompareDims ''m'' ''t'' [2, 3] [7, 3] False False \<noteq> None"
    using CompareDims_correct [of "''m''" "''t''" "[2, 3]" "[7, 3]" False False]
    by (simp add: WILDCARD_DIM_def All_less_Suc)
  have "CompareDims ''m'' ''t'' [3] [3] True False \<noteq> None"
    using CompareDims_correct [of "''m''" "''t''" "[3]" "[3]" False True]
    by (simp add: WILDCARD_DIM_def)
  then have e: "\<exists>e rest. CompareDims ''m'' ''t'' [3] [3] True False = Some e \<and>
      err_code e = TRITONSERVER_ERROR_INVALID_ARG \<and>
      err_msg e = ''model '' @ [CHR 0x27] @ ''m'' @ [CHR 0x27] @ '', tensor '' @ [CHR 0x27] @
        ''t'' @ [CHR 0x27] @ '': '' @ rest"
    using CompareDims_correct [of "''m''" "''t''" "[3]" "[3]" False True] by blast
  from a b c d e show ?thesis by blast
qed

section \<open>Batching support of a signature\<close>

lemma ModelSupportsBatch_ios_iff:
  "ModelSupportsBatch_ios ios \<longleftrightarrow>
    (\<forall>io\<in>set ios. 1 \<le> length (io_shape io) \<longrightarrow> io_shape io ! 0 = - 1)"
  by (induction ios) (simp_all add: Suc_le_eq)

lemma sig_supports_batch_ios_iff:
  "sig_supports_batch_ios b ios \<longleftrightarrow>
    b \<and> (\<forall>io\<in>set ios. 1 \<le> length (io_shape io) \<and> io_shape io ! 0 = - 1)"
  by (induction ios arbitrary: b) (auto simp: Suc_le_eq)

lemma FixBatchingSupport_sig_supports_batch_iff:
  "FixBatchingSupport_sig_supports_batch inputs outputs \<longleftrightarrow>
    (\<forall>io\<in>set inputs \<union> set outputs. 1 \<le> length (io_shape io) \<and> io_shape io ! 0 = - 1)"
  unfolding FixBatchingSupport_sig_supports_batch_def
  by (simp add: sig_supports_batch_ios_iff) blast

lemma ModelSupportsBatch_pair_iff:
  "ModelSupportsBatch [inputs, outputs] \<longleftrightarrow>
    (\<forall>io\<in>set inputs \<union> set outputs. 1 \<le> length (io_shape io) \<longrightarrow> io_shape io ! 0 = - 1)"
  by (simp add: ModelSupportsBatch_ios_iff) blast

text \<open>
  Claim C6, as stated, fails: a tensor of rank 0 does not make \<^verbatim>\<open>ModelSupportsBatch\<close>
  false, because the test is \<^verbatim>\<open>rank_ != 0 && dims_[0] != -1\<close>. Here the only tensor of
  the signature has rank 0 and the result is true.
\<close>

theorem ModelSupportsBatch_rank0_counterexample:
  "ModelSupportsBatch
     [[\<lparr>io_name = ''x'', io_inmodel_name = ''x:0'', io_data_type = TRITONTF_TYPE_FP32,
        io_shape = []\<rparr>]] \<and>
   \<not> (1 \<le> length (io_shape \<lparr>io_name = ''x'', io_inmodel_name = ''x:0'',
        io_data_type = TRITONTF_TYPE_FP32, io_shape = []\<rparr>))"
  by simp

text \<open>
  Claim C6, amended. \<^verbatim>\<open>ModelSupportsBatch\<close> returns true exactly when every tensor of
  rank at least 1 in the given lists has the leading dimension \<open>-1\<close>; tensors of rank 0
  are passed over. So a single tensor of rank at least 1 whose leading dimension is not
  \<open>-1\<close> makes the result false, whatever the other tensors are.
\<close>

theorem ModelSupportsBatch_iff:
  "ModelSupportsBatch model_ios \<longleftrightarrow>
    (\<forall>ios\<in>set model_ios. \<forall>io\<in>set ios.
       1 \<le> length (io_shape io) \<longrightarrow> io_shape io ! 0 = - 1)"
  by (induction model_ios) (simp_all add: ModelSupportsBatch_ios_iff)

theorem ModelSupportsBatch_iff_witness:
  "\<not> ModelSupportsBatch
     [[\<lparr>io_name = ''a'', io_inmodel_name = ''a:0'', io_data_type = TRITONTF_TYPE_FP32,
        io_shape = [- 1, 4]\<rparr>],
      [\<lparr>io_name = ''b'', io_inmodel_name = ''b:0'', io_data_type = TRITONTF_TYPE_FP32,
        io_shape = [- 1, 4]\<rparr>,
       \<lparr>io_name = ''c'', io_inmodel_name = ''c:0'', io_data_type = TRITONTF_TYPE_FP32,
        io_shape = [2, 4]\<rparr>]] \<and>
   ModelSupportsBatch
     [[\<lparr>io_name = ''a'', io_inmodel_name = ''a:0'', io_data_type = TRITONTF_TYPE_FP32,
        io_shape = [- 1, 4]\<rparr>],
      [\<lparr>io_name = ''b'', io_inmodel_name = ''b:0'', io_data_type = TRITONTF_TYPE_FP32,
        io_shape = [- 1]\<rparr>]]"
proof -
  have a: "\<not> ModelSupportsBatch
     [[\<lparr>io_name = ''a'', io_inmodel_name = ''a:0'', io_data_type = TRITONTF_TYPE_FP32,
        io_shape = [- 1, 4]\<rparr>],
      [\<lparr>io_name = ''b'', io_inmodel_name = ''b:0'', io_data_type = TRITONTF_TYPE_FP32,
        io_shape = [- 1, 4]\<rparr>,
       \<lparr>io_name = ''c'', io_inmodel_name = ''c:0'', io_data_type = TRITONTF_TYPE_FP32,
        io_shape = [2, 4]\<rparr>]]"
    unfolding ModelSupportsBatch_iff by simp
  have b: "ModelSupportsBatch
     [[\<lparr>io_name = ''a'', io_inmodel_name = ''a:0'', io_data_type = TRITONTF_TYPE_FP32,
        io_shape = [- 1, 4]\<rparr>],
      [\<lparr>io_name = ''b'', io_inmodel_name = ''b:0'', io_data_type = TRITONTF_TYPE_FP32,
        io_shape = [- 1]\<rparr>]]"
    unfolding ModelSupportsBatch_iff by simp
  from a b show ?thesis by blast
qed

text \<open>
  Claim C7, as stated, fails on a signature with a tensor of rank 0: the loop of
  \<^verbatim>\<open>FixBatchingSupport\<close> clears its flag (\<^verbatim>\<open>rank_ == 0 || dims_[0] != -1\<close>) while
  \<^verbatim>\<open>ModelSupportsBatch\<close> passes the tensor over.
\<close>

theorem FixBatchingSupport_rank0_counterexample:
  "FixBatchingSupport_sig_supports_batch
     [\<lparr>io_name = ''x'', io_inmodel_name = ''x:0'', io_data_type = TRITONTF_TYPE_FP32,
       io_shape = []\<rparr>] [] \<noteq>
   ModelSupportsBatch
     [[\<lparr>io_name = ''x'', io_inmodel_name = ''x:0'', io_data_type = TRITONTF_TYPE_FP32,
        io_shape = []\<rparr>], []]"
  by (simp add: FixBatchingSupport_sig_supports_batch_def)

text \<open>
  Claim C7, amended. On every signature in which no tensor has rank 0, the predicate
  that \<^verbatim>\<open>FixBatchingSupport\<close> computes inline and \<^verbatim>\<open>ModelSupportsBatch\<close> return the
  same boolean. In general the inline predicate is true exactly when
  \<^verbatim>\<open>ModelSupportsBatch\<close> is true and no tensor of the signature has rank 0.
\<close>

theorem FixBatchingSupport_agrees_with_ModelSupportsBatch:
  "((\<forall>io\<in>set inputs \<union> set outputs. length (io_shape io) \<noteq> 0) \<longrightarrow>
      FixBatchingSupport_sig_supports_batch inputs outputs =
      ModelSupportsBatch [inputs, outputs]) \<and>
   (FixBatchingSupport_sig_supports_batch inputs outputs \<longleftrightarrow>
      ModelSupportsBatch [inputs, outputs] \<and>
      (\<forall>io\<in>set inputs \<union> set outputs. length (io_shape io) \<noteq> 0))"
proof -
  have b: "FixBatchingSupport_sig_supports_batch inputs outputs \<longleftrightarrow>
      ModelSupportsBatch [inputs, outputs] \<and>
      (\<forall>io\<in>set inputs \<union> set outputs. length (io_shape io) \<noteq> 0)"
    unfolding FixBatchingSupport_sig_supports_batch_iff ModelSupportsBatch_pair_iff
    by (auto simp: Suc_le_eq)
  then show ?thesis by blast
qed

theorem FixBatchingSupport_agrees_with_ModelSupportsBatch_witness:
  "FixBatchingSupport_sig_supports_batch
     [\<lparr>io_name = ''a'', io_inmodel_name = ''a:0'', io_data_type = TRITONTF_TYPE_FP32,
       io_shape = [- 1, 4]\<rparr>]
     [\<lparr>io_name = ''b'', io_inmodel_name = ''b:0'', io_data_type = TRITONTF_TYPE_FP32,
       io_shape = [2]\<rparr>] =
   ModelSupportsBatch
     [[\<lparr>io_name = ''a'', io_inmodel_name = ''a:0'', io_data_type = TRITONTF_TYPE_FP32,
        io_shape = [- 1, 4]\<rparr>],
      [\<lparr>io_name = ''b'', io_inmodel_name = ''b:0'', io_data_type = TRITONTF_TYPE_FP32,
        io_shape = [2]\<rparr>]]"
proof -
  have h: "\<forall>io\<in>set [\<lparr>io_name = ''a'', io_inmodel_name = ''a:0'',
        io_data_type = TRITONTF_TYPE_FP32, io_shape = [- 1, 4]\<rparr>] \<union>
      set [\<lparr>io_name = ''b'', io_inmodel_name = ''b:0'', io_data_type = TRITONTF_TYPE_FP32,
        io_shape = [2]\<rparr>]. length (io_shape io) \<noteq> 0"
    by simp
  show ?thesis
    using h FixBatchingSupport_agrees_with_ModelSupportsBatch
      [of "[\<lparr>io_name = ''a'', io_inmodel_name = ''a:0'', io_data_type = TRITONTF_TYPE_FP32,
             io_shape = [- 1, 4]\<rparr>]"
          "[\<lparr>io_name = ''b'', io_inmodel_name = ''b:0'', io_data_type = TRITONTF_TYPE_FP32,
             io_shape = [2]\<rparr>]"]
    by blast
qed

section \<open>The length-prefixed encoding of string tensors\<close>

lemma read_uint32_bytes: "read_uint32 (uint32_bytes w @ rest) = w"
  unfolding read_uint32_def uint32_bytes_def
  apply simp
  apply (rule bit_word_eqI)
  apply (simp add: bit_simps)
  subgoal for n
    apply (cases "n < 8"; cases "n < 16"; cases "n < 24"; simp)
      apply (auto dest: bit_imp_le_length)
    done
  done

lemma length_uint32_bytes: "length (uint32_bytes w) = 4"
  by (simp add: uint32_bytes_def)

lemma serialize_fold:
  "fold (\<lambda>e serialized.
            let cstr = TRITONTF_TensorString tensor (off + e);
                len = length cstr
            in serialized @ uint32_bytes (word_of_nat len) @ (if 0 < len then cstr else []))
      [0..<n] acc =
   acc @ concat (map (\<lambda>e. encode_element (TRITONTF_TensorString tensor (off + e))) [0..<n])"
  by (induction n arbitrary: acc) (simp_all add: Let_def encode_element_def)

lemma serialize_concat:
  assumes "off + n \<le> length tensor"
  shows "SetStringOutputBuffer_serialize tensor n off =
         concat (map encode_element (take n (drop off tensor)))"
proof -
  have "map (\<lambda>e. encode_element (TRITONTF_TensorString tensor (off + e))) [0..<n] =
        map encode_element (take n (drop off tensor))"
    using assms by (intro nth_equalityI) (simp_all add: TRITONTF_TensorString_def)
  then show ?thesis
    unfolding SetStringOutputBuffer_serialize_def serialize_fold by simp
qed

lemma overwrite_Nil: "overwrite t k [] = t"
  by (simp add: overwrite_def)

lemma overwrite_Cons:
  "k < length t \<Longrightarrow> overwrite (t[k := x]) (Suc k) xs = overwrite t k (x # xs)"
  by (simp add: overwrite_def take_Suc_conv_app_nth)

lemma length_overwrite: "k + length xs \<le> length t \<Longrightarrow> length (overwrite t k xs) = length t"
  by (simp add: overwrite_def)

lemma loop_decodes:
  assumes "\<forall>s\<in>set xs. length s < 2 ^ 32"
    and "off + i + length xs \<le> length t" and "i + length xs \<le> cnt"
  shows "SetStringInputTensor_loop name cnt off response t
           (concat (map encode_element xs) @ rest) i =
         SetStringInputTensor_loop name cnt off response (overwrite t (off + i) xs) rest
           (i + length xs)"
  using assms
proof (induction xs arbitrary: t i)
  case Nil
  show ?case by (simp add: overwrite_Nil)
next
  case (Cons x xs)
  have lx: "unat (word_of_nat (length x) :: 32 word) = length x"
    using Cons.prems(1) by (simp add: unat_of_nat)
  have k: "off + i < length t" using Cons.prems(2) by simp
  have step: "SetStringInputTensor_loop name cnt off response t
           (concat (map encode_element (x # xs)) @ rest) i =
        SetStringInputTensor_loop name cnt off response
           (TRITONTF_TensorSetString t (off + i) x)
           (concat (map encode_element xs) @ rest) (i + 1)"
    using Cons.prems(3)
    by (subst SetStringInputTensor_loop.simps)
       (simp add: encode_element_def read_uint32_bytes length_uint32_bytes lx)
  have "SetStringInputTensor_loop name cnt off response
           (TRITONTF_TensorSetString t (off + i) x)
           (concat (map encode_element xs) @ rest) (i + 1) =
        SetStringInputTensor_loop name cnt off response
           (overwrite (TRITONTF_TensorSetString t (off + i) x) (off + (i + 1)) xs) rest
           (i + 1 + length xs)"
    using Cons.prems by (intro Cons.IH) (simp_all add: TRITONTF_TensorSetString_def)
  with step show ?case
    using k by (simp add: TRITONTF_TensorSetString_def overwrite_Cons)
qed

lemma roundtrip_core:
  assumes "\<forall>s\<in>set xs. length s < 2 ^ 32" and "off + length xs \<le> length t"
  shows "SetStringInputTensor t name (Inr (concat (map encode_element xs))) (length xs) off
           response =
         (overwrite t off xs, response, [])"
proof -
  have "SetStringInputTensor_loop name (length xs) off response t
           (concat (map encode_element xs) @ []) 0 =
         SetStringInputTensor_loop name (length xs) off response (overwrite t (off + 0) xs) []
           (0 + length xs)"
    using assms by (intro loop_decodes) simp_all
  also have "\<dots> = Inr (overwrite t off xs, length xs)"
    by (subst SetStringInputTensor_loop.simps) simp
  finally show ?thesis
    by (simp add: SetStringInputTensor_def)
qed

text \<open>
  Claim C2, as stated, fails for a string of \<open>2 ^ 32\<close> bytes or more: the header holds
  only the low 32 bits of the length, while all the bytes are appended. For the single
  string of \<open>2 ^ 32\<close> zero bytes the header reads 0, the decoder stores the empty string
  and then reports one element too many.
\<close>

theorem string_roundtrip_long_counterexample:
  "fst (SetStringInputTensor [[]] ''in''
     (Inr (SetStringOutputBuffer_serialize [replicate 4294967296 0] 1 0)) 1 0 (Some 0)) \<noteq>
   [replicate 4294967296 0]"
proof -
  have ser: "SetStringOutputBuffer_serialize [replicate 4294967296 0] 1 0 =
        [0, 0, 0, 0] @ replicate 4294967296 0"
    by (simp add: SetStringOutputBuffer_serialize_def TRITONTF_TensorString_def uint32_bytes_def)
  have l1: "SetStringInputTensor_loop ''in'' 1 0 (Some 0) [[]]
        ([0, 0, 0, 0] @ replicate 4294967296 0) 0 =
      SetStringInputTensor_loop ''in'' 1 0 (Some 0) [[]] (replicate 4294967296 0) 1"
    by (subst SetStringInputTensor_loop.simps)
       (simp add: read_uint32_def TRITONTF_TensorSetString_def)
  have l2: "\<exists>r. SetStringInputTensor_loop ''in'' 1 0 (Some 0) [[]] (replicate 4294967296 0) 1
      = Inl ([[]], r)"
    by (subst SetStringInputTensor_loop.simps)
       (simp add: RESPOND_AND_SET_NULL_IF_ERROR_def FillStringTensor_def size_t_sub_def)
  from l2 obtain r where
    "SetStringInputTensor_loop ''in'' 1 0 (Some 0) [[]] (replicate 4294967296 0) 1 = Inl ([[]], r)"
    by blast
  then have "fst (SetStringInputTensor [[]] ''in''
     (Inr (SetStringOutputBuffer_serialize [replicate 4294967296 0] 1 0)) 1 0 (Some 0)) = [[]]"
    unfolding ser SetStringInputTensor_def using l1 by simp
  moreover have "[[]] \<noteq> [replicate 4294967296 (0::byte)]"
  proof
    assume "[[]] = [replicate 4294967296 (0::byte)]"
    then have "length ([]::byte list) = length (replicate 4294967296 (0::byte))" by simp
    then show False by simp
  qed
  ultimately show ?thesis by simp
qed

text \<open>
  Claim C2, amended. For every \<open>M\<close> elements of a string tensor, each shorter than
  \<open>2 ^ 32\<close> bytes (zero-length strings included): \<^verbatim>\<open>SetStringOutputBuffer\<close> writes
  their serialisation to the output buffer, and \<^verbatim>\<open>SetStringInputTensor\<close>, given that
  buffer and the element count \<open>M\<close>, stores exactly these \<open>M\<close> strings, byte for byte, at
  its offset in the destination tensor, changes nothing else and reports no error.
\<close>

theorem string_roundtrip:
  assumes "\<forall>s\<in>set (take M (drop src_off src)). length s < 2 ^ 32"
    and "src_off + M \<le> length src"
    and "dst_off + M \<le> length dst"
  shows "SetStringOutputBuffer src r M src_off None None =
           (SetStringOutputBuffer_serialize src M src_off,
            Some (SetStringOutputBuffer_serialize src M src_off), r, []) \<and>
         SetStringInputTensor dst name (Inr (SetStringOutputBuffer_serialize src M src_off)) M
             dst_off response =
           (take dst_off dst @ take M (drop src_off src) @ drop (dst_off + M) dst, response, [])"
proof -
  have len: "length (take M (drop src_off src)) = M"
    using assms(2) by simp
  have "SetStringInputTensor dst name
          (Inr (concat (map encode_element (take M (drop src_off src)))))
          (length (take M (drop src_off src))) dst_off response =
        (overwrite dst dst_off (take M (drop src_off src)), response, [])"
    using assms(1) assms(3) len by (intro roundtrip_core) simp_all
  then have "SetStringInputTensor dst name (Inr (SetStringOutputBuffer_serialize src M src_off))
          M dst_off response =
        (take dst_off dst @ take M (drop src_off src) @ drop (dst_off + M) dst, response, [])"
    unfolding serialize_concat [OF assms(2)] overwrite_def len .
  then show ?thesis
    by (simp add: SetStringOutputBuffer_def Let_def)
qed

theorem string_roundtrip_witness:
  "SetStringInputTensor [[9], [9], [9], [9]] ''in''
      (Inr (SetStringOutputBuffer_serialize [[5], [1, 2, 3], [], [7]] 3 1)) 3 1 (Some 0) =
   ([[9], [1, 2, 3], [], [7]], Some 0, [])"
proof -
  have h1: "\<forall>s\<in>set (take 3 (drop 1 [[5], [1, 2, 3], [], [7::byte]])). length s < 2 ^ 32"
    by simp
  have h2: "1 + 3 \<le> length [[5], [1, 2, 3], [], [7::byte]]" by simp
  have h3: "1 + 3 \<le> length [[9], [9], [9], [9::byte]]" by simp
  show ?thesis
    using string_roundtrip [OF h1 h2 h3, of "Some 0" "''in''" "Some 0"] by simp
qed

section \<open>One malformed string payload does not disturb the batch\<close>

lemma nth_list_update_total:
  "xs[k := v] ! p = (if p = k \<and> k < length xs then v else xs ! p)"
proof (cases "k < length xs")
  case True
  then show ?thesis by (simp add: nth_list_update)
next
  case False
  then have "xs[k := v] = xs" by (simp add: list_update_beyond)
  with False show ?thesis by simp
qed

lemma length_FillStringTensor: "length (FillStringTensor t idx n) = length t"
  unfolding FillStringTensor_def
  by (induction n) (simp_all add: TRITONTF_TensorSetString_def)

lemma nth_FillStringTensor:
  "FillStringTensor t idx n ! p = (if idx \<le> p \<and> p < idx + n \<and> p < length t then [] else t ! p)"
proof (induction n)
  case 0
  show ?case by (auto simp: FillStringTensor_def)
next
  case (Suc n)
  have "FillStringTensor t idx (Suc n) = (FillStringTensor t idx n)[idx + n := []]"
    by (simp add: FillStringTensor_def TRITONTF_TensorSetString_def)
  then show ?case
    using Suc length_FillStringTensor [of t idx n]
    by (cases "p = idx + n") (auto simp: nth_list_update_total)
qed

lemma nth_TensorSetString:
  "TRITONTF_TensorSetString t k v ! p = (if p = k \<and> p < length t then v else t ! p)"
  by (auto simp: TRITONTF_TensorSetString_def nth_list_update_total)

lemma length_TensorSetString: "length (TRITONTF_TensorSetString t k v) = length t"
  by (simp add: TRITONTF_TensorSetString_def)

lemma RESPOND_cases:
  "RESPOND_AND_SET_NULL_IF_ERROR r x = (r', evs) \<Longrightarrow>
    (x = None \<and> r' = r \<and> evs = []) \<or>
    (x \<noteq> None \<and> r = None \<and> r' = None \<and> evs = []) \<or>
    (\<exists>e i. x = Some e \<and> r = Some i \<and> r' = None \<and> evs = [ResponseSend i (Some e)])"
  by (auto simp: RESPOND_AND_SET_NULL_IF_ERROR_def split: option.splits)

lemma loop_length:
  "length (loop_tensor (SetStringInputTensor_loop name cnt off r t content i)) = length t"
proof (induction name cnt off r t content i rule: SetStringInputTensor_loop.induct)
  case (1 name cnt off r t content i)
  show ?case
    apply (subst SetStringInputTensor_loop.simps)
    using 1
    apply (auto simp: loop_tensor_def length_FillStringTensor length_TensorSetString
        split: prod.splits)
    done
qed

lemma loop_frame:
  "i \<le> cnt \<Longrightarrow> p < off + i \<or> off + cnt \<le> p \<Longrightarrow>
   loop_tensor (SetStringInputTensor_loop name cnt off r t content i) ! p = t ! p"
proof (induction name cnt off r t content i rule: SetStringInputTensor_loop.induct)
  case (1 name cnt off r t content i)
  show ?case
    apply (subst SetStringInputTensor_loop.simps)
    using 1
    apply (auto simp: loop_tensor_def nth_FillStringTensor nth_TensorSetString size_t_sub_def
        split: prod.splits)
    done
qed

lemma loop_outcome_indep:
  "loop_outcome (SetStringInputTensor_loop name cnt off r t content i) =
   loop_outcome (SetStringInputTensor_loop name cnt off' r t' content i)"
proof (induction name cnt off r t content i arbitrary: t' rule: SetStringInputTensor_loop.induct)
  case (1 name cnt off r t content i)
  show ?case
    apply (subst SetStringInputTensor_loop.simps)
    apply (subst (2) SetStringInputTensor_loop.simps)
    using 1
    apply (auto simp: loop_outcome_def split: prod.splits)
    done
qed

lemma loop_pointwise:
  "length t = length t' \<Longrightarrow> t ! p = t' ! p \<Longrightarrow>
   loop_tensor (SetStringInputTensor_loop name cnt off r t content i) ! p =
   loop_tensor (SetStringInputTensor_loop name cnt off r t' content i) ! p"
proof (induction name cnt off r t content i arbitrary: t' rule: SetStringInputTensor_loop.induct)
  case (1 name cnt off r t content i)
  show ?case
    apply (subst SetStringInputTensor_loop.simps)
    apply (subst (2) SetStringInputTensor_loop.simps)
    using 1
    apply (auto simp: loop_tensor_def nth_FillStringTensor nth_TensorSetString
        length_TensorSetString split: prod.splits)
    done
qed

lemma loop_idx:
  "SetStringInputTensor_loop name cnt off r t content i = Inr (a, k) \<Longrightarrow>
   i \<le> k \<and> (i \<le> cnt \<longrightarrow> k \<le> cnt)"
proof (induction name cnt off r t content i rule: SetStringInputTensor_loop.induct)
  case (1 name cnt off r t content i)
  from "1.prems" show ?case
    apply (subst (asm) SetStringInputTensor_loop.simps)
    using "1.IH"
    apply (auto split: if_splits prod.splits)
    done
qed

lemma ssit_length:
  "length (fst (SetStringInputTensor t name c cnt off r)) = length t"
proof (cases c)
  case (Inl err)
  then show ?thesis
    by (simp add: SetStringInputTensor_def length_FillStringTensor split: prod.splits)
next
  case (Inr content)
  show ?thesis
  proof (cases "SetStringInputTensor_loop name cnt off r t content 0")
    case (Inl ret)
    with loop_length [of name cnt off r t content 0] Inr show ?thesis
      by (auto simp: SetStringInputTensor_def loop_tensor_def split: prod.splits)
  next
    case (Inr b)
    with loop_length [of name cnt off r t content 0] \<open>c = Inr content\<close> show ?thesis
      by (auto simp: SetStringInputTensor_def loop_tensor_def length_FillStringTensor
          split: prod.splits)
  qed
qed

lemma ssit_frame:
  assumes "p < off \<or> off + cnt \<le> p"
  shows "fst (SetStringInputTensor t name c cnt off r) ! p = t ! p"
proof (cases c)
  case (Inl err)
  then show ?thesis
    using assms
    by (auto simp: SetStringInputTensor_def nth_FillStringTensor size_t_sub_def
        split: prod.splits)
next
  case (Inr content)
  have fr: "loop_tensor (SetStringInputTensor_loop name cnt off r t content 0) ! p = t ! p"
    using assms by (intro loop_frame) simp_all
  show ?thesis
  proof (cases "SetStringInputTensor_loop name cnt off r t content 0")
    case (Inl ret)
    with fr Inr show ?thesis
      by (auto simp: SetStringInputTensor_def loop_tensor_def split: prod.splits)
  next
    case (Inr b)
    obtain a k where b: "b = (a, k)" by (cases b)
    have "k \<le> cnt" using loop_idx [of name cnt off r t content 0 a k] Inr b by simp
    with fr Inr b \<open>c = Inr content\<close> assms show ?thesis
      by (auto simp: SetStringInputTensor_def loop_tensor_def nth_FillStringTensor
          size_t_sub_def split: prod.splits)
  qed
qed

lemma ssit_snd_indep:
  "snd (SetStringInputTensor t name c cnt off r) = snd (SetStringInputTensor t' name c cnt off' r)"
proof (cases c)
  case (Inl err)
  then show ?thesis
    by (simp add: SetStringInputTensor_def split: prod.splits)
next
  case (Inr content)
  have "loop_outcome (SetStringInputTensor_loop name cnt off r t content 0) =
        loop_outcome (SetStringInputTensor_loop name cnt off' r t' content 0)"
    by (rule loop_outcome_indep)
  then show ?thesis
    using Inr
    by (cases "SetStringInputTensor_loop name cnt off r t content 0";
        cases "SetStringInputTensor_loop name cnt off' r t' content 0")
       (auto simp: SetStringInputTensor_def loop_outcome_def split: prod.splits)
qed

lemma ssit_pointwise:
  assumes "length t = length t'" and "t ! p = t' ! p"
  shows "fst (SetStringInputTensor t name c cnt off r) ! p =
         fst (SetStringInputTensor t' name c cnt off r) ! p"
proof (cases c)
  case (Inl err)
  then show ?thesis
    using assms
    by (auto simp: SetStringInputTensor_def nth_FillStringTensor split: prod.splits)
next
  case (Inr content)
  have pw: "loop_tensor (SetStringInputTensor_loop name cnt off r t content 0) ! p =
        loop_tensor (SetStringInputTensor_loop name cnt off r t' content 0) ! p"
    using assms by (rule loop_pointwise)
  have oc: "loop_outcome (SetStringInputTensor_loop name cnt off r t content 0) =
        loop_outcome (SetStringInputTensor_loop name cnt off r t' content 0)"
    by (rule loop_outcome_indep)
  have l1: "length (loop_tensor (SetStringInputTensor_loop name cnt off r t content 0)) = length t"
    by (rule loop_length)
  have l2: "length (loop_tensor (SetStringInputTensor_loop name cnt off r t' content 0)) = length t'"
    by (rule loop_length)
  show ?thesis
    using Inr pw oc l1 l2 assms(1)
    by (cases "SetStringInputTensor_loop name cnt off r t content 0";
        cases "SetStringInputTensor_loop name cnt off r t' content 0")
       (auto simp: SetStringInputTensor_def loop_outcome_def loop_tensor_def
          nth_FillStringTensor split: prod.splits)
qed

lemma loop_resp:
  "SetStringInputTensor_loop name cnt off r t content i = Inl (a, r', evs) \<Longrightarrow>
   (r = None \<and> r' = None \<and> evs = []) \<or>
   (\<exists>x e. r = Some x \<and> r' = None \<and> evs = [ResponseSend x (Some e)])"
proof (induction name cnt off r t content i rule: SetStringInputTensor_loop.induct)
  case (1 name cnt off r t content i)
  from "1.prems" show ?case
    apply (subst (asm) SetStringInputTensor_loop.simps)
    using "1.IH"
    apply (auto split: if_splits prod.splits dest!: RESPOND_cases)
    done
qed

lemma ssit_resp:
  assumes "SetStringInputTensor t name c cnt off r = (t', r', evs)"
  shows "(r' = r \<and> evs = []) \<or>
         (\<exists>x e. r = Some x \<and> r' = None \<and> evs = [ResponseSend x (Some e)])"
proof (cases c)
  case (Inl err)
  then show ?thesis
    using assms
    by (auto simp: SetStringInputTensor_def split: prod.splits dest!: RESPOND_cases)
next
  case (Inr content)
  show ?thesis
  proof (cases "SetStringInputTensor_loop name cnt off r t content 0")
    case (Inl ret)
    with Inr assms have "SetStringInputTensor_loop name cnt off r t content 0 = Inl (t', r', evs)"
      by (simp add: SetStringInputTensor_def)
    from loop_resp [OF this] show ?thesis by auto
  next
    case (Inr b)
    with \<open>c = Inr content\<close> assms show ?thesis
      by (auto simp: SetStringInputTensor_def split: prod.splits if_splits
          dest!: RESPOND_cases)
  qed
qed

lemma RESPOND_shape:
  "RESPOND_AND_SET_NULL_IF_ERROR r x = (r', evs) \<Longrightarrow>
    (r' = r \<and> evs = []) \<or> (\<exists>i e. r = Some i \<and> r' = None \<and> evs = [ResponseSend i (Some e)])"
  by (auto simp: RESPOND_AND_SET_NULL_IF_ERROR_def split: option.splits)

lemma body_shape:
  "\<exists>r2 r3 new.
     (\<forall>t rs off ev. rs ! k = r \<longrightarrow>
        string_input_body name R k (t, rs, off, ev) =
          (fst (SetStringInputTensor t name (input_content (R ! k)) (batch_element_cnt (R ! k))
                  off r2),
           rs[k := r3], off + batch_element_cnt (R ! k), ev @ new)) \<and>
     ((new = [] \<and> r3 = r) \<or>
      (\<exists>x e. r = Some x \<and> r3 = None \<and> new = [ResponseSend x (Some e)]))"
proof -
  obtain r1 ev1 where a: "RESPOND_AND_SET_NULL_IF_ERROR r (RequestInput_err (R ! k)) = (r1, ev1)"
    by (cases "RESPOND_AND_SET_NULL_IF_ERROR r (RequestInput_err (R ! k))")
  obtain r2 ev2 where b: "RESPOND_AND_SET_NULL_IF_ERROR r1 (InputProperties_err (R ! k)) = (r2, ev2)"
    by (cases "RESPOND_AND_SET_NULL_IF_ERROR r1 (InputProperties_err (R ! k))")
  obtain t0 r3 ev3 where c:
    "SetStringInputTensor [] name (input_content (R ! k)) (batch_element_cnt (R ! k)) 0 r2 =
       (t0, r3, ev3)"
    by (cases "SetStringInputTensor [] name (input_content (R ! k)) (batch_element_cnt (R ! k)) 0 r2")
  have indep: "snd (SetStringInputTensor t name (input_content (R ! k))
                  (batch_element_cnt (R ! k)) off r2) = (r3, ev3)" for t off
    using ssit_snd_indep [of t name "input_content (R ! k)" "batch_element_cnt (R ! k)" off r2
        "[]" 0] c by simp
  have eq: "string_input_body name R k (t, rs, off, ev) =
          (fst (SetStringInputTensor t name (input_content (R ! k)) (batch_element_cnt (R ! k))
                  off r2),
           rs[k := r3], off + batch_element_cnt (R ! k), ev @ (ev1 @ ev2 @ ev3))"
    if "rs ! k = r" for t rs off ev
    using that a b indep [of t off]
    by (cases "SetStringInputTensor t name (input_content (R ! k)) (batch_element_cnt (R ! k))
                  off r2")
       (simp add: string_input_body_def)
  have sh: "(ev1 @ ev2 @ ev3 = [] \<and> r3 = r) \<or>
      (\<exists>x e. r = Some x \<and> r3 = None \<and> ev1 @ ev2 @ ev3 = [ResponseSend x (Some e)])"
    using RESPOND_shape [OF a] RESPOND_shape [OF b] ssit_resp [OF c] by auto
  from eq sh show ?thesis by blast
qed

lemma body_cong:
  "R ! k = R' ! k \<Longrightarrow> string_input_body name R k = string_input_body name R' k"
  by (rule ext) (simp add: string_input_body_def)

lemma fold_body_props:
  assumes "fold (string_input_body name R) ks (t, rs, off, ev) = (t', rs', off', ev')"
  shows "off' = off + sum_list (map (\<lambda>k. batch_element_cnt (R ! k)) ks) \<and>
         length t' = length t \<and> length rs' = length rs \<and>
         (\<forall>p<off. t' ! p = t ! p) \<and>
         (\<forall>j. j \<notin> set ks \<longrightarrow> rs' ! j = rs ! j)"
  using assms
proof (induction ks arbitrary: t rs off ev)
  case Nil
  then show ?case by simp
next
  case (Cons k ks)
  obtain r2 r3 new where
    b: "string_input_body name R k (t, rs, off, ev) =
          (fst (SetStringInputTensor t name (input_content (R ! k)) (batch_element_cnt (R ! k))
                  off r2),
           rs[k := r3], off + batch_element_cnt (R ! k), ev @ new)"
    using body_shape [of k "rs ! k" name R] by blast
  let ?t1 = "fst (SetStringInputTensor t name (input_content (R ! k)) (batch_element_cnt (R ! k))
                  off r2)"
  from Cons.prems b have
    "fold (string_input_body name R) ks
       (?t1, rs[k := r3], off + batch_element_cnt (R ! k), ev @ new) = (t', rs', off', ev')"
    by simp
  from Cons.IH [OF this] have
    ih: "off' = off + batch_element_cnt (R ! k) + sum_list (map (\<lambda>k. batch_element_cnt (R ! k)) ks)"
      "length t' = length ?t1" "length rs' = length (rs[k := r3])"
      "\<forall>p<off + batch_element_cnt (R ! k). t' ! p = ?t1 ! p"
      "\<forall>j. j \<notin> set ks \<longrightarrow> rs' ! j = rs[k := r3] ! j"
    by simp_all
  have fr: "\<forall>p<off. ?t1 ! p = t ! p"
    by (simp add: ssit_frame)
  from ih fr show ?case
    by (auto simp: ssit_length nth_list_update_total)
qed

lemma fold_body_events:
  assumes "fold (string_input_body name R) ks (t, rs, off, ev) = (t', rs', off', ev')"
    and "\<forall>j<length rs. rs ! j = None \<or> rs ! j = Some j"
    and "\<forall>k\<in>set ks. k < length rs"
  shows "(\<forall>j<length rs. rs' ! j = None \<or> rs' ! j = Some j) \<and>
         (\<exists>new. ev' = ev @ new \<and> (\<forall>e\<in>set new. event_request e \<in> set ks))"
  using assms
proof (induction ks arbitrary: t rs off ev)
  case Nil
  then show ?case by simp
next
  case (Cons k ks)
  obtain r2 r3 new where
    b: "string_input_body name R k (t, rs, off, ev) =
          (fst (SetStringInputTensor t name (input_content (R ! k)) (batch_element_cnt (R ! k))
                  off r2),
           rs[k := r3], off + batch_element_cnt (R ! k), ev @ new)"
    and sh: "(new = [] \<and> r3 = rs ! k) \<or>
      (\<exists>x e. rs ! k = Some x \<and> r3 = None \<and> new = [ResponseSend x (Some e)])"
    using body_shape [of k "rs ! k" name R] by blast
  let ?t1 = "fst (SetStringInputTensor t name (input_content (R ! k)) (batch_element_cnt (R ! k))
                  off r2)"
  have k: "k < length rs" using Cons.prems(3) by simp
  have rk: "rs ! k = None \<or> rs ! k = Some k" using Cons.prems(2) k by blast
  have new: "\<forall>e\<in>set new. event_request e = k"
    using sh rk by auto
  have inv: "\<forall>j<length (rs[k := r3]). rs[k := r3] ! j = None \<or> rs[k := r3] ! j = Some j"
    using Cons.prems(2) sh rk by (auto simp: nth_list_update_total)
  have ks: "\<forall>k'\<in>set ks. k' < length (rs[k := r3])"
    using Cons.prems(3) by simp
  from Cons.prems(1) b have
    "fold (string_input_body name R) ks
       (?t1, rs[k := r3], off + batch_element_cnt (R ! k), ev @ new) = (t', rs', off', ev')"
    by simp
  from Cons.IH [OF this inv ks] obtain new' where
    "\<forall>j<length rs. rs' ! j = None \<or> rs' ! j = Some j"
    "ev' = (ev @ new) @ new'" "\<forall>e\<in>set new'. event_request e \<in> set ks"
    by auto
  with new show ?case
    by (intro conjI exI [of _ "new @ new'"]) auto
qed

lemma fold_body_rel:
  assumes "fold (string_input_body name R1) ks (t1, rs1, off, ev1) = (t1', rs1', off1', ev1')"
    and "fold (string_input_body name R2) ks (t2, rs2, off, ev2) = (t2', rs2', off2', ev2')"
    and "\<forall>k\<in>set ks. R1 ! k = R2 ! k \<and> rs1 ! k = rs2 ! k"
    and "length t1 = length t2" and "length rs1 = length rs2"
  shows "off1' = off2' \<and>
         (\<exists>new. ev1' = ev1 @ new \<and> ev2' = ev2 @ new) \<and>
         (\<forall>j. rs1 ! j = rs2 ! j \<longrightarrow> rs1' ! j = rs2' ! j) \<and>
         (\<forall>p. t1 ! p = t2 ! p \<longrightarrow> t1' ! p = t2' ! p)"
  using assms
proof (induction ks arbitrary: t1 rs1 off ev1 t2 rs2 ev2)
  case Nil
  then show ?case by simp
next
  case (Cons k ks)
  have same: "R1 ! k = R2 ! k" "rs1 ! k = rs2 ! k" using Cons.prems(3) by simp_all
  obtain r2 r3 new where
    sh: "\<forall>t rs off ev. rs ! k = rs1 ! k \<longrightarrow>
        string_input_body name R1 k (t, rs, off, ev) =
          (fst (SetStringInputTensor t name (input_content (R1 ! k)) (batch_element_cnt (R1 ! k))
                  off r2),
           rs[k := r3], off + batch_element_cnt (R1 ! k), ev @ new)"
    using body_shape [of k "rs1 ! k" name R1] by blast
  let ?a1 = "fst (SetStringInputTensor t1 name (input_content (R1 ! k))
                 (batch_element_cnt (R1 ! k)) off r2)"
  let ?a2 = "fst (SetStringInputTensor t2 name (input_content (R1 ! k))
                 (batch_element_cnt (R1 ! k)) off r2)"
  have b1: "string_input_body name R1 k (t1, rs1, off, ev1) =
      (?a1, rs1[k := r3], off + batch_element_cnt (R1 ! k), ev1 @ new)"
    using sh by blast
  have b2: "string_input_body name R2 k (t2, rs2, off, ev2) =
      (?a2, rs2[k := r3], off + batch_element_cnt (R1 ! k), ev2 @ new)"
    using sh same body_cong [of R1 k R2 name] by simp
  have f1: "fold (string_input_body name R1) ks
       (?a1, rs1[k := r3], off + batch_element_cnt (R1 ! k), ev1 @ new) = (t1', rs1', off1', ev1')"
    using Cons.prems(1) b1 by simp
  have f2: "fold (string_input_body name R2) ks
       (?a2, rs2[k := r3], off + batch_element_cnt (R1 ! k), ev2 @ new) = (t2', rs2', off2', ev2')"
    using Cons.prems(2) b2 by simp
  have h3: "\<forall>k'\<in>set ks. R1 ! k' = R2 ! k' \<and> rs1[k := r3] ! k' = rs2[k := r3] ! k'"
    using Cons.prems(3) Cons.prems(5) by (auto simp: nth_list_update_total)
  have h4: "length ?a1 = length ?a2"
    using Cons.prems(4) by (simp add: ssit_length)
  have h5: "length (rs1[k := r3]) = length (rs2[k := r3])"
    using Cons.prems(5) by simp
  from Cons.IH [OF f1 f2 h3 h4 h5] obtain new' where
    ih: "off1' = off2'" "ev1' = (ev1 @ new) @ new'" "ev2' = (ev2 @ new) @ new'"
      "\<forall>j. rs1[k := r3] ! j = rs2[k := r3] ! j \<longrightarrow> rs1' ! j = rs2' ! j"
      "\<forall>p. ?a1 ! p = ?a2 ! p \<longrightarrow> t1' ! p = t2' ! p"
    by auto
  have pw: "\<forall>p. t1 ! p = t2 ! p \<longrightarrow> ?a1 ! p = ?a2 ! p"
    using Cons.prems(4) by (auto intro: ssit_pointwise)
  have rsj: "\<forall>j. rs1 ! j = rs2 ! j \<longrightarrow> rs1[k := r3] ! j = rs2[k := r3] ! j"
    using Cons.prems(5) by (auto simp: nth_list_update_total)
  from ih pw rsj show ?case
    by (intro conjI exI [of _ "new @ new'"]) auto
qed

lemma nth_overwrite:
  "k + length xs \<le> length t \<Longrightarrow> p < length t \<Longrightarrow>
   overwrite t k xs ! p = (if p < k then t ! p else if p < k + length xs then xs ! (p - k) else t ! p)"
  by (auto simp: overwrite_def nth_append min_def)

lemma Fill_overwrite:
  assumes "off + cnt \<le> length t" and "length xs \<le> cnt"
  shows "FillStringTensor (overwrite t off xs) (off + length xs) (cnt - length xs) =
         overwrite t off (xs @ replicate (cnt - length xs) [])"
proof (rule nth_equalityI)
  show "length (FillStringTensor (overwrite t off xs) (off + length xs) (cnt - length xs)) =
        length (overwrite t off (xs @ replicate (cnt - length xs) []))"
    using assms by (simp add: length_FillStringTensor length_overwrite)
next
  fix p
  assume "p < length (FillStringTensor (overwrite t off xs) (off + length xs) (cnt - length xs))"
  then have p: "p < length t"
    using assms by (simp add: length_FillStringTensor length_overwrite)
  show "FillStringTensor (overwrite t off xs) (off + length xs) (cnt - length xs) ! p =
        overwrite t off (xs @ replicate (cnt - length xs) []) ! p"
    using assms p
    by (auto simp: nth_FillStringTensor nth_overwrite length_overwrite nth_append)
qed

lemma ssit_malformed:
  assumes small: "\<forall>s\<in>set xs. length s < 2 ^ 32"
    and fits: "off + cnt \<le> length t"
    and bad: "(length xs < cnt \<and>
                (length rest < 4 \<or> (\<exists>n body. rest = uint32_bytes n @ body \<and> length body < unat n))) \<or>
              (length xs = cnt \<and> 4 \<le> length rest)"
  shows "\<exists>e. SetStringInputTensor t name (Inr (concat (map encode_element xs) @ rest)) cnt off
                (Some x) =
              (overwrite t off (xs @ replicate (cnt - length xs) []), None,
               [ResponseSend x (Some e)])"
proof -
  have le: "length xs \<le> cnt" using bad by auto
  have dec: "SetStringInputTensor_loop name cnt off (Some x) t
               (concat (map encode_element xs) @ rest) 0 =
             SetStringInputTensor_loop name cnt off (Some x) (overwrite t (off + 0) xs) rest
               (0 + length xs)"
    using small fits le by (intro loop_decodes) simp_all
  let ?t1 = "overwrite t off xs"
  have fill: "FillStringTensor ?t1 (off + length xs) (size_t_sub cnt (length xs)) =
        overwrite t off (xs @ replicate (cnt - length xs) [])"
    using Fill_overwrite [OF fits le] le by (simp add: size_t_sub_def)
  from bad consider
      (few) "length xs < cnt" "length rest < 4"
    | (trunc) n body where "length xs < cnt" "rest = uint32_bytes n @ body" "length body < unat n"
    | (many) "length xs = cnt" "4 \<le> length rest"
    by blast
  then show ?thesis
  proof cases
    case few
    have "SetStringInputTensor_loop name cnt off (Some x) ?t1 rest (length xs) =
          Inr (?t1, length xs)"
      using few by (subst SetStringInputTensor_loop.simps) simp
    with dec few fill show ?thesis
      by (simp add: SetStringInputTensor_def RESPOND_AND_SET_NULL_IF_ERROR_def)
  next
    case trunc
    have "\<exists>e. SetStringInputTensor_loop name cnt off (Some x) ?t1 rest (length xs) =
          Inl (FillStringTensor ?t1 (off + length xs) (size_t_sub cnt (length xs)), None,
               [ResponseSend x (Some e)])"
      using trunc
      by (subst SetStringInputTensor_loop.simps)
         (simp add: read_uint32_bytes length_uint32_bytes RESPOND_AND_SET_NULL_IF_ERROR_def)
    with dec fill show ?thesis
      by (auto simp: SetStringInputTensor_def)
  next
    case many
    have "\<exists>e. SetStringInputTensor_loop name cnt off (Some x) ?t1 rest (length xs) =
          Inl (FillStringTensor ?t1 (off + length xs) (size_t_sub cnt (length xs)), None,
               [ResponseSend x (Some e)])"
      using many
      by (subst SetStringInputTensor_loop.simps)
         (simp add: RESPOND_AND_SET_NULL_IF_ERROR_def)
    with dec fill show ?thesis
      by (auto simp: SetStringInputTensor_def)
  qed
qed

lemma upt_split: "i < n \<Longrightarrow> [0..<n] = [0..<i] @ i # [Suc i..<n]"
  by (metis le_add2 le_add_same_cancel2 less_imp_add_positive upt_add_eq_append upt_conv_Cons
      zero_le)

lemma sum_cnt_upt:
  "i \<le> length R \<Longrightarrow>
   sum_list (map (\<lambda>k. batch_element_cnt (R ! k)) [0..<i]) = span_start R i"
proof -
  assume "i \<le> length R"
  then have "map (\<lambda>k. batch_element_cnt (R ! k)) [0..<i] = map batch_element_cnt (take i R)"
    by (intro nth_equalityI) simp_all
  then show ?thesis by (simp add: span_start_def)
qed

lemma span_fits:
  assumes "i < length R"
  shows "span_start R i + batch_element_cnt (R ! i) \<le> sum_list (map batch_element_cnt R)"
proof -
  have "R = take i R @ R ! i # drop (Suc i) R"
    using assms by (simp add: id_take_nth_drop)
  then have "sum_list (map batch_element_cnt R) =
      sum_list (map batch_element_cnt (take i R)) + batch_element_cnt (R ! i) +
      sum_list (map batch_element_cnt (drop (Suc i) R))"
    by (metis (no_types, lifting) add.assoc list.simps(9) map_append sum_list.Cons
        sum_list.append)
  then show ?thesis by (simp add: span_start_def)
qed

text \<open>
  What holds while the response is pending. In the loop that fills a string-typed
  input tensor from the requests of a cycle, let request \<open>i\<close>, whose response is
  still pending, deliver a malformed payload: after the complete elements \<open>xs\<close>
  either the payload ends although fewer elements than declared were given, or a
  length header promises more bytes than remain, or the declared number of elements
  is followed by further data. Then the response of request \<open>i\<close> is completed with an
  error, once, and its pointer is nulled out; the complete elements are stored and the
  rest of the span of request \<open>i\<close> in the batched tensor holds empty strings; and what
  the loop does for the other requests is what it does when request \<open>i\<close> is replaced
  by any other request \<open>other\<close> with the same element count.
\<close>

lemma pending_response_malformed_payload:
  assumes i: "i < length requests"
    and len: "length responses = length requests"
    and resp: "\<forall>j<length requests. responses ! j = None \<or> responses ! j = Some j"
    and live: "responses ! i = Some i"
    and noerr: "RequestInput_err (requests ! i) = None"
      "InputProperties_err (requests ! i) = None"
    and payload: "input_content (requests ! i) = Inr (concat (map encode_element xs) @ rest)"
    and small: "\<forall>s\<in>set xs. length s < 2 ^ 32"
    and bad: "(length xs < batch_element_cnt (requests ! i) \<and>
                (length rest < 4 \<or>
                 (\<exists>n body. rest = uint32_bytes n @ body \<and> length body < unat n))) \<or>
              (length xs = batch_element_cnt (requests ! i) \<and> 4 \<le> length rest)"
    and fits: "sum_list (map batch_element_cnt requests) \<le> length tensor"
    and run: "ProcessRequests_string_input name requests responses tensor =
                (tensor', responses', off', events')"
    and other: "batch_element_cnt other = batch_element_cnt (requests ! i)"
    and run2: "ProcessRequests_string_input name (requests[i := other]) responses tensor =
                (tensor'', responses'', off'', events'')"
  shows "responses' ! i = None \<and>
         (\<exists>e. filter (\<lambda>ev. event_request ev = i) events' = [ResponseSend i (Some e)]) \<and>
         (\<forall>p<length xs. tensor' ! (span_start requests i + p) = xs ! p) \<and>
         (\<forall>p. span_start requests i + length xs \<le> p \<and>
               p < span_start requests i + batch_element_cnt (requests ! i) \<longrightarrow>
               tensor' ! p = []) \<and>
         (\<forall>j<length requests. j \<noteq> i \<longrightarrow> responses'' ! j = responses' ! j) \<and>
         (\<forall>p<length tensor. p < span_start requests i \<or>
               span_start requests i + batch_element_cnt (requests ! i) \<le> p \<longrightarrow>
               tensor'' ! p = tensor' ! p) \<and>
         filter (\<lambda>ev. event_request ev \<noteq> i) events'' =
           filter (\<lambda>ev. event_request ev \<noteq> i) events' \<and>
         off'' = off'"
proof -
  let ?n = "length requests"
  let ?R' = "requests[i := other]"
  let ?f = "string_input_body name requests"
  let ?f' = "string_input_body name ?R'"
  let ?cnt = "batch_element_cnt (requests ! i)"
  let ?off = "span_start requests i"
  have split: "[0..<?n] = [0..<i] @ i # [Suc i..<?n]"
    using i by (rule upt_split)
  \<comment> \<open>the requests before \<open>i\<close>\<close>
  obtain ti rsi offi evi where si: "fold ?f [0..<i] (tensor, responses, 0, []) = (ti, rsi, offi, evi)"
    by (cases "fold ?f [0..<i] (tensor, responses, 0, [])") auto
  have si': "fold ?f' [0..<i] (tensor, responses, 0, []) = (ti, rsi, offi, evi)"
  proof -
    have "fold ?f' [0..<i] (tensor, responses, 0, []) = fold ?f [0..<i] (tensor, responses, 0, [])"
      by (intro fold_cong refl body_cong) simp
    with si show ?thesis by simp
  qed
  from fold_body_props [OF si] have
    offi: "offi = ?off" and lti: "length ti = length tensor" and lrsi: "length rsi = ?n"
    and rsi_i: "rsi ! i = Some i"
    using i len live sum_cnt_upt [of i requests] by simp_all
  from fold_body_events [OF si] resp len i obtain
    inv_i: "\<forall>j<?n. rsi ! j = None \<or> rsi ! j = Some j"
    and evi: "\<forall>e\<in>set evi. event_request e \<in> set [0..<i]"
    by auto
  have room: "?off + ?cnt \<le> length ti"
    using span_fits [OF i] fits lti by simp
  \<comment> \<open>request \<open>i\<close>\<close>
  obtain e where ss: "SetStringInputTensor ti name (Inr (concat (map encode_element xs) @ rest))
      ?cnt ?off (Some i) =
      (overwrite ti ?off (xs @ replicate (?cnt - length xs) []), None, [ResponseSend i (Some e)])"
    using ssit_malformed [OF small room bad, of name i] by blast
  let ?ti1 = "overwrite ti ?off (xs @ replicate (?cnt - length xs) [])"
  have step: "?f i (ti, rsi, offi, evi) =
        (?ti1, rsi[i := None], ?off + ?cnt, evi @ [ResponseSend i (Some e)])"
    using ss noerr payload rsi_i offi
    by (simp add: string_input_body_def RESPOND_AND_SET_NULL_IF_ERROR_def)
  obtain r2 r3 new where
    step': "?f' i (ti, rsi, offi, evi) =
          (fst (SetStringInputTensor ti name (input_content (?R' ! i))
                  (batch_element_cnt (?R' ! i)) offi r2),
           rsi[i := r3], offi + batch_element_cnt (?R' ! i), evi @ new)"
    and new: "(new = [] \<and> r3 = rsi ! i) \<or>
      (\<exists>x e. rsi ! i = Some x \<and> r3 = None \<and> new = [ResponseSend x (Some e)])"
    using body_shape [of i "rsi ! i" name ?R'] by blast
  let ?ti1' = "fst (SetStringInputTensor ti name (input_content (?R' ! i))
                  (batch_element_cnt (?R' ! i)) offi r2)"
  have cnt': "batch_element_cnt (?R' ! i) = ?cnt"
    using i other by simp
  have new_i: "\<forall>e\<in>set new. event_request e = i"
    using new rsi_i by auto
  \<comment> \<open>the requests after \<open>i\<close>\<close>
  have fin: "fold ?f [Suc i..<?n]
      (?ti1, rsi[i := None], ?off + ?cnt, evi @ [ResponseSend i (Some e)]) =
      (tensor', responses', off', events')"
    using run si step unfolding ProcessRequests_string_input_def
    by (subst (asm) split) simp
  have fin': "fold ?f' [Suc i..<?n]
      (?ti1', rsi[i := r3], ?off + ?cnt, evi @ new) =
      (tensor'', responses'', off'', events'')"
    using run2 si' step' cnt' offi unfolding ProcessRequests_string_input_def
    by (simp add: split [simplified])
  have lt1: "length ?ti1 = length ti"
    using room bad by (intro length_overwrite) auto
  from fold_body_props [OF fin] have
    keep_t: "\<forall>p<?off + ?cnt. tensor' ! p = ?ti1 ! p"
    and r_i: "responses' ! i = None"
    using i lrsi by simp_all
  have inv1: "\<forall>j<length (rsi[i := None]). rsi[i := None] ! j = None \<or> rsi[i := None] ! j = Some j"
    using inv_i lrsi by (auto simp: nth_list_update_total)
  have "\<forall>k\<in>set [Suc i..<?n]. k < length (rsi[i := None])"
    using lrsi by simp
  from fold_body_events [OF fin inv1 this] obtain new1 where
    ev': "events' = (evi @ [ResponseSend i (Some e)]) @ new1"
    and new1: "\<forall>e\<in>set new1. event_request e \<in> set [Suc i..<?n]"
    by auto
  have rel: "off' = off'' \<and>
         (\<exists>nw. events' = (evi @ [ResponseSend i (Some e)]) @ nw \<and> events'' = (evi @ new) @ nw) \<and>
         (\<forall>j. rsi[i := None] ! j = rsi[i := r3] ! j \<longrightarrow> responses' ! j = responses'' ! j) \<and>
         (\<forall>p. ?ti1 ! p = ?ti1' ! p \<longrightarrow> tensor' ! p = tensor'' ! p)"
  proof (rule fold_body_rel [OF fin fin'])
    show "\<forall>k\<in>set [Suc i..<?n]. requests ! k = ?R' ! k \<and> rsi[i := None] ! k = rsi[i := r3] ! k"
      by (auto simp: nth_list_update_total)
    show "length ?ti1 = length ?ti1'"
      using lt1 by (simp add: ssit_length)
    show "length (rsi[i := None]) = length (rsi[i := r3])"
      by simp
  qed
  \<comment> \<open>the conclusions\<close>
  have A2: "\<exists>e. filter (\<lambda>ev. event_request ev = i) events' = [ResponseSend i (Some e)]"
  proof -
    have "filter (\<lambda>ev. event_request ev = i) evi = []"
      using evi by (auto simp: filter_empty_conv)
    moreover have "filter (\<lambda>ev. event_request ev = i) new1 = []"
      using new1 by (auto simp: filter_empty_conv)
    ultimately show ?thesis
      using ev' by simp
  qed
  have lxs: "length xs \<le> ?cnt" using bad by auto
  have B1: "\<forall>p<length xs. tensor' ! (?off + p) = xs ! p"
  proof (intro allI impI)
    fix p assume p: "p < length xs"
    then have "tensor' ! (?off + p) = ?ti1 ! (?off + p)"
      using keep_t lxs by simp
    also have "\<dots> = xs ! p"
      using p lxs room by (simp add: nth_overwrite nth_append)
    finally show "tensor' ! (?off + p) = xs ! p" .
  qed
  have B2: "\<forall>p. ?off + length xs \<le> p \<and> p < ?off + ?cnt \<longrightarrow> tensor' ! p = []"
  proof (intro allI impI)
    fix p assume p: "?off + length xs \<le> p \<and> p < ?off + ?cnt"
    then have "tensor' ! p = ?ti1 ! p"
      using keep_t by simp
    also have "\<dots> = []"
    proof -
      have a: "\<not> p - ?off < length xs" using p by arith
      have b: "p - (?off + length xs) < ?cnt - length xs" using p by arith
      have c: "p < length ti" using p room by arith
      have d: "\<not> p < ?off" "p < ?off + ?cnt" using p by arith+
      show ?thesis
        using a b c d lxs room by (simp add: nth_overwrite nth_append)
    qed
    finally show "tensor' ! p = []" .
  qed
  have C1: "\<forall>j<?n. j \<noteq> i \<longrightarrow> responses'' ! j = responses' ! j"
    using rel by (auto simp: nth_list_update_total)
  have C2: "\<forall>p<length tensor. p < ?off \<or> ?off + ?cnt \<le> p \<longrightarrow> tensor'' ! p = tensor' ! p"
  proof (intro allI impI)
    fix p assume pl: "p < length tensor" and p: "p < ?off \<or> ?off + ?cnt \<le> p"
    have a: "?ti1' ! p = ti ! p"
      using p cnt' offi by (simp add: ssit_frame)
    have b: "?ti1 ! p = ti ! p"
      using pl lti p lxs room by (auto simp: nth_overwrite)
    from a b rel show "tensor'' ! p = tensor' ! p" by simp
  qed
  have C3: "filter (\<lambda>ev. event_request ev \<noteq> i) events'' =
           filter (\<lambda>ev. event_request ev \<noteq> i) events'"
  proof -
    from rel obtain nw where
      "events' = (evi @ [ResponseSend i (Some e)]) @ nw" "events'' = (evi @ new) @ nw"
      by blast
    moreover have "filter (\<lambda>ev. event_request ev \<noteq> i) new = []"
      using new_i by (auto simp: filter_empty_conv)
    ultimately show ?thesis by simp
  qed
  from r_i A2 B1 B2 C1 C2 C3 rel show ?thesis by blast
qed

lemma pending_response_malformed_payload_example:
  "fst (snd (ProcessRequests_string_input ''in''
       [\<lparr>RequestInput_err = None, InputProperties_err = None, batch_element_cnt = 1,
         input_content = Inr [1, 0, 0, 0, 65]\<rparr>,
        \<lparr>RequestInput_err = None, InputProperties_err = None, batch_element_cnt = 2,
         input_content = Inr [1, 0, 0, 0, 66, 3, 0, 0, 0, 67]\<rparr>,
        \<lparr>RequestInput_err = None, InputProperties_err = None, batch_element_cnt = 1,
         input_content = Inr [0, 0, 0, 0]\<rparr>]
       [Some 0, Some 1, Some 2] [[9], [9], [9], [9]])) ! 1 = None \<and>
   fst (ProcessRequests_string_input ''in''
       [\<lparr>RequestInput_err = None, InputProperties_err = None, batch_element_cnt = 1,
         input_content = Inr [1, 0, 0, 0, 65]\<rparr>,
        \<lparr>RequestInput_err = None, InputProperties_err = None, batch_element_cnt = 2,
         input_content = Inr [1, 0, 0, 0, 66, 3, 0, 0, 0, 67]\<rparr>,
        \<lparr>RequestInput_err = None, InputProperties_err = None, batch_element_cnt = 1,
         input_content = Inr [0, 0, 0, 0]\<rparr>]
       [Some 0, Some 1, Some 2] [[9], [9], [9], [9]]) ! 2 = [] \<and>
   fst (snd (ProcessRequests_string_input ''in''
       ([\<lparr>RequestInput_err = None, InputProperties_err = None, batch_element_cnt = 1,
         input_content = Inr [1, 0, 0, 0, 65]\<rparr>,
        \<lparr>RequestInput_err = None, InputProperties_err = None, batch_element_cnt = 2,
         input_content = Inr [1, 0, 0, 0, 66, 3, 0, 0, 0, 67]\<rparr>,
        \<lparr>RequestInput_err = None, InputProperties_err = None, batch_element_cnt = 1,
         input_content = Inr [0, 0, 0, 0]\<rparr>]
        [1 := \<lparr>RequestInput_err = None, InputProperties_err = None, batch_element_cnt = 2,
         input_content = Inr [1, 0, 0, 0, 66, 1, 0, 0, 0, 67]\<rparr>])
       [Some 0, Some 1, Some 2] [[9], [9], [9], [9]])) ! 2 =
   fst (snd (ProcessRequests_string_input ''in''
       [\<lparr>RequestInput_err = None, InputProperties_err = None, batch_element_cnt = 1,
         input_content = Inr [1, 0, 0, 0, 65]\<rparr>,
        \<lparr>RequestInput_err = None, InputProperties_err = None, batch_element_cnt = 2,
         input_content = Inr [1, 0, 0, 0, 66, 3, 0, 0, 0, 67]\<rparr>,
        \<lparr>RequestInput_err = None, InputProperties_err = None, batch_element_cnt = 1,
         input_content = Inr [0, 0, 0, 0]\<rparr>]
       [Some 0, Some 1, Some 2] [[9], [9], [9], [9]])) ! 2 \<and>
   fst (ProcessRequests_string_input ''in''
       ([\<lparr>RequestInput_err = None, InputProperties_err = None, batch_element_cnt = 1,
         input_content = Inr [1, 0, 0, 0, 65]\<rparr>,
        \<lparr>RequestInput_err = None, InputProperties_err = None, batch_element_cnt = 2,
         input_content = Inr [1, 0, 0, 0, 66, 3, 0, 0, 0, 67]\<rparr>,
        \<lparr>RequestInput_err = None, InputProperties_err = None, batch_element_cnt = 1,
         input_content = Inr [0, 0, 0, 0]\<rparr>]
        [1 := \<lparr>RequestInput_err = None, InputProperties_err = None, batch_element_cnt = 2,
         input_content = Inr [1, 0, 0, 0, 66, 1, 0, 0, 0, 67]\<rparr>])
       [Some 0, Some 1, Some 2] [[9], [9], [9], [9]]) ! 3 =
   fst (ProcessRequests_string_input ''in''
       [\<lparr>RequestInput_err = None, InputProperties_err = None, batch_element_cnt = 1,
         input_content = Inr [1, 0, 0, 0, 65]\<rparr>,
        \<lparr>RequestInput_err = None, InputProperties_err = None, batch_element_cnt = 2,
         input_content = Inr [1, 0, 0, 0, 66, 3, 0, 0, 0, 67]\<rparr>,
        \<lparr>RequestInput_err = None, InputProperties_err = None, batch_element_cnt = 1,
         input_content = Inr [0, 0, 0, 0]\<rparr>]
       [Some 0, Some 1, Some 2] [[9], [9], [9], [9]]) ! 3"
proof -
  let ?R = "[\<lparr>RequestInput_err = None, InputProperties_err = None, batch_element_cnt = 1,
         input_content = Inr [1, 0, 0, 0, 65]\<rparr>,
        \<lparr>RequestInput_err = None, InputProperties_err = None, batch_element_cnt = 2,
         input_content = Inr [1, 0, 0, 0, 66, 3, 0, 0, 0, 67]\<rparr>,
        \<lparr>RequestInput_err = None, InputProperties_err = None, batch_element_cnt = 1,
         input_content = Inr [0, 0, 0, 0]\<rparr>]"
  let ?O = "\<lparr>RequestInput_err = None, InputProperties_err = None, batch_element_cnt = 2,
         input_content = Inr [1, 0, 0, 0, 66, 1, 0, 0, 0, 67]\<rparr>"
  let ?rs = "[Some 0, Some 1, Some (2::nat)]"
  let ?T = "[[9], [9], [9], [9::byte]]"
  let ?P = "ProcessRequests_string_input ''in'' ?R ?rs ?T"
  let ?P2 = "ProcessRequests_string_input ''in'' (?R[1 := ?O]) ?rs ?T"
  have h1: "1 < length ?R" by simp
  have h2: "length ?rs = length ?R" by simp
  have h3: "\<forall>j<length ?R. ?rs ! j = None \<or> ?rs ! j = Some j"
    by (simp add: All_less_Suc)
  have h4: "?rs ! 1 = Some 1" by simp
  have h5: "RequestInput_err (?R ! 1) = None" by simp
  have h6: "InputProperties_err (?R ! 1) = None" by simp
  have h7: "input_content (?R ! 1) =
      Inr (concat (map encode_element [[66]]) @ (uint32_bytes 3 @ [67]))"
    by (simp add: encode_element_def uint32_bytes_def)
  have h8: "\<forall>s\<in>set [[66::byte]]. length s < 2 ^ 32" by simp
  have "\<exists>n body. uint32_bytes 3 @ [67] = uint32_bytes n @ body \<and> length body < unat n"
    by (intro exI [of _ 3] exI [of _ "[67]"]) simp
  then have h9: "(length [[66::byte]] < batch_element_cnt (?R ! 1) \<and>
       (length (uint32_bytes 3 @ [67]) < 4 \<or>
        (\<exists>n body. uint32_bytes 3 @ [67] = uint32_bytes n @ body \<and> length body < unat n))) \<or>
      (length [[66::byte]] = batch_element_cnt (?R ! 1) \<and> 4 \<le> length (uint32_bytes 3 @ [67]))"
    by simp
  have h10: "sum_list (map batch_element_cnt ?R) \<le> length ?T" by simp
  have h11: "?P = (fst ?P, fst (snd ?P), fst (snd (snd ?P)), snd (snd (snd ?P)))" by simp
  have h12: "batch_element_cnt ?O = batch_element_cnt (?R ! 1)" by simp
  have h13: "?P2 = (fst ?P2, fst (snd ?P2), fst (snd (snd ?P2)), snd (snd (snd ?P2)))" by simp
  have s: "span_start ?R 1 = 1" by (simp add: span_start_def)
  from pending_response_malformed_payload
    [OF h1 h2 h3 h4 h5 h6 h7 h8 h9 h10 h11 h12 h13]
  have a: "fst (snd ?P) ! 1 = None"
    and b: "\<forall>p. span_start ?R 1 + length [[66::byte]] \<le> p \<and>
               p < span_start ?R 1 + batch_element_cnt (?R ! 1) \<longrightarrow> fst ?P ! p = []"
    and c: "\<forall>j<length ?R. j \<noteq> 1 \<longrightarrow> fst (snd ?P2) ! j = fst (snd ?P) ! j"
    and d: "\<forall>p<length ?T. p < span_start ?R 1 \<or>
               span_start ?R 1 + batch_element_cnt (?R ! 1) \<le> p \<longrightarrow>
               fst ?P2 ! p = fst ?P ! p"
    by blast+
  from b s have b': "fst ?P ! 2 = []" by simp
  from c have c': "fst (snd ?P2) ! 2 = fst (snd ?P) ! 2" by simp
  from d s have d': "fst ?P2 ! 3 = fst ?P ! 3" by simp
  from a b' c' d' show ?thesis by blast
qed

text \<open>
  When the response pointer is already null, a payload that ends after fewer elements
  than declared leaves the rest of the span as it was: the fill after the loop of
  \<^verbatim>\<open>SetStringInputTensor\<close> is under \<^verbatim>\<open>*response != nullptr\<close>.
\<close>

lemma null_response_short_payload:
  assumes small: "\<forall>s\<in>set xs. length s < 2 ^ 32"
    and fits: "off + cnt \<le> length t"
    and few: "length xs < cnt" "length rest < 4"
  shows "SetStringInputTensor t name (Inr (concat (map encode_element xs) @ rest)) cnt off None =
           (overwrite t off xs, None, [])"
proof -
  have dec: "SetStringInputTensor_loop name cnt off None t
               (concat (map encode_element xs) @ rest) 0 =
             SetStringInputTensor_loop name cnt off None (overwrite t (off + 0) xs) rest
               (0 + length xs)"
    using small fits few(1) by (intro loop_decodes) simp_all
  have "SetStringInputTensor_loop name cnt off None (overwrite t off xs) rest (length xs) =
          Inr (overwrite t off xs, length xs)"
    using few by (subst SetStringInputTensor_loop.simps) simp
  with dec show ?thesis
    by (simp add: SetStringInputTensor_def)
qed

lemma null_response_short_payload_span:
  assumes small: "\<forall>s\<in>set xs. length s < 2 ^ 32"
    and fits: "off + cnt \<le> length t"
    and few: "length xs < cnt" "length rest < 4"
    and p: "off + length xs \<le> p" "p < off + cnt"
  shows "fst (SetStringInputTensor t name (Inr (concat (map encode_element xs) @ rest)) cnt off
           None) ! p = t ! p"
proof -
  have "p < length t" using p fits by simp
  then have "overwrite t off xs ! p = t ! p"
    using p by (simp add: nth_overwrite)
  then show ?thesis
    using null_response_short_payload [OF small fits few] by simp
qed


section \<open>The total batch size of a cycle\<close>

lemma total_loop_batching:
  assumes "0 < mbs"
    and "\<forall>r\<in>set reqs. RequestInputByIndex_err r = None \<and> first_InputProperties_err r = None"
  shows "total_batch_size_loop name mbs (map Some reqs) acc =
         Inr (acc + sum_list (map (\<lambda>r. first_input_shape r ! 0) reqs))"
  using assms(2)
proof (induction reqs arbitrary: acc)
  case Nil
  show ?case by simp
next
  case (Cons r reqs)
  have r: "RequestInputByIndex_err r = None" "first_InputProperties_err r = None"
    using Cons.prems by simp_all
  have rest: "\<forall>r\<in>set reqs. RequestInputByIndex_err r = None \<and> first_InputProperties_err r = None"
    using Cons.prems by simp
  have "total_batch_size_loop name mbs (map Some (r # reqs)) acc =
        total_batch_size_loop name mbs (map Some reqs) (acc + first_input_shape r ! 0)"
    using assms(1) r by simp
  also have "\<dots> = Inr (acc + first_input_shape r ! 0 +
        sum_list (map (\<lambda>r. first_input_shape r ! 0) reqs))"
    by (rule Cons.IH [OF rest])
  finally show ?case by (simp add: add.assoc)
qed

lemma total_loop_no_batching:
  assumes "\<not> 0 < mbs"
  shows "total_batch_size_loop name mbs (map Some reqs) acc = Inr (acc + of_nat (length reqs))"
  using assms by (induction reqs arbitrary: acc) (simp_all add: add.assoc)

lemma uint_sum_list_nonneg:
  fixes ws :: "64 word list"
  assumes "\<forall>w\<in>set ws. 0 \<le> sint w" and "sum_list (map sint ws) < 2 ^ 64"
  shows "uint (sum_list ws) = sum_list (map sint ws)"
  using assms
proof (induction ws)
  case Nil
  show ?case by simp
next
  case (Cons w ws)
  have "sint w < 2 ^ 64"
    using sint_less [of w] by simp
  then have w: "uint w = sint w"
    using Cons.prems(1) by (simp add: uint_sint take_bit_int_eq_self)
  have nn: "0 \<le> sum_list (map sint ws)"
    using Cons.prems(1) by (intro sum_list_nonneg) auto
  have "sum_list (map sint ws) < 2 ^ 64"
    using Cons.prems w uint_ge_0 [of w] by simp
  with Cons have ih: "uint (sum_list ws) = sum_list (map sint ws)" by simp
  have "uint (w + sum_list ws) = (uint w + uint (sum_list ws)) mod 2 ^ 64"
    by (simp add: uint_word_ariths)
  also have "\<dots> = uint w + uint (sum_list ws)"
    using Cons.prems(2) w ih nn uint_ge_0 [of w] by (intro mod_pos_pos_trivial) simp_all
  finally show ?case using w ih by simp
qed

lemma RequestsRespondWithError_sends:
  "(\<forall>i<n. ResponseSend i (Some err) \<in> set (RequestsRespondWithError n err)) \<and>
   (\<forall>i e. ResponseSend i e \<in> set (RequestsRespondWithError n err) \<longrightarrow> i < n \<and> e = Some err)"
  by (auto simp: RequestsRespondWithError_def)

lemma limit_exceeded_aborts:
  assumes "total_batch_size_loop name mbs requests 0 = Inr tot"
    and "0 \<le> mbs" and "tot \<noteq> 1" and "mbs < uint tot"
  shows "\<exists>err. ProcessRequests_start name mbs requests =
            Returned (RequestsRespondWithError (length requests) err) \<and>
          err_code err = TRITONSERVER_ERROR_INTERNAL"
proof -
  have "uint tot < 2 ^ 64" using uint_lt2p [of tot] by simp
  then have "uint (word_of_int mbs :: 64 word) = mbs"
    using assms(2,4) by (simp add: uint_word_of_int)
  then have lt: "(word_of_int mbs :: 64 word) < tot"
    using assms(4) by (simp add: word_less_def)
  have nz: "tot \<noteq> 0"
    using assms(2,4) by auto
  have code: "err_code (TRITONSERVER_ErrorNew TRITONSERVER_ERROR_INTERNAL m) =
      TRITONSERVER_ERROR_INTERNAL" for m
    by (simp add: TRITONSERVER_ErrorNew_def)
  have "\<exists>m. ProcessRequests_start name mbs requests =
      Returned (RequestsRespondWithError (length requests)
        (TRITONSERVER_ErrorNew TRITONSERVER_ERROR_INTERNAL m))"
    using assms(1,3) lt nz by (simp add: ProcessRequests_start_def) (rule exI, rule refl)
  with code show ?thesis by blast
qed

lemma total_loop_unreadable:
  assumes "0 < mbs"
    and "\<not> (\<forall>r\<in>set reqs. RequestInputByIndex_err r = None \<and> first_InputProperties_err r = None)"
  shows "\<exists>err. total_batch_size_loop name mbs (map Some reqs) acc = Inl err \<and>
           (\<exists>r\<in>set reqs. RequestInputByIndex_err r = Some err \<or>
              first_InputProperties_err r = Some err)"
  using assms(2)
proof (induction reqs arbitrary: acc)
  case Nil
  then show ?case by simp
next
  case (Cons r reqs)
  show ?case
  proof (cases "RequestInputByIndex_err r = None \<and> first_InputProperties_err r = None")
    case True
    then have "\<not> (\<forall>r\<in>set reqs. RequestInputByIndex_err r = None \<and>
        first_InputProperties_err r = None)"
      using Cons.prems by simp
    from Cons.IH [OF this, of "acc + first_input_shape r ! 0"] obtain err where
      "total_batch_size_loop name mbs (map Some reqs) (acc + first_input_shape r ! 0) = Inl err"
      "\<exists>r\<in>set reqs. RequestInputByIndex_err r = Some err \<or> first_InputProperties_err r = Some err"
      by blast
    then show ?thesis
      using True assms(1) by (intro exI [of _ err]) simp
  next
    case False
    then show ?thesis
      using assms(1) by (cases "RequestInputByIndex_err r") (auto split: option.splits)
  qed
qed

lemma start_after_error:
  "total_batch_size_loop name mbs requests 0 = Inl err \<Longrightarrow>
   ProcessRequests_start name mbs requests = Returned (RequestsRespondWithError (length requests) err)"
  by (simp add: ProcessRequests_start_def)

lemma start_total_one:
  "total_batch_size_loop name mbs requests 0 = Inr 1 \<Longrightarrow>
   ProcessRequests_start name mbs requests = Continue 1"
  by (simp add: ProcessRequests_start_def)

lemma start_within_limit:
  "total_batch_size_loop name mbs requests 0 = Inr tot \<Longrightarrow> tot \<noteq> 0 \<Longrightarrow>
   \<not> word_of_int mbs < tot \<Longrightarrow> ProcessRequests_start name mbs requests = Continue tot"
  by (simp add: ProcessRequests_start_def)

lemma start_over_limit:
  assumes "total_batch_size_loop name mbs requests 0 = Inr tot"
    and "tot \<noteq> 1" and "word_of_int mbs < tot"
  shows "\<exists>err. ProcessRequests_start name mbs requests =
            Returned (RequestsRespondWithError (length requests) err) \<and>
          err_code err = TRITONSERVER_ERROR_INTERNAL"
proof -
  have nz: "tot \<noteq> 0"
    using assms(3) by auto
  have code: "err_code (TRITONSERVER_ErrorNew TRITONSERVER_ERROR_INTERNAL m) =
      TRITONSERVER_ERROR_INTERNAL" for m
    by (simp add: TRITONSERVER_ErrorNew_def)
  have "\<exists>m. ProcessRequests_start name mbs requests =
      Returned (RequestsRespondWithError (length requests)
        (TRITONSERVER_ErrorNew TRITONSERVER_ERROR_INTERNAL m))"
    using assms nz by (simp add: ProcessRequests_start_def) (rule exI, rule refl)
  with code show ?thesis by blast
qed

lemma size_t_cast_less:
  fixes tot :: "64 word"
  assumes "0 \<le> mbs" and "mbs < 2 ^ 64"
  shows "word_of_int mbs < tot \<longleftrightarrow> mbs < uint tot"
proof -
  have "uint (word_of_int mbs :: 64 word) = mbs"
    using assms by (simp add: uint_word_of_int)
  then show ?thesis by (simp add: word_less_def)
qed

text \<open>
  Claim C1, as stated, fails. A total batch size of 1 is accepted whatever
  \<^verbatim>\<open>max_batch_size\<close> is (the test is
  \<^verbatim>\<open>(total_batch_size != 1) && (total_batch_size > (size_t)max_batch_size)\<close>): with
  batching disabled (\<^verbatim>\<open>max_batch_size\<close> 0) and one request the total is 1, which
  exceeds 0, and the cycle goes on to run the model. The three further instances show
  the other limits of the claim: \<^verbatim>\<open>max_batch_size\<close> is converted to \<^verbatim>\<open>size_t\<close>, so a
  total of 2 is accepted for \<^verbatim>\<open>max_batch_size\<close> \<open>-1\<close>; the total is a \<^verbatim>\<open>size_t\<close>, so a
  leading dimension \<open>-1\<close> gives the total \<open>2 ^ 64 - 1\<close>; and when the first input of a
  request cannot be read no total is computed.
\<close>

theorem total_batch_size_counterexample:
  "ProcessRequests_start ''m'' 0 [Some \<lparr>RequestInputByIndex_err = None, first_InputProperties_err = None, first_input_shape = [4]\<rparr>] = Continue 1 \<and> (0::int) < uint (1::64 word) \<and>
   ProcessRequests_start ''m'' (- 1) [Some \<lparr>RequestInputByIndex_err = None, first_InputProperties_err = None, first_input_shape = [4]\<rparr>, Some \<lparr>RequestInputByIndex_err = None, first_InputProperties_err = None, first_input_shape = [4]\<rparr>] = Continue 2 \<and>
   (- 1::int) < uint (2::64 word) \<and>
   total_batch_size_loop ''m'' 8 [Some \<lparr>RequestInputByIndex_err = None, first_InputProperties_err = None, first_input_shape = [- 1, 4]\<rparr>] 0 = Inr 18446744073709551615 \<and>
   uint (18446744073709551615::64 word) \<noteq> sint (first_input_shape \<lparr>RequestInputByIndex_err = None, first_InputProperties_err = None, first_input_shape = [- 1, 4]\<rparr> ! 0) \<and>
   total_batch_size_loop ''m'' 8
     [Some \<lparr>RequestInputByIndex_err =
               Some \<lparr>err_code = TRITONSERVER_ERROR_NOT_FOUND, err_msg = ''no input''\<rparr>,
             first_InputProperties_err = None, first_input_shape = []\<rparr>] 0 =
     Inl \<lparr>err_code = TRITONSERVER_ERROR_NOT_FOUND, err_msg = ''no input''\<rparr>"
  by (simp add: ProcessRequests_start_def)

text \<open>
  Claim C1, amended. For a cycle over \<open>N\<close> non-null requests:
  \<^item> with batching enabled (\<^verbatim>\<open>max_batch_size > 0\<close>) and the first input of every
    request readable, the total batch size is the sum, in 64-bit unsigned arithmetic,
    of the leading dimensions of the first input of each request; it is their sum as
    integers when they are not negative and that sum is below \<open>2 ^ 64\<close>;
  \<^item> with batching enabled and the first input of some request not readable, the
    function returns after \<^verbatim>\<open>RequestsRespondWithError\<close> with the error of such a
    read;
  \<^item> with batching disabled the total is \<open>N\<close>;
  \<^item> a total of 1 is accepted whatever \<^verbatim>\<open>max_batch_size\<close> is, and so is a total
    other than 0 that does not exceed \<^verbatim>\<open>(size_t)max_batch_size\<close>;
  \<^item> whenever the total is not 1 and exceeds \<^verbatim>\<open>(size_t)max_batch_size\<close>, which is
    \<^verbatim>\<open>max_batch_size\<close> itself when that is not negative, the function returns after
    \<^verbatim>\<open>RequestsRespondWithError\<close> with one internal error, so that every request of
    the cycle gets that same error and nothing is run.
\<close>

theorem total_batch_size_and_limit:
  "(0 < mbs \<longrightarrow>
      (\<forall>r\<in>set reqs. RequestInputByIndex_err r = None \<and> first_InputProperties_err r = None) \<longrightarrow>
      total_batch_size_loop name mbs (map Some reqs) 0 =
        Inr (sum_list (map (\<lambda>r. first_input_shape r ! 0) reqs))) \<and>
   (0 < mbs \<longrightarrow>
      (\<forall>r\<in>set reqs. RequestInputByIndex_err r = None \<and> first_InputProperties_err r = None) \<longrightarrow>
      (\<forall>r\<in>set reqs. 0 \<le> sint (first_input_shape r ! 0)) \<longrightarrow>
      sum_list (map (\<lambda>r. sint (first_input_shape r ! 0)) reqs) < 2 ^ 64 \<longrightarrow>
      (\<exists>tot. total_batch_size_loop name mbs (map Some reqs) 0 = Inr tot \<and>
         uint tot = sum_list (map (\<lambda>r. sint (first_input_shape r ! 0)) reqs))) \<and>
   (0 < mbs \<longrightarrow>
      \<not> (\<forall>r\<in>set reqs. RequestInputByIndex_err r = None \<and> first_InputProperties_err r = None) \<longrightarrow>
      (\<exists>err. (\<exists>r\<in>set reqs. RequestInputByIndex_err r = Some err \<or>
                 first_InputProperties_err r = Some err) \<and>
         ProcessRequests_start name mbs (map Some reqs) =
           Returned (RequestsRespondWithError (length reqs) err))) \<and>
   (\<not> 0 < mbs \<longrightarrow>
      total_batch_size_loop name mbs (map Some reqs) 0 = Inr (of_nat (length reqs))) \<and>
   (total_batch_size_loop name mbs (map Some reqs) 0 = Inr 1 \<longrightarrow>
      ProcessRequests_start name mbs (map Some reqs) = Continue 1) \<and>
   (\<forall>tot. total_batch_size_loop name mbs (map Some reqs) 0 = Inr tot \<longrightarrow> tot \<noteq> 0 \<longrightarrow>
      \<not> word_of_int mbs < tot \<longrightarrow>
      ProcessRequests_start name mbs (map Some reqs) = Continue tot) \<and>
   (\<forall>tot. total_batch_size_loop name mbs (map Some reqs) 0 = Inr tot \<longrightarrow> tot \<noteq> 1 \<longrightarrow>
      word_of_int mbs < tot \<or> (0 \<le> mbs \<and> mbs < uint tot) \<longrightarrow>
      (\<exists>err. ProcessRequests_start name mbs (map Some reqs) =
           Returned (RequestsRespondWithError (length reqs) err) \<and>
         err_code err = TRITONSERVER_ERROR_INTERNAL \<and>
         (\<forall>i<length reqs.
            ResponseSend i (Some err) \<in> set (RequestsRespondWithError (length reqs) err)) \<and>
         (\<forall>i e. ResponseSend i e \<in> set (RequestsRespondWithError (length reqs) err) \<longrightarrow>
            e = Some err))) \<and>
   (\<forall>tot::64 word. 0 \<le> mbs \<longrightarrow> mbs < 2 ^ 64 \<longrightarrow>
      (word_of_int mbs < tot \<longleftrightarrow> mbs < uint tot))"
proof -
  let ?loop = "total_batch_size_loop name mbs (map Some reqs) 0"
  let ?start = "ProcessRequests_start name mbs (map Some reqs)"
  let ?ok = "\<forall>r\<in>set reqs. RequestInputByIndex_err r = None \<and> first_InputProperties_err r = None"
  have a: "0 < mbs \<longrightarrow> ?ok \<longrightarrow>
      ?loop = Inr (sum_list (map (\<lambda>r. first_input_shape r ! 0) reqs))"
    using total_loop_batching [of mbs reqs name 0] by simp
  have b: "0 < mbs \<longrightarrow> ?ok \<longrightarrow>
      (\<forall>r\<in>set reqs. 0 \<le> sint (first_input_shape r ! 0)) \<longrightarrow>
      sum_list (map (\<lambda>r. sint (first_input_shape r ! 0)) reqs) < 2 ^ 64 \<longrightarrow>
      (\<exists>tot. ?loop = Inr tot \<and>
         uint tot = sum_list (map (\<lambda>r. sint (first_input_shape r ! 0)) reqs))"
  proof (intro impI)
    assume m: "0 < mbs" and ok: ?ok
      and nn: "\<forall>r\<in>set reqs. 0 \<le> sint (first_input_shape r ! 0)"
      and s: "sum_list (map (\<lambda>r. sint (first_input_shape r ! 0)) reqs) < 2 ^ 64"
    have "uint (sum_list (map (\<lambda>r. first_input_shape r ! 0) reqs)) =
          sum_list (map sint (map (\<lambda>r. first_input_shape r ! 0) reqs))"
      using nn s by (intro uint_sum_list_nonneg) (simp_all add: comp_def)
    then show "\<exists>tot. ?loop = Inr tot \<and>
               uint tot = sum_list (map (\<lambda>r. sint (first_input_shape r ! 0)) reqs)"
      using a m ok by (simp add: comp_def)
  qed
  have c: "0 < mbs \<longrightarrow> \<not> ?ok \<longrightarrow>
      (\<exists>err. (\<exists>r\<in>set reqs. RequestInputByIndex_err r = Some err \<or>
                 first_InputProperties_err r = Some err) \<and>
         ?start = Returned (RequestsRespondWithError (length reqs) err))"
  proof (intro impI)
    assume m: "0 < mbs" and bad: "\<not> ?ok"
    from total_loop_unreadable [OF m bad, of name 0] obtain err where
      e: "?loop = Inl err"
        "\<exists>r\<in>set reqs. RequestInputByIndex_err r = Some err \<or> first_InputProperties_err r = Some err"
      by blast
    from start_after_error [OF e(1)] have
      "?start = Returned (RequestsRespondWithError (length reqs) err)"
      by simp
    with e(2) show "\<exists>err. (\<exists>r\<in>set reqs. RequestInputByIndex_err r = Some err \<or>
                 first_InputProperties_err r = Some err) \<and>
         ?start = Returned (RequestsRespondWithError (length reqs) err)"
      by blast
  qed
  have d: "\<not> 0 < mbs \<longrightarrow> ?loop = Inr (of_nat (length reqs))"
    using total_loop_no_batching [of mbs name reqs 0] by simp
  have e: "?loop = Inr 1 \<longrightarrow> ?start = Continue 1"
    using start_total_one by blast
  have f: "\<forall>tot. ?loop = Inr tot \<longrightarrow> tot \<noteq> 0 \<longrightarrow> \<not> word_of_int mbs < tot \<longrightarrow>
      ?start = Continue tot"
    using start_within_limit by blast
  have g: "\<forall>tot. ?loop = Inr tot \<longrightarrow> tot \<noteq> 1 \<longrightarrow>
      word_of_int mbs < tot \<or> (0 \<le> mbs \<and> mbs < uint tot) \<longrightarrow>
      (\<exists>err. ?start = Returned (RequestsRespondWithError (length reqs) err) \<and>
         err_code err = TRITONSERVER_ERROR_INTERNAL \<and>
         (\<forall>i<length reqs.
            ResponseSend i (Some err) \<in> set (RequestsRespondWithError (length reqs) err)) \<and>
         (\<forall>i e. ResponseSend i e \<in> set (RequestsRespondWithError (length reqs) err) \<longrightarrow>
            e = Some err))"
  proof (intro allI impI)
    fix tot
    assume l: "?loop = Inr tot" and n1: "tot \<noteq> 1"
      and over: "word_of_int mbs < tot \<or> (0 \<le> mbs \<and> mbs < uint tot)"
    have lt: "(word_of_int mbs :: 64 word) < tot"
    proof (rule disjE [OF over])
      assume "0 \<le> mbs \<and> mbs < uint tot"
      moreover have "uint tot < 2 ^ 64" using uint_lt2p [of tot] by simp
      ultimately show ?thesis
        using size_t_cast_less [of mbs tot] by simp
    qed
    from start_over_limit [OF l n1 lt] obtain err where
      "?start = Returned (RequestsRespondWithError (length (map Some reqs)) err)"
      "err_code err = TRITONSERVER_ERROR_INTERNAL"
      by blast
    then show "\<exists>err. ?start = Returned (RequestsRespondWithError (length reqs) err) \<and>
         err_code err = TRITONSERVER_ERROR_INTERNAL \<and>
         (\<forall>i<length reqs.
            ResponseSend i (Some err) \<in> set (RequestsRespondWithError (length reqs) err)) \<and>
         (\<forall>i e. ResponseSend i e \<in> set (RequestsRespondWithError (length reqs) err) \<longrightarrow>
            e = Some err)"
      using RequestsRespondWithError_sends [of "length reqs" err]
      by (intro exI [of _ err]) simp
  qed
  have h: "\<forall>tot::64 word. 0 \<le> mbs \<longrightarrow> mbs < 2 ^ 64 \<longrightarrow>
      (word_of_int mbs < tot \<longleftrightarrow> mbs < uint tot)"
    using size_t_cast_less by blast
  from a b c d e f g h show ?thesis by blast
qed

theorem total_batch_size_and_limit_witness:
  "total_batch_size_loop ''m'' 8 [Some \<lparr>RequestInputByIndex_err = None, first_InputProperties_err = None, first_input_shape = [2, 4]\<rparr>, Some \<lparr>RequestInputByIndex_err = None, first_InputProperties_err = None, first_input_shape = [2, 4]\<rparr>] 0 = Inr 4 \<and>
   total_batch_size_loop ''m'' 0 [Some \<lparr>RequestInputByIndex_err = None, first_InputProperties_err = None, first_input_shape = [2, 4]\<rparr>, Some \<lparr>RequestInputByIndex_err = None, first_InputProperties_err = None, first_input_shape = [2, 4]\<rparr>] 0 = Inr 2 \<and>
   ProcessRequests_start ''m'' 8 [Some \<lparr>RequestInputByIndex_err = None, first_InputProperties_err = None, first_input_shape = [2, 4]\<rparr>, Some \<lparr>RequestInputByIndex_err = None, first_InputProperties_err = None, first_input_shape = [2, 4]\<rparr>] = Continue 4 \<and>
   ProcessRequests_start ''m'' 8 [Some \<lparr>RequestInputByIndex_err = None, first_InputProperties_err = None, first_input_shape = [1, 4]\<rparr>] = Continue 1 \<and>
   ProcessRequests_start ''m'' 8
     [Some \<lparr>RequestInputByIndex_err =
               Some \<lparr>err_code = TRITONSERVER_ERROR_NOT_FOUND, err_msg = ''no input''\<rparr>,
             first_InputProperties_err = None, first_input_shape = []\<rparr>] =
     Returned (RequestsRespondWithError 1
       \<lparr>err_code = TRITONSERVER_ERROR_NOT_FOUND, err_msg = ''no input''\<rparr>) \<and>
   (\<exists>err. ProcessRequests_start ''m'' 3 [Some \<lparr>RequestInputByIndex_err = None, first_InputProperties_err = None, first_input_shape = [2, 4]\<rparr>, Some \<lparr>RequestInputByIndex_err = None, first_InputProperties_err = None, first_input_shape = [2, 4]\<rparr>] =
        Returned (RequestsRespondWithError 2 err) \<and>
      err_code err = TRITONSERVER_ERROR_INTERNAL \<and>
      ResponseSend 0 (Some err) \<in> set (RequestsRespondWithError 2 err) \<and>
      ResponseSend 1 (Some err) \<in> set (RequestsRespondWithError 2 err))"
proof -
  let ?reqs = "[\<lparr>RequestInputByIndex_err = None, first_InputProperties_err = None, first_input_shape = [2, 4]\<rparr>, \<lparr>RequestInputByIndex_err = None, first_InputProperties_err = None, first_input_shape = [2, 4]\<rparr>]"
  let ?bad = "[\<lparr>RequestInputByIndex_err =
               Some \<lparr>err_code = TRITONSERVER_ERROR_NOT_FOUND, err_msg = ''no input''\<rparr>,
             first_InputProperties_err = None, first_input_shape = []\<rparr>]"
  have h: "\<forall>r\<in>set ?reqs. RequestInputByIndex_err r = None \<and> first_InputProperties_err r = None"
    by simp
  have h1: "\<forall>r\<in>set [\<lparr>RequestInputByIndex_err = None, first_InputProperties_err = None, first_input_shape = [1, 4]\<rparr>].
      RequestInputByIndex_err r = None \<and> first_InputProperties_err r = None"
    by simp
  have a: "total_batch_size_loop ''m'' 8 [Some \<lparr>RequestInputByIndex_err = None, first_InputProperties_err = None, first_input_shape = [2, 4]\<rparr>, Some \<lparr>RequestInputByIndex_err = None, first_InputProperties_err = None, first_input_shape = [2, 4]\<rparr>] 0 = Inr 4"
    using total_batch_size_and_limit [of 8 ?reqs "''m''"] h by simp
  have b: "total_batch_size_loop ''m'' 0 [Some \<lparr>RequestInputByIndex_err = None, first_InputProperties_err = None, first_input_shape = [2, 4]\<rparr>, Some \<lparr>RequestInputByIndex_err = None, first_InputProperties_err = None, first_input_shape = [2, 4]\<rparr>] 0 = Inr 2"
    using total_batch_size_and_limit [of 0 ?reqs "''m''"] by simp
  have c: "ProcessRequests_start ''m'' 8 [Some \<lparr>RequestInputByIndex_err = None, first_InputProperties_err = None, first_input_shape = [2, 4]\<rparr>, Some \<lparr>RequestInputByIndex_err = None, first_InputProperties_err = None, first_input_shape = [2, 4]\<rparr>] = Continue 4"
    using total_batch_size_and_limit [of 8 ?reqs "''m''"] a
    by (simp add: word_less_def)
  have "total_batch_size_loop ''m'' 8 (map Some [\<lparr>RequestInputByIndex_err = None, first_InputProperties_err = None, first_input_shape = [1, 4]\<rparr>]) 0 = Inr 1"
    using total_batch_size_and_limit [of 8 "[\<lparr>RequestInputByIndex_err = None, first_InputProperties_err = None, first_input_shape = [1, 4]\<rparr>]" "''m''"] h1 by simp
  then have d: "ProcessRequests_start ''m'' 8 [Some \<lparr>RequestInputByIndex_err = None, first_InputProperties_err = None, first_input_shape = [1, 4]\<rparr>] = Continue 1"
    using total_batch_size_and_limit [of 8 "[\<lparr>RequestInputByIndex_err = None, first_InputProperties_err = None, first_input_shape = [1, 4]\<rparr>]" "''m''"] by simp
  have nb: "\<not> (\<forall>r\<in>set ?bad. RequestInputByIndex_err r = None \<and>
      first_InputProperties_err r = None)"
    by simp
  have "\<exists>err. (\<exists>r\<in>set ?bad. RequestInputByIndex_err r = Some err \<or>
                 first_InputProperties_err r = Some err) \<and>
         ProcessRequests_start ''m'' 8 (map Some ?bad) =
           Returned (RequestsRespondWithError (length ?bad) err)"
    using total_batch_size_and_limit [of 8 ?bad "''m''"] nb by simp
  then have e: "ProcessRequests_start ''m'' 8 [Some \<lparr>RequestInputByIndex_err =
               Some \<lparr>err_code = TRITONSERVER_ERROR_NOT_FOUND, err_msg = ''no input''\<rparr>,
             first_InputProperties_err = None, first_input_shape = []\<rparr>] =
     Returned (RequestsRespondWithError 1 \<lparr>err_code = TRITONSERVER_ERROR_NOT_FOUND, err_msg = ''no input''\<rparr>)"
    by auto
  have t: "total_batch_size_loop ''m'' 3 (map Some ?reqs) 0 = Inr 4"
    using total_batch_size_and_limit [of 3 ?reqs "''m''"] h by simp
  have "\<exists>err. ProcessRequests_start ''m'' 3 (map Some ?reqs) =
                 Returned (RequestsRespondWithError (length ?reqs) err) \<and>
               err_code err = TRITONSERVER_ERROR_INTERNAL \<and>
               (\<forall>i<length ?reqs.
                  ResponseSend i (Some err) \<in> set (RequestsRespondWithError (length ?reqs) err)) \<and>
               (\<forall>i e. ResponseSend i e \<in> set (RequestsRespondWithError (length ?reqs) err) \<longrightarrow>
                  e = Some err)"
    using total_batch_size_and_limit [of 3 ?reqs "''m''"] t by simp
  then obtain err where
    r: "ProcessRequests_start ''m'' 3 (map Some ?reqs) =
          Returned (RequestsRespondWithError (length ?reqs) err)"
      "err_code err = TRITONSERVER_ERROR_INTERNAL"
      "\<forall>i<length ?reqs.
          ResponseSend i (Some err) \<in> set (RequestsRespondWithError (length ?reqs) err)"
    by blast
  have "ResponseSend 0 (Some err) \<in> set (RequestsRespondWithError 2 err)"
    "ResponseSend 1 (Some err) \<in> set (RequestsRespondWithError 2 err)"
    using r(3) [rule_format, of 0] r(3) [rule_format, of 1] by (simp_all add: numeral_2_eq_2)
  with r(1,2) have f: "\<exists>err. ProcessRequests_start ''m'' 3 [Some \<lparr>RequestInputByIndex_err = None, first_InputProperties_err = None, first_input_shape = [2, 4]\<rparr>, Some \<lparr>RequestInputByIndex_err = None, first_InputProperties_err = None, first_input_shape = [2, 4]\<rparr>] =
        Returned (RequestsRespondWithError 2 err) \<and>
      err_code err = TRITONSERVER_ERROR_INTERNAL \<and>
      ResponseSend 0 (Some err) \<in> set (RequestsRespondWithError 2 err) \<and>
      ResponseSend 1 (Some err) \<in> set (RequestsRespondWithError 2 err)"
    by (intro exI [of _ err]) (simp add: numeral_2_eq_2)
  from a b c d e f show ?thesis by blast
qed

section \<open>A cycle whose total batch size is zero\<close>

text \<open>
  Claim C4 is not met by the code. With batching enabled, a request whose first input
  has leading dimension 0 gives a total batch size of 0, and \<^verbatim>\<open>ProcessRequests\<close>
  returns at \<^verbatim>\<open>if (total_batch_size == 0) return;\<close> before any response is created:
  no response is sent for the request and the request is not released.
\<close>

theorem zero_batch_cycle_sends_no_response:
  "ProcessRequests_start ''m'' 8 [Some \<lparr>RequestInputByIndex_err = None, first_InputProperties_err = None, first_input_shape = [0, 4]\<rparr>] = Returned []"
  by (simp add: ProcessRequests_start_def)


section \<open>Validation of a saved-model\<close>

lemma BackfillShape_fold:
  "n \<le> length dims \<Longrightarrow> length block = length dims + off \<Longrightarrow>
   fold (\<lambda>i d. d[i + off := dims ! i]) [0..<n] block =
   take off block @ take n dims @ drop (n + off) block"
proof (induction n)
  case 0
  then show ?case by simp
next
  case (Suc n)
  then have ih: "fold (\<lambda>i d. d[i + off := dims ! i]) [0..<n] block =
      take off block @ take n dims @ drop (n + off) block"
    by simp
  have n: "n < length dims" using Suc.prems by simp
  have "fold (\<lambda>i d. d[i + off := dims ! i]) [0..<Suc n] block =
        (take off block @ take n dims @ drop (n + off) block)[n + off := dims ! n]"
    using ih by simp
  also have "\<dots> = take off block @ take (Suc n) dims @ drop (Suc n + off) block"
  proof (rule nth_equalityI)
    show "length ((take off block @ take n dims @ drop (n + off) block)[n + off := dims ! n]) =
          length (take off block @ take (Suc n) dims @ drop (Suc n + off) block)"
      using n Suc.prems(2) by simp
  next
    fix p
    assume "p < length ((take off block @ take n dims @ drop (n + off) block)
                [n + off := dims ! n])"
    then have p: "p < length dims + off"
      using n Suc.prems(2) by simp
    show "(take off block @ take n dims @ drop (n + off) block)[n + off := dims ! n] ! p =
          (take off block @ take (Suc n) dims @ drop (Suc n + off) block) ! p"
      using p n Suc.prems(2)
      by (cases "p = n + off")
         (auto simp: nth_list_update_total nth_append min_def less_Suc_eq)
  qed
  finally show ?case .
qed

lemma BackfillShape_eq:
  "BackfillShape uninit dims supports_batching =
    (if supports_batching then uninit 0 # dims else dims)"
proof -
  let ?off = "if supports_batching then 1 else (0::nat)"
  have "BackfillShape uninit dims supports_batching =
        take ?off (map uninit [0..<length dims + ?off]) @ take (length dims) dims @
        drop (length dims + ?off) (map uninit [0..<length dims + ?off])"
    unfolding BackfillShape_def Let_def
    by (rule BackfillShape_fold) simp_all
  also have "\<dots> = (if supports_batching then uninit 0 # dims else dims)"
    by (simp add: take_map upt_conv_Cons)
  finally show ?thesis .
qed

text \<open>
  Claim C8 is not met by the code. The back-fill sets the rank to the configured rank
  plus 1 and copies the configured dims to the positions after the first, but it never
  writes the first position: the leading dimension is what \<^verbatim>\<open>malloc\<close> left there.
  Here batching is enabled (\<^verbatim>\<open>max_batch_size\<close> 8), the configuration declares input
  \<open>x\<close> with dims \<open>[3]\<close>, the model reports rank 0 for it and the fresh block holds
  zeros: validation succeeds and the model's shape becomes \<open>[0, 3]\<close>, whose leading
  dimension is not \<^verbatim>\<open>WILDCARD_DIM\<close>.
\<close>

theorem backfill_leading_dimension_uninitialised:
  "fst (savedmodel_ValidateTRITONTFModel ''m''
       \<lparr>cfg_max_batch_size = 8,
        cfg_input =
         [\<lparr>cfg_name = ''x'', cfg_data_type = ''TYPE_FP32'', cfg_dims = [3],
          cfg_reshape = None, cfg_allow_ragged_batch = False\<rparr>],
        cfg_batch_input = 0, cfg_output = [], cfg_sequence_batching = None,
        cfg_batch_output = []\<rparr>
       \<lparr>TRITONTF_ModelInputs =
         [\<lparr>io_name = ''x'', io_inmodel_name = ''x:0'', io_data_type = TRITONTF_TYPE_FP32, io_shape = []\<rparr>],
        TRITONTF_ModelOutputs = []\<rparr> (\<lambda>slot. 0)) = None \<and>
   io_shape (TRITONTF_ModelInputs
     (fst (snd (savedmodel_ValidateTRITONTFModel ''m''
       \<lparr>cfg_max_batch_size = 8,
        cfg_input =
         [\<lparr>cfg_name = ''x'', cfg_data_type = ''TYPE_FP32'', cfg_dims = [3],
          cfg_reshape = None, cfg_allow_ragged_batch = False\<rparr>],
        cfg_batch_input = 0, cfg_output = [], cfg_sequence_batching = None,
        cfg_batch_output = []\<rparr>
       \<lparr>TRITONTF_ModelInputs =
         [\<lparr>io_name = ''x'', io_inmodel_name = ''x:0'', io_data_type = TRITONTF_TYPE_FP32, io_shape = []\<rparr>],
        TRITONTF_ModelOutputs = []\<rparr> (\<lambda>slot. 0)))) ! 0) = [0, 3] \<and>
   [0, 3] ! 0 \<noteq> WILDCARD_DIM"
  by (simp add: savedmodel_ValidateTRITONTFModel_def Let_def set_size_def
      CheckAllowedModelInput_def BackfillShape_eq CompareDataType_def ConvertDataType_str_def
      WILDCARD_DIM_def)

lemma savedmodel_ValidateSequenceControl_Inr:
  "savedmodel_ValidateSequenceControl model_name sb mbs kind inputs = Inr h \<Longrightarrow>
   (case sb kind of Inl err \<Rightarrow> False | Inr (n, d) \<Rightarrow> n \<noteq> []) = h"
  by (auto simp: savedmodel_ValidateSequenceControl_def Let_def
      split: sum.splits prod.splits if_splits option.splits)

lemma savedmodel_sequence_controls_Inr:
  assumes "savedmodel_sequence_controls model_name sb mbs inputs c = Inr k"
  shows "k = c + length (filter (\<lambda>kind. case sb kind of Inl err \<Rightarrow> False | Inr (n, d) \<Rightarrow> n \<noteq> [])
           [CONTROL_SEQUENCE_START, CONTROL_SEQUENCE_END, CONTROL_SEQUENCE_READY,
            CONTROL_SEQUENCE_CORRID])"
proof -
  from assms obtain h1 h2 h3 h4 where
    h: "savedmodel_ValidateSequenceControl model_name sb mbs CONTROL_SEQUENCE_START inputs = Inr h1"
       "savedmodel_ValidateSequenceControl model_name sb mbs CONTROL_SEQUENCE_END inputs = Inr h2"
       "savedmodel_ValidateSequenceControl model_name sb mbs CONTROL_SEQUENCE_READY inputs = Inr h3"
       "savedmodel_ValidateSequenceControl model_name sb mbs CONTROL_SEQUENCE_CORRID inputs = Inr h4"
    and k: "k = c + (if h1 then 1 else 0) + (if h2 then 1 else 0) + (if h3 then 1 else 0) +
              (if h4 then 1 else 0)"
    by (auto simp: savedmodel_sequence_controls_def split: sum.splits)
  from h [THEN savedmodel_ValidateSequenceControl_Inr] k show ?thesis
    by simp
qed

lemma savedmodel_count_mismatch:
  assumes "expected_input_count cfg \<noteq> set_size (map io_name (TRITONTF_ModelInputs model))"
  shows "(\<exists>sb err. cfg_sequence_batching cfg = Some sb \<and>
            savedmodel_sequence_controls model_name sb (cfg_max_batch_size cfg)
              (TRITONTF_ModelInputs model)
              (length (cfg_input cfg) + cfg_batch_input cfg) = Inl err \<and>
            fst (savedmodel_ValidateTRITONTFModel model_name cfg model uninit) = Some err) \<or>
         fst (savedmodel_ValidateTRITONTFModel model_name cfg model uninit) =
           Some (TRITONSERVER_ErrorNew TRITONSERVER_ERROR_INVALID_ARG
             (''unable to load model '' @ [CHR 0x27] @ model_name @ [CHR 0x27] @
              '', configuration expects '' @ to_string_nat (expected_input_count cfg) @
              '' inputs, model provides '' @
              to_string_nat (set_size (map io_name (TRITONTF_ModelInputs model)))))"
proof (cases "cfg_sequence_batching cfg")
  case None
  then have "expected_input_count cfg = length (cfg_input cfg) + cfg_batch_input cfg"
    by (simp add: expected_input_count_def resolved_controls_def)
  with None assms show ?thesis
    by (simp add: savedmodel_ValidateTRITONTFModel_def Let_def)
next
  case (Some sb)
  show ?thesis
  proof (cases "savedmodel_sequence_controls model_name sb (cfg_max_batch_size cfg)
              (TRITONTF_ModelInputs model) (length (cfg_input cfg) + cfg_batch_input cfg)")
    case (Inl err)
    with Some show ?thesis
      by (simp add: savedmodel_ValidateTRITONTFModel_def Let_def)
  next
    case (Inr k)
    from savedmodel_sequence_controls_Inr [OF Inr] Some
    have "k = expected_input_count cfg"
      by (simp add: expected_input_count_def resolved_controls_def)
    with Inr Some assms show ?thesis
      by (simp add: savedmodel_ValidateTRITONTFModel_def Let_def)
  qed
qed

lemma first_error_None: "first_error check xs = None \<longleftrightarrow> (\<forall>x\<in>set xs. check x = None)"
  by (induction xs) (auto split: option.splits)

lemma graphdef_accepts:
  assumes "cfg_sequence_batching cfg = None"
    and "distinct (map cfg_name (cfg_input cfg))"
    and "set (map cfg_name (cfg_input cfg)) \<subseteq> set (map io_name (TRITONTF_ModelInputs model))"
    and "set (map cfg_name (cfg_output cfg)) \<subseteq> set (map io_name (TRITONTF_ModelOutputs model))"
  shows "graphdef_ValidateTRITONTFModel model_name cfg model = None"
proof -
  have "length (cfg_input cfg) = card (set (map cfg_name (cfg_input cfg)))"
    using assms(2) distinct_card [of "map cfg_name (cfg_input cfg)"] by simp
  also have "\<dots> \<le> card (set (map io_name (TRITONTF_ModelInputs model)))"
    using assms(3) by (intro card_mono) simp_all
  finally have cnt: "\<not> set_size (map io_name (TRITONTF_ModelInputs model)) < length (cfg_input cfg)"
    by (simp add: set_size_def length_remdups_card_conv)
  have ins: "first_error (\<lambda>io. CheckAllowedModelInput io (map io_name (TRITONTF_ModelInputs model)))
      (cfg_input cfg) = None"
    using assms(3) by (auto simp: first_error_None CheckAllowedModelInput_def)
  have outs: "first_error
      (\<lambda>io. CheckAllowedModelOutput io (map io_name (TRITONTF_ModelOutputs model)))
      (cfg_output cfg) = None"
    using assms(4) by (auto simp: first_error_None CheckAllowedModelOutput_def)
  show ?thesis
    using cnt ins outs assms(1)
    by (simp add: graphdef_ValidateTRITONTFModel_def Let_def)
qed

lemma to_string_nat_digit:
  "\<exists>(k::nat) cs. k < 10 \<and> to_string_nat n = char_of (48 + k) # cs"
proof (induction n rule: to_string_nat.induct)
  case (1 n)
  show ?case
  proof (cases "n < 10")
    case True
    then show ?thesis
      by (subst to_string_nat.simps) (auto intro: exI [of _ n])
  next
    case False
    from 1 [OF False] obtain k :: nat and cs where "k < 10" "to_string_nat (n div 10) = char_of (48 + k) # cs"
      by blast
    then show ?thesis
      using False by (subst to_string_nat.simps) auto
  qed
qed

lemma digit_not_letter:
  assumes "k < (10::nat)"
  shows "char_of (48 + k) \<noteq> CHR ''m''" and "char_of (48 + k) \<noteq> CHR ''d''"
proof -
  have v: "(of_char (char_of (48 + k)) :: nat) = 48 + k"
    using assms by (simp add: of_char_of)
  show "char_of (48 + k) \<noteq> CHR ''m''"
  proof
    assume "char_of (48 + k) = CHR ''m''"
    then have "(of_char (char_of (48 + k)) :: nat) = of_char CHR ''m''"
      by (rule arg_cong)
    with v assms show False by simp
  qed
  show "char_of (48 + k) \<noteq> CHR ''d''"
  proof
    assume "char_of (48 + k) = CHR ''d''"
    then have "(of_char (char_of (48 + k)) :: nat) = of_char CHR ''d''"
      by (rule arg_cong)
    with v assms show False by simp
  qed
qed

lemma count_error_distinct:
  assumes "err_code e = TRITONSERVER_ERROR_INTERNAL \<or>
           (\<exists>r. err_msg e = ''unexpected'' @ r) \<or>
           (\<exists>r. err_msg e = ''model '' @ r) \<or>
           (\<exists>r. err_msg e = ''unable to load model '' @ [CHR 0x27] @ mn @ [CHR 0x27] @
                   '', configuration expects m'' @ r) \<or>
           (\<exists>r. err_msg e = ''unable to load model '' @ [CHR 0x27] @ mn @ [CHR 0x27] @
                   '', configuration expects d'' @ r)"
  shows "e \<noteq> TRITONSERVER_ErrorNew TRITONSERVER_ERROR_INVALID_ARG
           (''unable to load model '' @ [CHR 0x27] @ mn @ [CHR 0x27] @
            '', configuration expects '' @ to_string_nat n @
            '' inputs, model provides '' @ to_string_nat m)"
proof -
  obtain k :: nat and cs where k: "k < 10" "to_string_nat n = char_of (48 + k) # cs"
    using to_string_nat_digit by blast
  from digit_not_letter [OF k(1)] assms show ?thesis
    by (auto simp: TRITONSERVER_ErrorNew_def k(2))
qed

lemma CheckAllowedModelInput_Some:
  "CheckAllowedModelInput io allowed = Some e \<Longrightarrow> \<exists>r. err_msg e = ''unexpected'' @ r"
  by (auto simp: CheckAllowedModelInput_def TRITONSERVER_ErrorNew_def split: if_splits)

lemma CheckAllowedModelOutput_Some:
  "CheckAllowedModelOutput io allowed = Some e \<Longrightarrow> \<exists>r. err_msg e = ''unexpected'' @ r"
  by (auto simp: CheckAllowedModelOutput_def TRITONSERVER_ErrorNew_def split: if_splits)

lemma CompareDims_Some_model:
  "CompareDims mn tn ms ds sb ce = Some e \<Longrightarrow> \<exists>r. err_msg e = ''model '' @ r"
  using CompareDims_Some [of mn tn ms ds sb ce e] by auto

lemma savedmodel_validate_inputs_error:
  "savedmodel_validate_inputs mn mbs uninit expected ios inputs = (Some e, inputs') \<Longrightarrow>
   err_code e = TRITONSERVER_ERROR_INTERNAL \<or>
   (\<exists>r. err_msg e = ''unexpected'' @ r) \<or>
   (\<exists>r. err_msg e = ''model '' @ r) \<or>
   (\<exists>r. err_msg e = ''unable to load model '' @ [CHR 0x27] @ mn @ [CHR 0x27] @
           '', configuration expects m'' @ r) \<or>
   (\<exists>r. err_msg e = ''unable to load model '' @ [CHR 0x27] @ mn @ [CHR 0x27] @
           '', configuration expects d'' @ r)"
proof (induction ios arbitrary: inputs)
  case Nil
  then show ?case by simp
next
  case (Cons io ios)
  show ?case
  proof (cases "CheckAllowedModelInput io expected")
    case (Some err)
    with Cons.prems have "e = err" by simp
    with CheckAllowedModelInput_Some [OF Some] show ?thesis by blast
  next
    case None
    show ?thesis
    proof (cases "FindIOByName_idx inputs (cfg_name io)")
      case N: None
      with None Cons.prems show ?thesis
        by (auto simp: TRITONSERVER_ErrorNew_def)
    next
      case (Some k)
      let ?input = "inputs ! k"
      let ?dims = "case cfg_reshape io of Some shape \<Rightarrow> shape | None \<Rightarrow> cfg_dims io"
      let ?shape = "(if length (io_shape ?input) \<noteq> 0 then
                 if cfg_allow_ragged_batch io then
                   if length (io_shape ?input) \<noteq> 1 \<or> io_shape ?input ! 0 \<noteq> WILDCARD_DIM then
                     (Some (TRITONSERVER_ErrorNew TRITONSERVER_ERROR_INVALID_ARG
                        (''unable to load model '' @ [CHR 0x27] @ mn @ [CHR 0x27] @
                         '', configuration expects model provides input with shape [-1]  '' @
                         ''for ragged input '' @ [CHR 0x27] @ cfg_name io @ [CHR 0x27] @
                         '', model provides '' @ ShapeToString (io_shape ?input) 0)), inputs)
                   else (None, inputs)
                 else
                   (CompareDims mn (cfg_name io) (io_shape ?input) ?dims
                      (0 < mbs) False, inputs)
               else
                 (None,
                  inputs[k := ?input\<lparr>io_shape := BackfillShape uninit ?dims (0 < mbs)\<rparr>]))"
      obtain se si where sh: "?shape = (se, si)" by (cases ?shape) auto
      show ?thesis
      proof (cases se)
        case E: (Some err)
        with None Some sh Cons.prems have ee: "e = err"
          by (simp add: Let_def)
        from sh E have
          "(\<exists>r. err_msg err = ''unable to load model '' @ [CHR 0x27] @ mn @ [CHR 0x27] @
               '', configuration expects m'' @ r) \<or>
           (\<exists>tn ms ds sb ce. CompareDims mn tn ms ds sb ce = Some err)"
          by (auto simp: TRITONSERVER_ErrorNew_def split: if_splits)
        with ee CompareDims_Some_model show ?thesis by blast
      next
        case E: None
        show ?thesis
        proof (cases "CompareDataType (io_data_type ?input) (cfg_data_type io)")
          case True
          with None Some sh E Cons.prems have
            "savedmodel_validate_inputs mn mbs uninit expected ios si = (Some e, inputs')"
            by (simp add: Let_def)
          from Cons.IH [OF this] show ?thesis .
        next
          case False
          with None Some sh E Cons.prems show ?thesis
            by (auto simp: Let_def TRITONSERVER_ErrorNew_def)
        qed
      qed
    qed
  qed
qed

lemma savedmodel_validate_outputs_error:
  "savedmodel_validate_outputs mn mbs uninit bo allowed ios outputs = (Some e, outputs') \<Longrightarrow>
   err_code e = TRITONSERVER_ERROR_INTERNAL \<or>
   (\<exists>r. err_msg e = ''unexpected'' @ r) \<or>
   (\<exists>r. err_msg e = ''model '' @ r) \<or>
   (\<exists>r. err_msg e = ''unable to load model '' @ [CHR 0x27] @ mn @ [CHR 0x27] @
           '', configuration expects m'' @ r) \<or>
   (\<exists>r. err_msg e = ''unable to load model '' @ [CHR 0x27] @ mn @ [CHR 0x27] @
           '', configuration expects d'' @ r)"
proof (induction ios arbitrary: outputs)
  case Nil
  then show ?case by simp
next
  case (Cons io ios)
  show ?case
  proof (cases "CheckAllowedModelOutput io allowed")
    case (Some err)
    with Cons.prems have "e = err" by simp
    with CheckAllowedModelOutput_Some [OF Some] show ?thesis by blast
  next
    case None
    show ?thesis
    proof (cases "FindIOByName_idx outputs (cfg_name io)")
      case N: None
      with None Cons.prems show ?thesis
        by (auto simp: TRITONSERVER_ErrorNew_def)
    next
      case (Some k)
      let ?output = "outputs ! k"
      let ?dims = "case cfg_reshape io of Some shape \<Rightarrow> shape | None \<Rightarrow> cfg_dims io"
      let ?shape = "(if length (io_shape ?output) \<noteq> 0 then
                 if cfg_name io \<notin> set bo then
                   (CompareDims mn (cfg_name io) (io_shape ?output) ?dims
                      (0 < mbs) True, outputs)
                 else (None, outputs)
               else
                 (None,
                  outputs[k := ?output\<lparr>io_shape := BackfillShape uninit ?dims (0 < mbs)\<rparr>]))"
      obtain se si where sh: "?shape = (se, si)" by (cases ?shape) auto
      show ?thesis
      proof (cases se)
        case E: (Some err)
        with None Some sh Cons.prems have ee: "e = err"
          by (simp add: Let_def)
        from sh E have
          "\<exists>tn ms ds sb ce. CompareDims mn tn ms ds sb ce = Some err"
          by (auto split: if_splits, blast)
        with ee CompareDims_Some_model show ?thesis by blast
      next
        case E: None
        show ?thesis
        proof (cases "CompareDataType (io_data_type ?output) (cfg_data_type io)")
          case True
          with None Some sh E Cons.prems have
            "savedmodel_validate_outputs mn mbs uninit bo allowed ios si = (Some e, outputs')"
            by (simp add: Let_def)
          from Cons.IH [OF this] show ?thesis .
        next
          case False
          with None Some sh E Cons.prems show ?thesis
            by (auto simp: Let_def TRITONSERVER_ErrorNew_def)
        qed
      qed
    qed
  qed
qed

lemma savedmodel_count_error_iff:
  assumes ok: "cfg_sequence_batching cfg = None \<or>
      (\<exists>sb k. cfg_sequence_batching cfg = Some sb \<and>
         savedmodel_sequence_controls model_name sb (cfg_max_batch_size cfg)
           (TRITONTF_ModelInputs model)
           (length (cfg_input cfg) + cfg_batch_input cfg) = Inr k)"
  shows "fst (savedmodel_ValidateTRITONTFModel model_name cfg model uninit) =
           Some (TRITONSERVER_ErrorNew TRITONSERVER_ERROR_INVALID_ARG
             (''unable to load model '' @ [CHR 0x27] @ model_name @ [CHR 0x27] @
              '', configuration expects '' @ to_string_nat (expected_input_count cfg) @
              '' inputs, model provides '' @
              to_string_nat (set_size (map io_name (TRITONTF_ModelInputs model))))) \<longleftrightarrow>
         expected_input_count cfg \<noteq> set_size (map io_name (TRITONTF_ModelInputs model))"
proof -
  let ?N = "expected_input_count cfg"
  let ?M = "set_size (map io_name (TRITONTF_ModelInputs model))"
  let ?E = "TRITONSERVER_ErrorNew TRITONSERVER_ERROR_INVALID_ARG
             (''unable to load model '' @ [CHR 0x27] @ model_name @ [CHR 0x27] @
              '', configuration expects '' @ to_string_nat ?N @
              '' inputs, model provides '' @ to_string_nat ?M)"
  let ?V = "savedmodel_ValidateTRITONTFModel model_name cfg model uninit"
  let ?ctl = "case cfg_sequence_batching cfg of
             None \<Rightarrow> Inr (length (cfg_input cfg) + cfg_batch_input cfg)
           | Some sb \<Rightarrow>
               savedmodel_sequence_controls model_name sb (cfg_max_batch_size cfg)
                 (TRITONTF_ModelInputs model) (length (cfg_input cfg) + cfg_batch_input cfg)"
  have ctl: "?ctl = Inr ?N"
  proof (rule disjE [OF ok])
    assume "cfg_sequence_batching cfg = None"
    then show ?thesis
      by (simp add: expected_input_count_def resolved_controls_def)
  next
    assume "\<exists>sb k. cfg_sequence_batching cfg = Some sb \<and>
         savedmodel_sequence_controls model_name sb (cfg_max_batch_size cfg)
           (TRITONTF_ModelInputs model)
           (length (cfg_input cfg) + cfg_batch_input cfg) = Inr k"
    then obtain sb k where s: "cfg_sequence_batching cfg = Some sb"
      and k: "savedmodel_sequence_controls model_name sb (cfg_max_batch_size cfg)
           (TRITONTF_ModelInputs model)
           (length (cfg_input cfg) + cfg_batch_input cfg) = Inr k"
      by blast
    from savedmodel_sequence_controls_Inr [OF k] s have "k = ?N"
      by (simp add: expected_input_count_def resolved_controls_def)
    with s k show ?thesis by simp
  qed
  show ?thesis
  proof
    assume eq: "fst ?V = Some ?E"
    show "?N \<noteq> ?M"
    proof
      assume same: "?N = ?M"
      obtain ie ins where vi: "savedmodel_validate_inputs model_name (cfg_max_batch_size cfg) uninit
          (map io_name (TRITONTF_ModelInputs model)) (cfg_input cfg) (TRITONTF_ModelInputs model) =
          (ie, ins)"
        by (cases "savedmodel_validate_inputs model_name (cfg_max_batch_size cfg) uninit
          (map io_name (TRITONTF_ModelInputs model)) (cfg_input cfg) (TRITONTF_ModelInputs model)")
          auto
      obtain oe outs where vo: "savedmodel_validate_outputs model_name (cfg_max_batch_size cfg)
          uninit (cfg_batch_output cfg) (map io_name (TRITONTF_ModelOutputs model))
          (cfg_output cfg) (TRITONTF_ModelOutputs model) = (oe, outs)"
        by (cases "savedmodel_validate_outputs model_name (cfg_max_batch_size cfg)
          uninit (cfg_batch_output cfg) (map io_name (TRITONTF_ModelOutputs model))
          (cfg_output cfg) (TRITONTF_ModelOutputs model)") auto
      have "fst ?V = (case ie of Some err \<Rightarrow> Some err | None \<Rightarrow> oe)"
        using ctl same vi vo
        by (simp add: savedmodel_ValidateTRITONTFModel_def Let_def split: option.splits)
      with eq have "(ie = Some ?E) \<or> (ie = None \<and> oe = Some ?E)"
        by (cases ie) simp_all
      then show False
      proof
        assume "ie = Some ?E"
        with vi savedmodel_validate_inputs_error [of model_name _ _ _ _ _ ?E ins]
          count_error_distinct [of ?E model_name ?N ?M]
        show False by blast
      next
        assume "ie = None \<and> oe = Some ?E"
        with vo savedmodel_validate_outputs_error [of model_name _ _ _ _ _ _ ?E outs]
          count_error_distinct [of ?E model_name ?N ?M]
        show False by blast
      qed
    qed
  next
    assume "?N \<noteq> ?M"
    then show "fst ?V = Some ?E"
      using ctl by (simp add: savedmodel_ValidateTRITONTFModel_def Let_def)
  qed
qed

lemma FindIOByName_idx_None:
  "FindIOByName_idx ios n = None \<longleftrightarrow> n \<notin> set (map io_name ios)"
  by (induction ios) auto

lemma FindIOByName_None:
  "FindIOByName ios n = None \<longleftrightarrow> n \<notin> set (map io_name ios)"
  by (simp add: FindIOByName_def FindIOByName_idx_None)

lemma graphdef_ValidateSequenceControl_None:
  "graphdef_ValidateSequenceControl sb kind inputs = None \<longleftrightarrow>
   (case sb kind of Inl err \<Rightarrow> False
    | Inr (n, d) \<Rightarrow> n = [] \<or> n \<in> set (map io_name inputs))"
proof -
  have s: "FindIOByName inputs n = Some x \<Longrightarrow> n \<in> set (map io_name inputs)" for n x
    by (metis FindIOByName_None option.distinct(1))
  have n: "FindIOByName inputs n = None \<Longrightarrow> n \<notin> set (map io_name inputs)" for n
    by (simp add: FindIOByName_None)
  show ?thesis
    by (auto simp: graphdef_ValidateSequenceControl_def split: sum.splits option.splits
        dest: s n)
qed

lemma control_kind_all:
  "(\<forall>kind\<in>set [CONTROL_SEQUENCE_START, CONTROL_SEQUENCE_END, CONTROL_SEQUENCE_READY,
       CONTROL_SEQUENCE_CORRID]. P kind) \<longleftrightarrow> (\<forall>kind. P kind)"
proof
  assume a: "\<forall>kind\<in>set [CONTROL_SEQUENCE_START, CONTROL_SEQUENCE_END, CONTROL_SEQUENCE_READY,
       CONTROL_SEQUENCE_CORRID]. P kind"
  show "\<forall>kind. P kind"
  proof
    fix kind show "P kind" using a by (cases kind) simp_all
  qed
qed simp

lemma graphdef_validates_iff:
  "graphdef_ValidateTRITONTFModel model_name cfg model = None \<longleftrightarrow>
     length (cfg_input cfg) \<le> set_size (map io_name (TRITONTF_ModelInputs model)) \<and>
     (\<forall>sb kind. cfg_sequence_batching cfg = Some sb \<longrightarrow>
        (case sb kind of Inl err \<Rightarrow> False
         | Inr (n, d) \<Rightarrow> n = [] \<or> n \<in> set (map io_name (TRITONTF_ModelInputs model)))) \<and>
     set (map cfg_name (cfg_input cfg)) \<subseteq> set (map io_name (TRITONTF_ModelInputs model)) \<and>
     set (map cfg_name (cfg_output cfg)) \<subseteq> set (map io_name (TRITONTF_ModelOutputs model))"
proof -
  let ?ins = "TRITONTF_ModelInputs model"
  let ?ctl = "case cfg_sequence_batching cfg of
               None \<Rightarrow> None
             | Some sb \<Rightarrow>
                 first_error (\<lambda>kind. graphdef_ValidateSequenceControl sb kind ?ins)
                   [CONTROL_SEQUENCE_START, CONTROL_SEQUENCE_END, CONTROL_SEQUENCE_READY,
                    CONTROL_SEQUENCE_CORRID]"
  have ctl: "?ctl = None \<longleftrightarrow>
     (\<forall>sb kind. cfg_sequence_batching cfg = Some sb \<longrightarrow>
        (case sb kind of Inl err \<Rightarrow> False
         | Inr (n, d) \<Rightarrow> n = [] \<or> n \<in> set (map io_name ?ins)))"
  proof (cases "cfg_sequence_batching cfg")
    case None
    then show ?thesis by simp
  next
    case (Some sb)
    have "?ctl = None \<longleftrightarrow>
        (\<forall>kind\<in>set [CONTROL_SEQUENCE_START, CONTROL_SEQUENCE_END, CONTROL_SEQUENCE_READY,
           CONTROL_SEQUENCE_CORRID]. graphdef_ValidateSequenceControl sb kind ?ins = None)"
      using Some by (simp only: option.case first_error_None)
    also have "\<dots> \<longleftrightarrow> (\<forall>kind. graphdef_ValidateSequenceControl sb kind ?ins = None)"
      by (rule control_kind_all)
    finally show ?thesis
      using Some by (simp add: graphdef_ValidateSequenceControl_None)
  qed
  have ins: "first_error (\<lambda>io. CheckAllowedModelInput io (map io_name ?ins)) (cfg_input cfg) = None
      \<longleftrightarrow> set (map cfg_name (cfg_input cfg)) \<subseteq> set (map io_name ?ins)"
    by (auto simp: first_error_None CheckAllowedModelInput_def)
  have outs: "first_error
      (\<lambda>io. CheckAllowedModelOutput io (map io_name (TRITONTF_ModelOutputs model)))
      (cfg_output cfg) = None
      \<longleftrightarrow> set (map cfg_name (cfg_output cfg)) \<subseteq> set (map io_name (TRITONTF_ModelOutputs model))"
    by (auto simp: first_error_None CheckAllowedModelOutput_def)
  have "graphdef_ValidateTRITONTFModel model_name cfg model = None \<longleftrightarrow>
      \<not> set_size (map io_name ?ins) < length (cfg_input cfg) \<and> ?ctl = None \<and>
      first_error (\<lambda>io. CheckAllowedModelInput io (map io_name ?ins)) (cfg_input cfg) = None \<and>
      first_error (\<lambda>io. CheckAllowedModelOutput io (map io_name (TRITONTF_ModelOutputs model)))
        (cfg_output cfg) = None"
    by (simp add: graphdef_ValidateTRITONTFModel_def Let_def split: option.splits)
  with ctl ins outs show ?thesis
    by (simp add: not_less)
qed

lemma set_size_append: "set_size names \<le> set_size (names @ others)"
proof -
  have "card (set names) \<le> card (set (names @ others))"
    by (intro card_mono) simp_all
  then show ?thesis
    by (simp add: set_size_def length_remdups_card_conv)
qed

lemma graphdef_extra_inputs:
  assumes "graphdef_ValidateTRITONTFModel model_name cfg model = None"
  shows "graphdef_ValidateTRITONTFModel model_name cfg
           (model\<lparr>TRITONTF_ModelInputs := TRITONTF_ModelInputs model @ extra\<rparr>) = None"
proof -
  let ?ins = "TRITONTF_ModelInputs model"
  have le: "set_size (map io_name ?ins) \<le> set_size (map io_name (?ins @ extra))"
    using set_size_append [of "map io_name ?ins" "map io_name extra"] by simp
  have ctl: "(case x of Inl err \<Rightarrow> False
         | Inr (n, d) \<Rightarrow> n = [] \<or> n \<in> set (map io_name ?ins)) \<Longrightarrow>
        (case x of Inl err \<Rightarrow> False
         | Inr (n, d) \<Rightarrow> n = [] \<or> n \<in> set (map io_name (?ins @ extra)))"
    for x :: "TRITONSERVER_Error + string \<times> string"
    by (auto split: sum.splits)
  from assms have a:
     "length (cfg_input cfg) \<le> set_size (map io_name ?ins)"
     "\<forall>sb kind. cfg_sequence_batching cfg = Some sb \<longrightarrow>
        (case sb kind of Inl err \<Rightarrow> False
         | Inr (n, d) \<Rightarrow> n = [] \<or> n \<in> set (map io_name ?ins))"
     "set (map cfg_name (cfg_input cfg)) \<subseteq> set (map io_name ?ins)"
     "set (map cfg_name (cfg_output cfg)) \<subseteq> set (map io_name (TRITONTF_ModelOutputs model))"
    unfolding graphdef_validates_iff by blast+
  have "length (cfg_input cfg) \<le> set_size (map io_name (?ins @ extra))"
    using a(1) le by simp
  moreover have "\<forall>sb kind. cfg_sequence_batching cfg = Some sb \<longrightarrow>
        (case sb kind of Inl err \<Rightarrow> False
         | Inr (n, d) \<Rightarrow> n = [] \<or> n \<in> set (map io_name (?ins @ extra)))"
    using a(2) ctl by blast
  moreover have "set (map cfg_name (cfg_input cfg)) \<subseteq> set (map io_name (?ins @ extra))"
    using a(3) by auto
  moreover have eq:
    "TRITONTF_ModelInputs (model\<lparr>TRITONTF_ModelInputs := ?ins @ extra\<rparr>) = ?ins @ extra"
    "TRITONTF_ModelOutputs (model\<lparr>TRITONTF_ModelInputs := ?ins @ extra\<rparr>) =
       TRITONTF_ModelOutputs model"
    by simp_all
  ultimately show ?thesis
    unfolding graphdef_validates_iff eq using a(4) by blast
qed

text \<open>
  Claim C9, as stated, fails in its ``only if'': validation of a saved-model also
  fails with an invalid-argument error when the counts agree. Here the configuration
  declares the one input \<open>x\<close> with dims \<open>[3]\<close>, the model reports the one input \<open>x\<close>
  with shape \<open>[4]\<close>, and validation fails on the shape.
\<close>

theorem equal_counts_still_rejected_counterexample:
  "expected_input_count
       \<lparr>cfg_max_batch_size = 0,
        cfg_input =
         [\<lparr>cfg_name = ''x'', cfg_data_type = ''TYPE_FP32'', cfg_dims = [3],
          cfg_reshape = None, cfg_allow_ragged_batch = False\<rparr>],
        cfg_batch_input = 0, cfg_output = [], cfg_sequence_batching = None,
        cfg_batch_output = []\<rparr> = set_size (map io_name (TRITONTF_ModelInputs
       \<lparr>TRITONTF_ModelInputs =
         [\<lparr>io_name = ''x'', io_inmodel_name = ''x:0'', io_data_type = TRITONTF_TYPE_FP32, io_shape = [4]\<rparr>],
        TRITONTF_ModelOutputs = []\<rparr>)) \<and>
   map_option err_code (fst (savedmodel_ValidateTRITONTFModel ''m''
       \<lparr>cfg_max_batch_size = 0,
        cfg_input =
         [\<lparr>cfg_name = ''x'', cfg_data_type = ''TYPE_FP32'', cfg_dims = [3],
          cfg_reshape = None, cfg_allow_ragged_batch = False\<rparr>],
        cfg_batch_input = 0, cfg_output = [], cfg_sequence_batching = None,
        cfg_batch_output = []\<rparr>
       \<lparr>TRITONTF_ModelInputs =
         [\<lparr>io_name = ''x'', io_inmodel_name = ''x:0'', io_data_type = TRITONTF_TYPE_FP32, io_shape = [4]\<rparr>],
        TRITONTF_ModelOutputs = []\<rparr> (\<lambda>slot. 0))) =
     Some TRITONSERVER_ERROR_INVALID_ARG"
  by (simp add: savedmodel_ValidateTRITONTFModel_def Let_def set_size_def
      CheckAllowedModelInput_def expected_input_count_def resolved_controls_def CompareDims_def
      CompareDims_loop_def CompareDims_step_def TRITONSERVER_ErrorNew_def WILDCARD_DIM_def)

text \<open>
  Claim C9, amended. For every saved-model, let \<open>N\<close> be the count of configured
  inputs plus declared batch inputs plus sequence controls that resolve to a tensor
  name, and \<open>M\<close> the number of distinct input names the model reports (the number of
  inputs when their names are distinct).
  \<^item> If \<open>N\<close> differs from \<open>M\<close>, validation fails: with the error of the sequence
    control that did not validate, or else with the invalid-argument error
    ``configuration expects \<open>N\<close> inputs, model provides \<open>M\<close>''.
  \<^item> When there is no sequence batching, or all sequence controls validate, that
    error is returned if and only if \<open>N\<close> differs from \<open>M\<close>.
  \<^item> In particular a model that provides strictly more inputs than the
    configuration declares is rejected.
  \<^item> The graph-only format is not strict: its validation succeeds exactly when the
    model has at least as many distinct input names as there are configured inputs,
    every sequence control (if sequence batching is configured) is read without error
    and names no tensor or an input of the model, every configured input name is an
    input of the model and every configured output name is an output of the model. So a
    model that it accepts is still accepted when further inputs are added to it; and
    without sequence batching it accepts whenever the configured input names are
    distinct and among the model's and the configured output names are among the
    model's.

  Validation of a saved-model can fail for other reasons when the counts agree.
\<close>

theorem savedmodel_input_count_is_strict:
  "(expected_input_count cfg \<noteq> set_size (map io_name (TRITONTF_ModelInputs model)) \<longrightarrow>
      fst (savedmodel_ValidateTRITONTFModel model_name cfg model uninit) \<noteq> None \<and>
      ((\<exists>sb err. cfg_sequence_batching cfg = Some sb \<and>
            savedmodel_sequence_controls model_name sb (cfg_max_batch_size cfg)
              (TRITONTF_ModelInputs model)
              (length (cfg_input cfg) + cfg_batch_input cfg) = Inl err \<and>
            fst (savedmodel_ValidateTRITONTFModel model_name cfg model uninit) = Some err) \<or>
       fst (savedmodel_ValidateTRITONTFModel model_name cfg model uninit) =
           Some (TRITONSERVER_ErrorNew TRITONSERVER_ERROR_INVALID_ARG
             (''unable to load model '' @ [CHR 0x27] @ model_name @ [CHR 0x27] @
              '', configuration expects '' @ to_string_nat (expected_input_count cfg) @
              '' inputs, model provides '' @
              to_string_nat (set_size (map io_name (TRITONTF_ModelInputs model))))))) \<and>
   (cfg_sequence_batching cfg = None \<or>
      (\<exists>sb k. cfg_sequence_batching cfg = Some sb \<and>
         savedmodel_sequence_controls model_name sb (cfg_max_batch_size cfg)
           (TRITONTF_ModelInputs model)
           (length (cfg_input cfg) + cfg_batch_input cfg) = Inr k) \<longrightarrow>
      (fst (savedmodel_ValidateTRITONTFModel model_name cfg model uninit) =
           Some (TRITONSERVER_ErrorNew TRITONSERVER_ERROR_INVALID_ARG
             (''unable to load model '' @ [CHR 0x27] @ model_name @ [CHR 0x27] @
              '', configuration expects '' @ to_string_nat (expected_input_count cfg) @
              '' inputs, model provides '' @
              to_string_nat (set_size (map io_name (TRITONTF_ModelInputs model))))) \<longleftrightarrow>
       expected_input_count cfg \<noteq> set_size (map io_name (TRITONTF_ModelInputs model)))) \<and>
   (expected_input_count cfg < set_size (map io_name (TRITONTF_ModelInputs model)) \<longrightarrow>
      fst (savedmodel_ValidateTRITONTFModel model_name cfg model uninit) \<noteq> None) \<and>
   (distinct (map io_name (TRITONTF_ModelInputs model)) \<longrightarrow>
      set_size (map io_name (TRITONTF_ModelInputs model)) = length (TRITONTF_ModelInputs model)) \<and>
   (graphdef_ValidateTRITONTFModel model_name cfg model = None \<longleftrightarrow>
      length (cfg_input cfg) \<le> set_size (map io_name (TRITONTF_ModelInputs model)) \<and>
      (\<forall>sb kind. cfg_sequence_batching cfg = Some sb \<longrightarrow>
         (case sb kind of Inl err \<Rightarrow> False
          | Inr (n, d) \<Rightarrow> n = [] \<or> n \<in> set (map io_name (TRITONTF_ModelInputs model)))) \<and>
      set (map cfg_name (cfg_input cfg)) \<subseteq> set (map io_name (TRITONTF_ModelInputs model)) \<and>
      set (map cfg_name (cfg_output cfg)) \<subseteq> set (map io_name (TRITONTF_ModelOutputs model))) \<and>
   (\<forall>extra. graphdef_ValidateTRITONTFModel model_name cfg model = None \<longrightarrow>
      graphdef_ValidateTRITONTFModel model_name cfg
        (model\<lparr>TRITONTF_ModelInputs := TRITONTF_ModelInputs model @ extra\<rparr>) = None) \<and>
   (cfg_sequence_batching cfg = None \<longrightarrow> distinct (map cfg_name (cfg_input cfg)) \<longrightarrow>
      set (map cfg_name (cfg_input cfg)) \<subseteq> set (map io_name (TRITONTF_ModelInputs model)) \<longrightarrow>
      set (map cfg_name (cfg_output cfg)) \<subseteq> set (map io_name (TRITONTF_ModelOutputs model)) \<longrightarrow>
      graphdef_ValidateTRITONTFModel model_name cfg model = None)"
proof -
  have a: "expected_input_count cfg \<noteq> set_size (map io_name (TRITONTF_ModelInputs model)) \<longrightarrow>
      fst (savedmodel_ValidateTRITONTFModel model_name cfg model uninit) \<noteq> None \<and>
      ((\<exists>sb err. cfg_sequence_batching cfg = Some sb \<and>
            savedmodel_sequence_controls model_name sb (cfg_max_batch_size cfg)
              (TRITONTF_ModelInputs model)
              (length (cfg_input cfg) + cfg_batch_input cfg) = Inl err \<and>
            fst (savedmodel_ValidateTRITONTFModel model_name cfg model uninit) = Some err) \<or>
       fst (savedmodel_ValidateTRITONTFModel model_name cfg model uninit) =
           Some (TRITONSERVER_ErrorNew TRITONSERVER_ERROR_INVALID_ARG
             (''unable to load model '' @ [CHR 0x27] @ model_name @ [CHR 0x27] @
              '', configuration expects '' @ to_string_nat (expected_input_count cfg) @
              '' inputs, model provides '' @
              to_string_nat (set_size (map io_name (TRITONTF_ModelInputs model))))))"
    using savedmodel_count_mismatch [of cfg model model_name uninit] by auto
  have b: "cfg_sequence_batching cfg = None \<or>
      (\<exists>sb k. cfg_sequence_batching cfg = Some sb \<and>
         savedmodel_sequence_controls model_name sb (cfg_max_batch_size cfg)
           (TRITONTF_ModelInputs model)
           (length (cfg_input cfg) + cfg_batch_input cfg) = Inr k) \<longrightarrow>
      (fst (savedmodel_ValidateTRITONTFModel model_name cfg model uninit) =
           Some (TRITONSERVER_ErrorNew TRITONSERVER_ERROR_INVALID_ARG
             (''unable to load model '' @ [CHR 0x27] @ model_name @ [CHR 0x27] @
              '', configuration expects '' @ to_string_nat (expected_input_count cfg) @
              '' inputs, model provides '' @
              to_string_nat (set_size (map io_name (TRITONTF_ModelInputs model))))) \<longleftrightarrow>
       expected_input_count cfg \<noteq> set_size (map io_name (TRITONTF_ModelInputs model)))"
    using savedmodel_count_error_iff [of cfg model_name model uninit] by blast
  have c: "expected_input_count cfg < set_size (map io_name (TRITONTF_ModelInputs model)) \<longrightarrow>
      fst (savedmodel_ValidateTRITONTFModel model_name cfg model uninit) \<noteq> None"
    using a by auto
  have d: "distinct (map io_name (TRITONTF_ModelInputs model)) \<longrightarrow>
      set_size (map io_name (TRITONTF_ModelInputs model)) = length (TRITONTF_ModelInputs model)"
    by (simp add: set_size_def distinct_remdups_id)
  have e: "graphdef_ValidateTRITONTFModel model_name cfg model = None \<longleftrightarrow>
      length (cfg_input cfg) \<le> set_size (map io_name (TRITONTF_ModelInputs model)) \<and>
      (\<forall>sb kind. cfg_sequence_batching cfg = Some sb \<longrightarrow>
         (case sb kind of Inl err \<Rightarrow> False
          | Inr (n, d) \<Rightarrow> n = [] \<or> n \<in> set (map io_name (TRITONTF_ModelInputs model)))) \<and>
      set (map cfg_name (cfg_input cfg)) \<subseteq> set (map io_name (TRITONTF_ModelInputs model)) \<and>
      set (map cfg_name (cfg_output cfg)) \<subseteq> set (map io_name (TRITONTF_ModelOutputs model))"
    by (rule graphdef_validates_iff)
  have f: "\<forall>extra. graphdef_ValidateTRITONTFModel model_name cfg model = None \<longrightarrow>
      graphdef_ValidateTRITONTFModel model_name cfg
        (model\<lparr>TRITONTF_ModelInputs := TRITONTF_ModelInputs model @ extra\<rparr>) = None"
    using graphdef_extra_inputs [of model_name cfg model] by blast
  have g: "cfg_sequence_batching cfg = None \<longrightarrow> distinct (map cfg_name (cfg_input cfg)) \<longrightarrow>
      set (map cfg_name (cfg_input cfg)) \<subseteq> set (map io_name (TRITONTF_ModelInputs model)) \<longrightarrow>
      set (map cfg_name (cfg_output cfg)) \<subseteq> set (map io_name (TRITONTF_ModelOutputs model)) \<longrightarrow>
      graphdef_ValidateTRITONTFModel model_name cfg model = None"
    using graphdef_accepts [of cfg model model_name] by blast
  from a b c d e f g show ?thesis by blast
qed

theorem savedmodel_input_count_is_strict_witness:
  "fst (savedmodel_ValidateTRITONTFModel ''m''
       \<lparr>cfg_max_batch_size = 0,
        cfg_input =
         [\<lparr>cfg_name = ''x'', cfg_data_type = ''TYPE_FP32'', cfg_dims = [3],
          cfg_reshape = None, cfg_allow_ragged_batch = False\<rparr>],
        cfg_batch_input = 0, cfg_output = [], cfg_sequence_batching = None,
        cfg_batch_output = []\<rparr>
       \<lparr>TRITONTF_ModelInputs =
         [\<lparr>io_name = ''x'', io_inmodel_name = ''x:0'',
          io_data_type = TRITONTF_TYPE_FP32, io_shape = [3]\<rparr>,
          \<lparr>io_name = ''y'', io_inmodel_name = ''y:0'',
          io_data_type = TRITONTF_TYPE_FP32, io_shape = [3]\<rparr>],
        TRITONTF_ModelOutputs = []\<rparr> (\<lambda>slot. 0)) =
     Some (TRITONSERVER_ErrorNew TRITONSERVER_ERROR_INVALID_ARG
          (''unable to load model '' @ [CHR 0x27] @ ''m'' @ [CHR 0x27] @
           '', configuration expects '' @ to_string_nat 1 @
           '' inputs, model provides '' @ to_string_nat 2)) \<and>
   graphdef_ValidateTRITONTFModel ''m''
       \<lparr>cfg_max_batch_size = 0,
        cfg_input =
         [\<lparr>cfg_name = ''x'', cfg_data_type = ''TYPE_FP32'', cfg_dims = [3],
          cfg_reshape = None, cfg_allow_ragged_batch = False\<rparr>],
        cfg_batch_input = 0, cfg_output = [], cfg_sequence_batching = None,
        cfg_batch_output = []\<rparr>
       \<lparr>TRITONTF_ModelInputs =
         [\<lparr>io_name = ''x'', io_inmodel_name = ''x:0'',
          io_data_type = TRITONTF_TYPE_FP32, io_shape = [3]\<rparr>],
        TRITONTF_ModelOutputs = []\<rparr> = None \<and>
   graphdef_ValidateTRITONTFModel ''m''
       \<lparr>cfg_max_batch_size = 0,
        cfg_input =
         [\<lparr>cfg_name = ''x'', cfg_data_type = ''TYPE_FP32'', cfg_dims = [3],
          cfg_reshape = None, cfg_allow_ragged_batch = False\<rparr>],
        cfg_batch_input = 0, cfg_output = [], cfg_sequence_batching = None,
        cfg_batch_output = []\<rparr>
       \<lparr>TRITONTF_ModelInputs =
         [\<lparr>io_name = ''x'', io_inmodel_name = ''x:0'',
          io_data_type = TRITONTF_TYPE_FP32, io_shape = [3]\<rparr>,
          \<lparr>io_name = ''y'', io_inmodel_name = ''y:0'',
          io_data_type = TRITONTF_TYPE_FP32, io_shape = [3]\<rparr>],
        TRITONTF_ModelOutputs = []\<rparr> = None"
proof -
  let ?C = "\<lparr>cfg_max_batch_size = 0,
        cfg_input =
         [\<lparr>cfg_name = ''x'', cfg_data_type = ''TYPE_FP32'', cfg_dims = [3],
          cfg_reshape = None, cfg_allow_ragged_batch = False\<rparr>],
        cfg_batch_input = 0, cfg_output = [], cfg_sequence_batching = None,
        cfg_batch_output = []\<rparr>"
  let ?M = "\<lparr>TRITONTF_ModelInputs =
         [\<lparr>io_name = ''x'', io_inmodel_name = ''x:0'',
          io_data_type = TRITONTF_TYPE_FP32, io_shape = [3]\<rparr>,
          \<lparr>io_name = ''y'', io_inmodel_name = ''y:0'',
          io_data_type = TRITONTF_TYPE_FP32, io_shape = [3]\<rparr>],
        TRITONTF_ModelOutputs = []\<rparr>"
  let ?M1 = "\<lparr>TRITONTF_ModelInputs =
         [\<lparr>io_name = ''x'', io_inmodel_name = ''x:0'',
          io_data_type = TRITONTF_TYPE_FP32, io_shape = [3]\<rparr>],
        TRITONTF_ModelOutputs = []\<rparr>"
  let ?y = "\<lparr>io_name = ''y'', io_inmodel_name = ''y:0'',
          io_data_type = TRITONTF_TYPE_FP32, io_shape = [3]\<rparr>"
  have n: "expected_input_count ?C = 1"
    by (simp add: expected_input_count_def resolved_controls_def)
  have m: "set_size (map io_name (TRITONTF_ModelInputs ?M)) = 2"
    by (simp add: set_size_def)
  have h1: "expected_input_count ?C \<noteq> set_size (map io_name (TRITONTF_ModelInputs ?M))"
    by (simp only: n m)
  have h2: "cfg_sequence_batching ?C = None" by simp
  have h3: "distinct (map cfg_name (cfg_input ?C))" by simp
  have h4: "set (map cfg_name (cfg_input ?C)) \<subseteq> set (map io_name (TRITONTF_ModelInputs ?M1))"
    by simp
  have h5: "set (map cfg_name (cfg_output ?C)) \<subseteq> set (map io_name (TRITONTF_ModelOutputs ?M1))"
    by simp
  have "fst (savedmodel_ValidateTRITONTFModel ''m'' ?C ?M (\<lambda>slot. 0)) =
          Some (TRITONSERVER_ErrorNew TRITONSERVER_ERROR_INVALID_ARG
             (''unable to load model '' @ [CHR 0x27] @ ''m'' @ [CHR 0x27] @
              '', configuration expects '' @ to_string_nat (expected_input_count ?C) @
              '' inputs, model provides '' @
              to_string_nat (set_size (map io_name (TRITONTF_ModelInputs ?M)))))"
    using savedmodel_input_count_is_strict [of ?C ?M "''m''" "\<lambda>slot. 0"] h1 h2
    by blast
  then have a: "fst (savedmodel_ValidateTRITONTFModel ''m'' ?C ?M (\<lambda>slot. 0)) =
     Some (TRITONSERVER_ErrorNew TRITONSERVER_ERROR_INVALID_ARG
          (''unable to load model '' @ [CHR 0x27] @ ''m'' @ [CHR 0x27] @
           '', configuration expects '' @ to_string_nat 1 @
           '' inputs, model provides '' @ to_string_nat 2))"
    by (simp only: n m)
  have b: "graphdef_ValidateTRITONTFModel ''m'' ?C ?M1 = None"
    using savedmodel_input_count_is_strict [of ?C ?M1 "''m''" "\<lambda>slot. 0"] h2 h3 h4 h5
    by blast
  have "graphdef_ValidateTRITONTFModel ''m'' ?C
          (?M1\<lparr>TRITONTF_ModelInputs := TRITONTF_ModelInputs ?M1 @ [?y]\<rparr>) = None"
    using savedmodel_input_count_is_strict [of ?C ?M1 "''m''" "\<lambda>slot. 0"] b
    by blast
  then have c: "graphdef_ValidateTRITONTFModel ''m'' ?C ?M = None"
    by simp
  from a b c show ?thesis by blast
qed

end
